theory Spec2Isabelle
  imports Complex_Main
begin

section \<open>Element-wise primitives (\<^verbatim>\<open>lib/inline_ops.h\<close>)\<close>

text \<open>
  The three device functions of \<^verbatim>\<open>inline_ops.h\<close>. They are templates over the scalar
  type \<open>T\<close> (\<^verbatim>\<open>float\<close> or \<^verbatim>\<open>double\<close>); the derivative primitives use ring operations
  only and are kept polymorphic, the logistic function needs \<open>exp\<close> and is stated over
  the reals. Rounding of the machine types is not part of the model.
\<close>

definition sigmoid :: "real \<Rightarrow> real" where
  "sigmoid x = 1 / (1 + exp (- x))"

definition d_sigmoid :: "'a::ring_1 \<Rightarrow> 'a" where
  "d_sigmoid sigmoid_output = sigmoid_output * (1 - sigmoid_output)"

definition d_tanh :: "'a::ring_1 \<Rightarrow> 'a" where
  "d_tanh tanh_output = 1 - tanh_output * tanh_output"

section \<open>The cached cuBLAS handles (\<^verbatim>\<open>frameworks/tf/gru.cc\<close>, lines 42--70)\<close>

text \<open>
  The part of the CUDA runtime and of cuBLAS that \<^verbatim>\<open>CublasHandleContainer\<close> and
  \<^verbatim>\<open>GetCublasHandle\<close> touch is a record: the number of devices, the device selected
  by \<^verbatim>\<open>cudaSetDevice\<close>, every handle \<^verbatim>\<open>cublasCreate\<close> has returned together with the
  device that was selected when it was created, the handles given to \<^verbatim>\<open>cublasDestroy\<close>,
  and the function-local static \<^verbatim>\<open>all_handles\<close> of \<^verbatim>\<open>GetCublasHandle\<close> (\<open>None\<close> until
  the first call constructs it). A handle is identified by the order of its creation.
  The source ignores the status codes of these calls; the model describes the runs in
  which they succeed. \<^verbatim>\<open>cudaSetDevice\<close> with a device number that does not exist
  leaves the selection as it is.
\<close>

type_synonym cublasHandle_t = nat

record process =
  device_count :: nat
  current_device :: nat
  created :: "(cublasHandle_t \<times> nat) list"
  destroyed :: "cublasHandle_t list"
  all_handles :: "cublasHandle_t list option"

definition cudaGetDevice :: "process \<Rightarrow> nat" where
  "cudaGetDevice p = current_device p"

definition cudaGetDeviceCount :: "process \<Rightarrow> nat" where
  "cudaGetDeviceCount p = device_count p"

definition cudaSetDevice :: "nat \<Rightarrow> process \<Rightarrow> process" where
  "cudaSetDevice device p =
     (if device < device_count p then p\<lparr>current_device := device\<rparr> else p)"

definition cublasCreate :: "process \<Rightarrow> cublasHandle_t \<times> process" where
  "cublasCreate p =
     (length (created p),
      p\<lparr>created := created p @ [(length (created p), current_device p)]\<rparr>)"

definition cublasDestroy :: "cublasHandle_t \<Rightarrow> process \<Rightarrow> process" where
  "cublasDestroy h p = p\<lparr>destroyed := destroyed p @ [h]\<rparr>"

text \<open>
  The constructor of the container: \<^verbatim>\<open>for (int i = 0; i < count; ++i)\<close> selects device
  \<open>i\<close>, creates a handle and appends it; then the device found on entry is selected
  again.
\<close>

function CublasHandleContainer_loop ::
  "nat \<Rightarrow> nat \<Rightarrow> cublasHandle_t list \<Rightarrow> process \<Rightarrow> cublasHandle_t list \<times> process" where
  "CublasHandleContainer_loop i count handles p =
     (if i < count then
        (case cublasCreate (cudaSetDevice i p) of
           (handle, p') \<Rightarrow> CublasHandleContainer_loop (i + 1) count (handles @ [handle]) p')
      else (handles, p))"
  by pat_completeness auto
termination
  by (relation "measure (\<lambda>(i, count, handles, p). count - i)") auto

declare CublasHandleContainer_loop.simps [simp del]

definition CublasHandleContainer :: "process \<Rightarrow> cublasHandle_t list \<times> process" where
  "CublasHandleContainer p =
     (let current_device = cudaGetDevice p;
          count = cudaGetDeviceCount p
      in case CublasHandleContainer_loop 0 count [] p of
           (handles, p') \<Rightarrow> (handles, cudaSetDevice current_device p'))"

text \<open>The destructor, run when the process exits.\<close>

definition CublasHandleContainer_destroy :: "cublasHandle_t list \<Rightarrow> process \<Rightarrow> process" where
  "CublasHandleContainer_destroy handles p = fold cublasDestroy handles p"

text \<open>
  \<^verbatim>\<open>GetCublasHandle\<close> constructs the static container on its first call and returns
  \<^verbatim>\<open>all_handles.handles[device]\<close> for the selected device. The vector is indexed
  without a bounds check; an index past its end is the value \<open>None\<close> here.
\<close>

definition GetCublasHandle :: "process \<Rightarrow> cublasHandle_t option \<times> process" where
  "GetCublasHandle p =
     (case (case all_handles p of
              Some handles \<Rightarrow> (handles, p)
            | None \<Rightarrow> (case CublasHandleContainer p of
                         (handles, p') \<Rightarrow> (handles, p'\<lparr>all_handles := Some handles\<rparr>))) of
        (handles, p') \<Rightarrow>
          (let device = cudaGetDevice p'
           in (if device < length handles then Some (handles ! device) else None, p')))"

definition process_exit :: "process \<Rightarrow> process" where
  "process_exit p =
     (case all_handles p of
        None \<Rightarrow> p
      | Some handles \<Rightarrow> CublasHandleContainer_destroy handles p)"

text \<open>
  A process lifetime, as far as the handles are concerned, is a sequence of lookups and
  of device selections made by other code, starting from a state without handles.
  \<open>handles_ready\<close> is the invariant of these states.
\<close>

datatype action = Lookup | SelectDevice nat

fun perform :: "action \<Rightarrow> process \<Rightarrow> process" where
  "perform Lookup p = snd (GetCublasHandle p)"
| "perform (SelectDevice d) p = cudaSetDevice d p"

definition process_start :: "nat \<Rightarrow> nat \<Rightarrow> process" where
  "process_start count device =
     \<lparr>device_count = count, current_device = device, created = [], destroyed = [],
      all_handles = None\<rparr>"

definition handles_ready :: "process \<Rightarrow> bool" where
  "handles_ready p =
     (current_device p < device_count p \<and> destroyed p = [] \<and>
      (case all_handles p of
         None \<Rightarrow> created p = []
       | Some handles \<Rightarrow>
           handles = [0..<device_count p] \<and>
           created p = map (\<lambda>i. (i, i)) [0..<device_count p]))"

section \<open>Tensors, shapes and allocation\<close>

text \<open>
  A tensor is its shape (a list of 64-bit dimension sizes, kept as integers with the
  range check of \<^verbatim>\<open>TensorShape\<close> written out) and its elements in row-major order. The
  element type is a parameter with a zero, the value \<^verbatim>\<open>cudaMemset(p, 0, n)\<close> leaves in
  every element.

  The operations below are the ones of the TensorFlow API that the two kernels call.
  \<^item> Constructing a \<^verbatim>\<open>TensorShape\<close> from dimension sizes aborts the process
    (\<open>CheckFailed\<close>) unless every size is in \<open>[0, 2\<^sup>6\<^sup>3)\<close> and so is the number of
    elements.
  \<^item> \<^verbatim>\<open>allocate_output\<close> and \<^verbatim>\<open>allocate_temp\<close> fail with \<open>ResourceExhausted\<close> when
    the allocator has no memory for the shape; a tensor without elements needs none.
    The contents of a new buffer are whatever the memory held (\<open>uninitialized\<close>).
  \<^item> \<^verbatim>\<open>t.SubSlice(i)\<close> is the view of slice \<open>i\<close> along the first dimension. It aborts
    unless the tensor has a first dimension, \<open>0 \<le> i \<le> dim0\<close> and, for a tensor that
    has a buffer, the slice lies inside the buffer.
  \<^item> The engines write through raw pointers into these views. \<open>write_slice\<close> and
    \<open>write_flat\<close> store what an engine wrote; a write cannot change the size of a
    buffer (\<open>overwrite\<close>).
\<close>

type_synonym TensorShape = "int list"

record 'a Tensor =
  shape :: TensorShape
  flat :: "'a list"

datatype Status =
    InvalidArgument int int
  | ShapeInferenceError
  | ResourceExhausted
  | CheckFailed

definition dims :: "'a Tensor \<Rightarrow> nat" where
  "dims t = length (shape t)"

definition dim_size :: "'a Tensor \<Rightarrow> nat \<Rightarrow> int" where
  "dim_size t d = shape t ! d"

definition NumElements :: "'a Tensor \<Rightarrow> int" where
  "NumElements t = prod_list (shape t)"

definition representable :: "int list \<Rightarrow> bool" where
  "representable dim_sizes =
     (list_all (\<lambda>d. 0 \<le> d \<and> d < 2 ^ 63) dim_sizes \<and> prod_list dim_sizes < 2 ^ 63)"

definition TensorShape_init :: "int list \<Rightarrow> Status + TensorShape" where
  "TensorShape_init dim_sizes =
     (if representable dim_sizes then Inr dim_sizes else Inl CheckFailed)"

definition well_formed :: "'a Tensor \<Rightarrow> bool" where
  "well_formed t =
     (representable (shape t) \<and> length (flat t) = nat (prod_list (shape t)))"

record 'a Allocator =
  alloc_ok :: "TensorShape \<Rightarrow> bool"
  uninitialized :: "nat \<Rightarrow> 'a"

definition allocatable :: "'a Allocator \<Rightarrow> TensorShape \<Rightarrow> bool" where
  "allocatable a s = (if prod_list s = 0 then True else alloc_ok a s)"

definition allocate :: "'a Allocator \<Rightarrow> TensorShape \<Rightarrow> Status + 'a Tensor" where
  "allocate a s =
     (if allocatable a s
      then Inr \<lparr>shape = s, flat = map (uninitialized a) [0..<nat (prod_list s)]\<rparr>
      else Inl ResourceExhausted)"

definition cudaMemset_zero :: "'a::zero Tensor \<Rightarrow> 'a Tensor" where
  "cudaMemset_zero t = t\<lparr>flat := replicate (length (flat t)) 0\<rparr>"

definition elems_per_dim0 :: "'a Tensor \<Rightarrow> nat" where
  "elems_per_dim0 t = nat (prod_list (tl (shape t)))"

definition slice_data :: "'a Tensor \<Rightarrow> int \<Rightarrow> 'a list" where
  "slice_data t index =
     take (elems_per_dim0 t) (drop (elems_per_dim0 t * nat index) (flat t))"

definition SubSlice :: "'a Tensor \<Rightarrow> int \<Rightarrow> Status + 'a Tensor" where
  "SubSlice t index =
     (case shape t of
        [] \<Rightarrow> Inl CheckFailed
      | dim0_size # rest \<Rightarrow>
          if index < 0 \<or> dim0_size < index then Inl CheckFailed
          else if flat t = [] then Inr \<lparr>shape = rest, flat = []\<rparr>
          else if length (flat t) < elems_per_dim0 t * nat index + elems_per_dim0 t
          then Inl CheckFailed
          else Inr \<lparr>shape = rest, flat = slice_data t index\<rparr>)"

definition overwrite :: "'a list \<Rightarrow> 'a list \<Rightarrow> 'a list" where
  "overwrite old new = take (length old) new @ drop (length new) old"

definition write_flat :: "'a Tensor \<Rightarrow> 'a list \<Rightarrow> 'a Tensor" where
  "write_flat t new = t\<lparr>flat := overwrite (flat t) new\<rparr>"

definition write_slice :: "'a Tensor \<Rightarrow> int \<Rightarrow> 'a list \<Rightarrow> 'a Tensor" where
  "write_slice t index new =
     t\<lparr>flat := take (elems_per_dim0 t * nat index) (flat t) @
                overwrite (slice_data t index) new @
                drop (elems_per_dim0 t * nat index + elems_per_dim0 t) (flat t)\<rparr>"

section \<open>The forward op \<^verbatim>\<open>HasteGru\<close> (\<^verbatim>\<open>frameworks/tf/gru.cc\<close>, lines 73--197)\<close>

text \<open>
  The shape function registered with the op (lines 85--110), on fully known shapes: it
  checks the ranks of the six inputs and declares the outputs \<open>[T, N, H]\<close> and
  \<open>[T, N, 4H]\<close>.
\<close>

definition HasteGru_ShapeFn :: "TensorShape list \<Rightarrow> Status + TensorShape \<times> TensorShape" where
  "HasteGru_ShapeFn inputs =
     (if map length inputs = [3, 2, 2, 1, 1, 3] then
        (let input_shape = inputs ! 0;
             recurrent_shape = inputs ! 2;
             time_steps = input_shape ! 0;
             batch_size = input_shape ! 1;
             hidden_size = recurrent_shape ! 0
         in if hidden_size * 4 < 2 ^ 63
            then Inr ([time_steps, batch_size, hidden_size],
                      [time_steps, batch_size, hidden_size * 4])
            else Inl ShapeInferenceError)
      else Inl ShapeInferenceError)"

text \<open>
  \<^verbatim>\<open>haste::v0::gru::ForwardPass<T>\<close> is declared in \<^verbatim>\<open>haste.h\<close> and implemented in the
  CUDA sources of the library, which this development does not embed. The engine is
  what its constructor receives; its \<^verbatim>\<open>Iterate\<close> is a parameter of the model: a function
  from the values behind the twelve arguments to the values it leaves in the four
  buffers it may write. The pointers \<^verbatim>\<open>h\<close> and \<^verbatim>\<open>h_out\<close> can be the same (they are at
  step 0, where both view slice 0 of \<^verbatim>\<open>output\<close>); \<open>fa_h_is_h_out\<close> tells the engine so.
  An optional argument is \<open>None\<close> when the op passes the literal
  \<^verbatim>\<open>nullptr\<close> and \<open>Some xs\<close> when it passes the data pointer of a view that holds \<open>xs\<close>.
  Everything proved about the op holds for every such function.
\<close>

record ForwardPass =
  fp_training :: bool
  fp_batch_size :: int
  fp_input_size :: int
  fp_hidden_size :: int
  fp_blas_handle :: cublasHandle_t

record 'a ForwardArgs =
  fa_W :: "'a list"
  fa_R :: "'a list"
  fa_bx :: "'a list"
  fa_br :: "'a list"
  fa_x :: "'a list"
  fa_h :: "'a list"
  fa_h_out :: "'a list"
  fa_h_is_h_out :: bool
  fa_v :: "'a list option"
  fa_tmp_Wx :: "'a list"
  fa_tmp_Rh :: "'a list"
  fa_zoneout_prob :: real
  fa_zoneout_mask :: "'a list option"

record 'a ForwardWrites =
  fw_h_out :: "'a list"
  fw_v :: "'a list"
  fw_tmp_Wx :: "'a list"
  fw_tmp_Rh :: "'a list"

type_synonym 'a ForwardIterate = "ForwardPass \<Rightarrow> 'a ForwardArgs \<Rightarrow> 'a ForwardWrites"

text \<open>
  The attributes of the kernel object, its six inputs, the buffers of one \<^verbatim>\<open>Compute\<close>
  call, and the result of a call. The attribute \<^verbatim>\<open>zoneout_prob_\<close> is a \<^verbatim>\<open>float\<close>; it is
  kept as a real number, and its use as a condition is the test \<open>\<noteq> 0\<close>. The local \<^verbatim>\<open>Tensor h\<close> always views a slice of
  \<^verbatim>\<open>output\<close>; \<open>fs_h\<close> is the index of that slice, and reading through the view reads
  what \<^verbatim>\<open>output\<close> holds at that moment. \<open>fs_calls\<close> records every \<^verbatim>\<open>Iterate\<close> call made
  so far: the step, the argument values and what the engine wrote.
\<close>

record HasteGruOp =
  training :: bool
  zoneout_prob :: real

record 'a HasteGruInputs =
  f_input :: "'a Tensor"
  f_kernel :: "'a Tensor"
  f_recurrent_kernel :: "'a Tensor"
  f_bias :: "'a Tensor"
  f_recurrent_bias :: "'a Tensor"
  f_zoneout_mask :: "'a Tensor"

record 'a ForwardCall =
  fc_step :: int
  fc_args :: "'a ForwardArgs"
  fc_writes :: "'a ForwardWrites"

record 'a ForwardState =
  fs_output :: "'a Tensor"
  fs_v_out :: "'a Tensor"
  fs_tmp_Wx :: "'a Tensor"
  fs_tmp_Rh :: "'a Tensor"
  fs_h :: int
  fs_calls :: "'a ForwardCall list"

record 'a HasteGruOutputs =
  out_h :: "'a Tensor"
  out_v :: "'a Tensor"

record 'a HasteGruRun =
  f_outcome :: "Status + 'a HasteGruOutputs"
  f_calls :: "'a ForwardCall list"
  f_process :: process

text \<open>One pass through the body of the time loop (lines 169--187).\<close>

definition HasteGruOp_iteration ::
  "'a ForwardIterate \<Rightarrow> ForwardPass \<Rightarrow> HasteGruOp \<Rightarrow> 'a HasteGruInputs \<Rightarrow> bool \<Rightarrow> int \<Rightarrow>
   'a ForwardState \<Rightarrow> Status + 'a ForwardState" where
  "HasteGruOp_iteration iterate forward op inp has_zoneout i st =
     (case SubSlice (f_input inp) i of Inl e \<Rightarrow> Inl e | Inr x \<Rightarrow>
      (case SubSlice (fs_output st) i of Inl e \<Rightarrow> Inl e | Inr new_h \<Rightarrow>
      (case SubSlice (fs_v_out st) i of Inl e \<Rightarrow> Inl e | Inr v \<Rightarrow>
      (case SubSlice (fs_tmp_Wx st) i of Inl e \<Rightarrow> Inl e | Inr tmp_Wx_cur \<Rightarrow>
      (case (if has_zoneout
            then (case SubSlice (f_zoneout_mask inp) i of
                    Inl e \<Rightarrow> Inl e | Inr m \<Rightarrow> Inr (Some (flat m)))
            else Inr None) of Inl e \<Rightarrow> Inl e | Inr mask_data \<Rightarrow>
      (let args = \<lparr>fa_W = flat (f_kernel inp),
                   fa_R = flat (f_recurrent_kernel inp),
                   fa_bx = flat (f_bias inp),
                   fa_br = flat (f_recurrent_bias inp),
                   fa_x = flat x,
                   fa_h = slice_data (fs_output st) (fs_h st),
                   fa_h_out = flat new_h,
                   fa_h_is_h_out = (fs_h st = i),
                   fa_v = (if training op then Some (flat v) else None),
                   fa_tmp_Wx = flat tmp_Wx_cur,
                   fa_tmp_Rh = flat (fs_tmp_Rh st),
                   fa_zoneout_prob = (if has_zoneout then zoneout_prob op else 0),
                   fa_zoneout_mask = mask_data\<rparr>;
           w = iterate forward args
       in Inr \<lparr>fs_output = write_slice (fs_output st) i (fw_h_out w),
               fs_v_out = (if training op then write_slice (fs_v_out st) i (fw_v w)
                           else fs_v_out st),
               fs_tmp_Wx = write_slice (fs_tmp_Wx st) i (fw_tmp_Wx w),
               fs_tmp_Rh = write_flat (fs_tmp_Rh st) (fw_tmp_Rh w),
               fs_h = i,
               fs_calls = fs_calls st @ [\<lparr>fc_step = i, fc_args = args, fc_writes = w\<rparr>]\<rparr>))))))"

text \<open>
  \<^verbatim>\<open>for (int64 i = 0; i < time_steps; ++i)\<close>. A failed check inside the body ends the
  run; the state returned with it holds the calls made before.
\<close>

function HasteGruOp_loop ::
  "'a ForwardIterate \<Rightarrow> ForwardPass \<Rightarrow> HasteGruOp \<Rightarrow> 'a HasteGruInputs \<Rightarrow> bool \<Rightarrow> int \<Rightarrow> int \<Rightarrow>
   'a ForwardState \<Rightarrow> Status option \<times> 'a ForwardState" where
  "HasteGruOp_loop iterate forward op inp has_zoneout time_steps i st =
     (if i < time_steps then
        (case HasteGruOp_iteration iterate forward op inp has_zoneout i st of
           Inl e \<Rightarrow> (Some e, st)
         | Inr st' \<Rightarrow> HasteGruOp_loop iterate forward op inp has_zoneout time_steps (i + 1) st')
      else (None, st))"
  by pat_completeness auto
termination
  by (relation "measure (\<lambda>(iterate, forward, op, inp, has_zoneout, time_steps, i, st).
        nat (time_steps - i))") auto

declare HasteGruOp_loop.simps [simp del]

definition rejected :: "Status \<Rightarrow> process \<Rightarrow> 'a HasteGruRun" where
  "rejected e proc = \<lparr>f_outcome = Inl e, f_calls = [], f_process = proc\<rparr>"

text \<open>
  Lines 130--158 of \<^verbatim>\<open>Compute\<close>: the dimensions are read (a tensor of too small a
  rank never passes the shape function; reading a missing dimension is \<open>CheckFailed\<close>),
  the input size is compared with the first dimension of the kernel, the two outputs
  and the two temporaries are allocated, and \<^verbatim>\<open>output\<close> is set to zero.
\<close>

definition HasteGruOp_buffers ::
  "HasteGruOp \<Rightarrow> 'a::zero Allocator \<Rightarrow> 'a HasteGruInputs \<Rightarrow> Status + 'a ForwardState" where
  "HasteGruOp_buffers op alloc inp =
     (let input = f_input inp;
          kernel = f_kernel inp;
          recurrent_kernel = f_recurrent_kernel inp
      in if dims input < 3 \<or> dims kernel < 1 \<or> dims recurrent_kernel < 1
         then Inl CheckFailed
         else
      (let time_steps = dim_size input 0;
           batch_size = dim_size input 1;
           input_size = dim_size input 2;
           hidden_size = dim_size recurrent_kernel 0
       in if input_size \<noteq> dim_size kernel 0
          then Inl (InvalidArgument input_size (dim_size kernel 0))
          else
       (case TensorShape_init [time_steps, batch_size, hidden_size] of
          Inl e \<Rightarrow> Inl e | Inr output_shape \<Rightarrow>
       (case TensorShape_init
               [time_steps, batch_size, if training op then hidden_size * 4 else 0] of
          Inl e \<Rightarrow> Inl e | Inr v_out_shape \<Rightarrow>
       (case allocate alloc output_shape of
          Inl e \<Rightarrow> Inl e | Inr output \<Rightarrow>
       (case allocate alloc v_out_shape of
          Inl e \<Rightarrow> Inl e | Inr v_out \<Rightarrow>
       (case TensorShape_init [time_steps, batch_size, hidden_size * 3] of
          Inl e \<Rightarrow> Inl e | Inr tmp_Wx_shape \<Rightarrow>
       (case allocate alloc tmp_Wx_shape of
          Inl e \<Rightarrow> Inl e | Inr tmp_Wx \<Rightarrow>
       (case TensorShape_init [batch_size, hidden_size * 3] of
          Inl e \<Rightarrow> Inl e | Inr tmp_Rh_shape \<Rightarrow>
       (case allocate alloc tmp_Rh_shape of
          Inl e \<Rightarrow> Inl e | Inr tmp_Rh \<Rightarrow>
       Inr \<lparr>fs_output = cudaMemset_zero output, fs_v_out = v_out, fs_tmp_Wx = tmp_Wx,
            fs_tmp_Rh = tmp_Rh, fs_h = 0, fs_calls = []\<rparr>))))))))))"

text \<open>
  \<^verbatim>\<open>HasteGruOp<T>::Compute\<close>: the buffers are set up, the handle of the selected device
  is looked up, the engine is constructed, \<^verbatim>\<open>h\<close> is made a view of slice 0 of
  \<^verbatim>\<open>output\<close>, and the time loop runs. A call that \<^verbatim>\<open>OP_REQUIRES\<close> or
  \<^verbatim>\<open>OP_REQUIRES_OK\<close> ends returns its status and no outputs. The dimensions bound at
  the top are used only once \<open>HasteGruOp_buffers\<close> has found the ranks sufficient.
\<close>

definition HasteGruOp_Compute ::
  "'a::zero ForwardIterate \<Rightarrow> HasteGruOp \<Rightarrow> 'a Allocator \<Rightarrow> 'a HasteGruInputs \<Rightarrow> process \<Rightarrow>
   'a HasteGruRun" where
  "HasteGruOp_Compute iterate op alloc inp proc =
     (let time_steps = dim_size (f_input inp) 0;
          batch_size = dim_size (f_input inp) 1;
          input_size = dim_size (f_input inp) 2;
          hidden_size = dim_size (f_recurrent_kernel inp) 0;
          has_zoneout = (zoneout_prob op \<noteq> 0 \<and> NumElements (f_zoneout_mask inp) \<noteq> 0)
      in case HasteGruOp_buffers op alloc inp of
           Inl e \<Rightarrow> rejected e proc
         | Inr buffers \<Rightarrow>
      (case GetCublasHandle proc of
         (None, proc') \<Rightarrow> rejected CheckFailed proc'
       | (Some blas_handle, proc') \<Rightarrow>
      (let forward = \<lparr>fp_training = training op, fp_batch_size = batch_size,
                       fp_input_size = input_size, fp_hidden_size = hidden_size,
                       fp_blas_handle = blas_handle\<rparr>
       in case SubSlice (fs_output buffers) 0 of
            Inl e \<Rightarrow> rejected e proc'
          | Inr h \<Rightarrow>
      (case HasteGruOp_loop iterate forward op inp has_zoneout time_steps 0 buffers of
         (Some e, st) \<Rightarrow> \<lparr>f_outcome = Inl e, f_calls = fs_calls st, f_process = proc'\<rparr>
       | (None, st) \<Rightarrow>
           \<lparr>f_outcome = Inr \<lparr>out_h = fs_output st, out_v = fs_v_out st\<rparr>,
            f_calls = fs_calls st, f_process = proc'\<rparr>))))"

text \<open>
  A legal forward call: the inputs have the shapes the op registration documents
  (\<open>x: [T,N,C]\<close>, \<open>kernel: [C,H*3]\<close>, \<open>recurrent_kernel: [H,H*3]\<close>, the two biases
  \<open>[H*3]\<close>, \<open>zoneout_mask: [T,N,H]\<close> or without elements), the buffers the call needs
  have shapes a \<^verbatim>\<open>TensorShape\<close> can hold and the allocator grants them, and a device is
  selected.
\<close>

definition legal_forward ::
  "HasteGruOp \<Rightarrow> 'a Allocator \<Rightarrow> 'a HasteGruInputs \<Rightarrow> process \<Rightarrow> bool" where
  "legal_forward op alloc inp proc =
     (let T = dim_size (f_input inp) 0;
          N = dim_size (f_input inp) 1;
          C = dim_size (f_input inp) 2;
          H = dim_size (f_recurrent_kernel inp) 0;
          V = (if training op then H * 4 else 0)
      in shape (f_input inp) = [T, N, C] \<and> well_formed (f_input inp) \<and>
         shape (f_kernel inp) = [C, H * 3] \<and> well_formed (f_kernel inp) \<and>
         shape (f_recurrent_kernel inp) = [H, H * 3] \<and> well_formed (f_recurrent_kernel inp) \<and>
         shape (f_bias inp) = [H * 3] \<and> well_formed (f_bias inp) \<and>
         shape (f_recurrent_bias inp) = [H * 3] \<and> well_formed (f_recurrent_bias inp) \<and>
         (if NumElements (f_zoneout_mask inp) = 0 then True
          else shape (f_zoneout_mask inp) = [T, N, H]) \<and>
         well_formed (f_zoneout_mask inp) \<and>
         representable [T, N, H] \<and> allocatable alloc [T, N, H] \<and>
         representable [T, N, V] \<and> allocatable alloc [T, N, V] \<and>
         representable [T, N, H * 3] \<and> allocatable alloc [T, N, H * 3] \<and>
         representable [N, H * 3] \<and> allocatable alloc [N, H * 3] \<and>
         handles_ready proc)"

text \<open>
  \<open>sliceable n t\<close>: the first \<open>n\<close> slices of \<open>t\<close> can be taken. It is the invariant
  that keeps the time loop of a legal call from failing.
\<close>

definition sliceable :: "int \<Rightarrow> 'a Tensor \<Rightarrow> bool" where
  "sliceable n t =
     (case shape t of
        [] \<Rightarrow> False
      | dim0_size # rest \<Rightarrow>
          n \<le> dim0_size \<and>
          (if flat t = [] then True
           else length (flat t) = nat dim0_size * nat (prod_list rest)))"

section \<open>The backward op \<^verbatim>\<open>HasteGruGrad\<close> (\<^verbatim>\<open>frameworks/tf/gru.cc\<close>, lines 199--366)\<close>

text \<open>
  As for the forward pass, \<^verbatim>\<open>BackwardPass<T>::Iterate\<close> is a parameter: a function from
  the values behind its seventeen arguments to the values it leaves in the eight
  buffers it may write (\<open>dx\<close>, \<open>dW\<close>, \<open>dR\<close>, \<open>dbx\<close>, \<open>dbr\<close>, \<open>dh\<close>, \<open>dp\<close>, \<open>dq\<close>).
\<close>

record BackwardPass =
  bp_batch_size :: int
  bp_input_size :: int
  bp_hidden_size :: int
  bp_blas_handle :: cublasHandle_t

record 'a BackwardArgs =
  ba_W_t :: "'a list"
  ba_R_t :: "'a list"
  ba_bx :: "'a list"
  ba_br :: "'a list"
  ba_x_t :: "'a list"
  ba_h :: "'a list"
  ba_v :: "'a list"
  ba_dh_new :: "'a list"
  ba_dx :: "'a list"
  ba_dW :: "'a list"
  ba_dR :: "'a list"
  ba_dbx :: "'a list"
  ba_dbr :: "'a list"
  ba_dh :: "'a list"
  ba_dp :: "'a list"
  ba_dq :: "'a list"
  ba_zoneout_mask :: "'a list option"

record 'a BackwardWrites =
  bw_dx :: "'a list"
  bw_dW :: "'a list"
  bw_dR :: "'a list"
  bw_dbx :: "'a list"
  bw_dbr :: "'a list"
  bw_dh :: "'a list"
  bw_dp :: "'a list"
  bw_dq :: "'a list"

type_synonym 'a BackwardIterate = "BackwardPass \<Rightarrow> 'a BackwardArgs \<Rightarrow> 'a BackwardWrites"

record 'a HasteGruGradInputs =
  g_input :: "'a Tensor"
  g_kernel :: "'a Tensor"
  g_recurrent_kernel :: "'a Tensor"
  g_bias :: "'a Tensor"
  g_recurrent_bias :: "'a Tensor"
  g_h_vector :: "'a Tensor"
  g_v_vector :: "'a Tensor"
  g_dh_new :: "'a Tensor"
  g_zoneout_mask :: "'a Tensor"

record 'a BackwardCall =
  bc_step :: int
  bc_args :: "'a BackwardArgs"
  bc_writes :: "'a BackwardWrites"

record 'a BackwardState =
  bs_dx :: "'a Tensor"
  bs_dW :: "'a Tensor"
  bs_dR :: "'a Tensor"
  bs_dbx :: "'a Tensor"
  bs_dbr :: "'a Tensor"
  bs_dh :: "'a Tensor"
  bs_dp :: "'a Tensor"
  bs_dq :: "'a Tensor"
  bs_calls :: "'a BackwardCall list"

record 'a HasteGruGradOutputs =
  out_dx :: "'a Tensor"
  out_dW :: "'a Tensor"
  out_dR :: "'a Tensor"
  out_dbx :: "'a Tensor"
  out_dbr :: "'a Tensor"

record 'a HasteGruGradRun =
  g_outcome :: "Status + 'a HasteGruGradOutputs"
  g_calls :: "'a BackwardCall list"
  g_process :: process

text \<open>One pass through the body of the reverse time loop (lines 330--360).\<close>

definition HasteGruGradOp_iteration ::
  "'a BackwardIterate \<Rightarrow> BackwardPass \<Rightarrow> 'a HasteGruGradInputs \<Rightarrow> bool \<Rightarrow> 'a Tensor \<Rightarrow> int \<Rightarrow>
   'a BackwardState \<Rightarrow> Status + 'a BackwardState" where
  "HasteGruGradOp_iteration iterate backward inp has_zoneout zero_vector i st =
     (case SubSlice (g_input inp) i of Inl e \<Rightarrow> Inl e | Inr x \<Rightarrow>
      (case (if i \<noteq> 0 then SubSlice (g_h_vector inp) (i - 1) else Inr zero_vector) of
        Inl e \<Rightarrow> Inl e | Inr h \<Rightarrow>
      (case SubSlice (g_v_vector inp) i of Inl e \<Rightarrow> Inl e | Inr v \<Rightarrow>
      (case SubSlice (g_dh_new inp) i of Inl e \<Rightarrow> Inl e | Inr dh_new_cur \<Rightarrow>
      (case SubSlice (bs_dx st) i of Inl e \<Rightarrow> Inl e | Inr dx_cur \<Rightarrow>
      (case SubSlice (bs_dp st) i of Inl e \<Rightarrow> Inl e | Inr dp_cur \<Rightarrow>
      (case SubSlice (bs_dq st) i of Inl e \<Rightarrow> Inl e | Inr dq_cur \<Rightarrow>
      (case (if has_zoneout
            then (case SubSlice (g_zoneout_mask inp) i of
                    Inl e \<Rightarrow> Inl e | Inr m \<Rightarrow> Inr (Some (flat m)))
            else Inr None) of Inl e \<Rightarrow> Inl e | Inr mask_data \<Rightarrow>
      (let args = \<lparr>ba_W_t = flat (g_kernel inp),
                   ba_R_t = flat (g_recurrent_kernel inp),
                   ba_bx = flat (g_bias inp),
                   ba_br = flat (g_recurrent_bias inp),
                   ba_x_t = flat x,
                   ba_h = flat h,
                   ba_v = flat v,
                   ba_dh_new = flat dh_new_cur,
                   ba_dx = flat dx_cur,
                   ba_dW = flat (bs_dW st),
                   ba_dR = flat (bs_dR st),
                   ba_dbx = flat (bs_dbx st),
                   ba_dbr = flat (bs_dbr st),
                   ba_dh = flat (bs_dh st),
                   ba_dp = flat dp_cur,
                   ba_dq = flat dq_cur,
                   ba_zoneout_mask = mask_data\<rparr>;
           w = iterate backward args
       in Inr \<lparr>bs_dx = write_slice (bs_dx st) i (bw_dx w),
               bs_dW = write_flat (bs_dW st) (bw_dW w),
               bs_dR = write_flat (bs_dR st) (bw_dR w),
               bs_dbx = write_flat (bs_dbx st) (bw_dbx w),
               bs_dbr = write_flat (bs_dbr st) (bw_dbr w),
               bs_dh = write_flat (bs_dh st) (bw_dh w),
               bs_dp = write_slice (bs_dp st) i (bw_dp w),
               bs_dq = write_slice (bs_dq st) i (bw_dq w),
               bs_calls = bs_calls st @ [\<lparr>bc_step = i, bc_args = args, bc_writes = w\<rparr>]\<rparr>)))))))))"

text \<open>\<^verbatim>\<open>for (int64 i = time_steps - 1; i >= 0; --i)\<close>.\<close>

function HasteGruGradOp_loop ::
  "'a BackwardIterate \<Rightarrow> BackwardPass \<Rightarrow> 'a HasteGruGradInputs \<Rightarrow> bool \<Rightarrow> 'a Tensor \<Rightarrow> int \<Rightarrow>
   'a BackwardState \<Rightarrow> Status option \<times> 'a BackwardState" where
  "HasteGruGradOp_loop iterate backward inp has_zoneout zero_vector i st =
     (if 0 \<le> i then
        (case HasteGruGradOp_iteration iterate backward inp has_zoneout zero_vector i st of
           Inl e \<Rightarrow> (Some e, st)
         | Inr st' \<Rightarrow> HasteGruGradOp_loop iterate backward inp has_zoneout zero_vector (i - 1) st')
      else (None, st))"
  by pat_completeness auto
termination
  by (relation "measure (\<lambda>(iterate, backward, inp, has_zoneout, zero_vector, i, st).
        nat (i + 1))") auto

declare HasteGruGradOp_loop.simps [simp del]

definition grad_rejected :: "Status \<Rightarrow> process \<Rightarrow> 'a HasteGruGradRun" where
  "grad_rejected e proc = \<lparr>g_outcome = Inl e, g_calls = [], g_process = proc\<rparr>"

text \<open>
  Lines 264--321 of \<^verbatim>\<open>Compute\<close>: the dimensions are read, the five outputs and the four
  temporaries are allocated, and \<^verbatim>\<open>dW\<close>, \<^verbatim>\<open>dR\<close>, \<^verbatim>\<open>dbx\<close>, \<^verbatim>\<open>dbr\<close>, \<^verbatim>\<open>dh\<close> and
  \<^verbatim>\<open>zero_vector\<close> are set to zero. No dimension is compared with another.
\<close>

record 'a BackwardBuffers =
  bb_state :: "'a BackwardState"
  bb_zero_vector :: "'a Tensor"

definition HasteGruGradOp_buffers ::
  "'a::zero Allocator \<Rightarrow> 'a HasteGruGradInputs \<Rightarrow> Status + 'a BackwardBuffers" where
  "HasteGruGradOp_buffers alloc inp =
     (let input = g_input inp;
          recurrent_kernel = g_recurrent_kernel inp
      in if dims input < 3 \<or> dims recurrent_kernel < 2
         then Inl CheckFailed
         else
      (let time_steps = dim_size input 0;
           input_size = dim_size input 1;
           batch_size = dim_size input 2;
           hidden_size = dim_size recurrent_kernel 1
       in
       (case TensorShape_init [time_steps, batch_size, input_size] of
          Inl e \<Rightarrow> Inl e | Inr dx_shape \<Rightarrow>
       (case allocate alloc dx_shape of
          Inl e \<Rightarrow> Inl e | Inr dx \<Rightarrow>
       (case TensorShape_init [input_size, hidden_size * 3] of
          Inl e \<Rightarrow> Inl e | Inr dW_shape \<Rightarrow>
       (case allocate alloc dW_shape of
          Inl e \<Rightarrow> Inl e | Inr dW \<Rightarrow>
       (case TensorShape_init [hidden_size, hidden_size * 3] of
          Inl e \<Rightarrow> Inl e | Inr dR_shape \<Rightarrow>
       (case allocate alloc dR_shape of
          Inl e \<Rightarrow> Inl e | Inr dR \<Rightarrow>
       (case TensorShape_init [hidden_size * 3] of
          Inl e \<Rightarrow> Inl e | Inr dbx_shape \<Rightarrow>
       (case allocate alloc dbx_shape of
          Inl e \<Rightarrow> Inl e | Inr dbx \<Rightarrow>
       (case TensorShape_init [hidden_size * 3] of
          Inl e \<Rightarrow> Inl e | Inr dbr_shape \<Rightarrow>
       (case allocate alloc dbr_shape of
          Inl e \<Rightarrow> Inl e | Inr dbr \<Rightarrow>
       (case TensorShape_init [batch_size, hidden_size] of
          Inl e \<Rightarrow> Inl e | Inr dh_shape \<Rightarrow>
       (case allocate alloc dh_shape of
          Inl e \<Rightarrow> Inl e | Inr dh \<Rightarrow>
       (case TensorShape_init [time_steps, batch_size, hidden_size * 3] of
          Inl e \<Rightarrow> Inl e | Inr dp_shape \<Rightarrow>
       (case allocate alloc dp_shape of
          Inl e \<Rightarrow> Inl e | Inr dp \<Rightarrow>
       (case TensorShape_init [time_steps, batch_size, hidden_size * 3] of
          Inl e \<Rightarrow> Inl e | Inr dq_shape \<Rightarrow>
       (case allocate alloc dq_shape of
          Inl e \<Rightarrow> Inl e | Inr dq \<Rightarrow>
       (case TensorShape_init [batch_size, hidden_size] of
          Inl e \<Rightarrow> Inl e | Inr zero_vector_shape \<Rightarrow>
       (case allocate alloc zero_vector_shape of
          Inl e \<Rightarrow> Inl e | Inr zero_vector \<Rightarrow>
       Inr \<lparr>bb_state =
              \<lparr>bs_dx = dx, bs_dW = cudaMemset_zero dW, bs_dR = cudaMemset_zero dR,
               bs_dbx = cudaMemset_zero dbx, bs_dbr = cudaMemset_zero dbr,
               bs_dh = cudaMemset_zero dh, bs_dp = dp, bs_dq = dq, bs_calls = []\<rparr>,
            bb_zero_vector = cudaMemset_zero zero_vector\<rparr>))))))))))))))))))))"

text \<open>
  \<^verbatim>\<open>HasteGruGradOp<T>::Compute\<close>: the buffers are set up, the handle of the selected
  device is looked up, the engine is constructed, and the reverse time loop runs from
  step \<open>time_steps - 1\<close>. The mask is handed to the engine whenever it has elements;
  the op has no zoneout probability.
\<close>

definition HasteGruGradOp_Compute ::
  "'a::zero BackwardIterate \<Rightarrow> 'a Allocator \<Rightarrow> 'a HasteGruGradInputs \<Rightarrow> process \<Rightarrow>
   'a HasteGruGradRun" where
  "HasteGruGradOp_Compute iterate alloc inp proc =
     (let time_steps = dim_size (g_input inp) 0;
          input_size = dim_size (g_input inp) 1;
          batch_size = dim_size (g_input inp) 2;
          hidden_size = dim_size (g_recurrent_kernel inp) 1;
          has_zoneout = (NumElements (g_zoneout_mask inp) \<noteq> 0)
      in case HasteGruGradOp_buffers alloc inp of
           Inl e \<Rightarrow> grad_rejected e proc
         | Inr buffers \<Rightarrow>
      (case GetCublasHandle proc of
         (None, proc') \<Rightarrow> grad_rejected CheckFailed proc'
       | (Some blas_handle, proc') \<Rightarrow>
      (let backward = \<lparr>bp_batch_size = batch_size, bp_input_size = input_size,
                        bp_hidden_size = hidden_size, bp_blas_handle = blas_handle\<rparr>
       in case HasteGruGradOp_loop iterate backward inp has_zoneout (bb_zero_vector buffers)
                 (time_steps - 1) (bb_state buffers) of
            (Some e, st) \<Rightarrow> \<lparr>g_outcome = Inl e, g_calls = bs_calls st, g_process = proc'\<rparr>
          | (None, st) \<Rightarrow>
              \<lparr>g_outcome = Inr \<lparr>out_dx = bs_dx st, out_dW = bs_dW st, out_dR = bs_dR st,
                                 out_dbx = bs_dbx st, out_dbr = bs_dbr st\<rparr>,
               g_calls = bs_calls st, g_process = proc'\<rparr>)))"

text \<open>
  A legal backward call, with the shapes the op registration documents (\<open>x_t: [T,C,N]\<close>,
  \<open>kernel_t: [H*3,C]\<close>, \<open>recurrent_kernel_t: [H*3,H]\<close>, \<open>h_t: [T,H,N]\<close>, \<open>v: [T,N,H*4]\<close>,
  \<open>dh_new: [T,N,H]\<close>, \<open>zoneout_mask: [T,N,H]\<close> or without elements).
\<close>

definition legal_backward ::
  "'a Allocator \<Rightarrow> 'a HasteGruGradInputs \<Rightarrow> process \<Rightarrow> bool" where
  "legal_backward alloc inp proc =
     (let T = dim_size (g_input inp) 0;
          C = dim_size (g_input inp) 1;
          N = dim_size (g_input inp) 2;
          H = dim_size (g_recurrent_kernel inp) 1
      in shape (g_input inp) = [T, C, N] \<and> well_formed (g_input inp) \<and>
         shape (g_kernel inp) = [H * 3, C] \<and> well_formed (g_kernel inp) \<and>
         shape (g_recurrent_kernel inp) = [H * 3, H] \<and> well_formed (g_recurrent_kernel inp) \<and>
         shape (g_bias inp) = [H * 3] \<and> well_formed (g_bias inp) \<and>
         shape (g_recurrent_bias inp) = [H * 3] \<and> well_formed (g_recurrent_bias inp) \<and>
         shape (g_h_vector inp) = [T, H, N] \<and> well_formed (g_h_vector inp) \<and>
         shape (g_v_vector inp) = [T, N, H * 4] \<and> well_formed (g_v_vector inp) \<and>
         shape (g_dh_new inp) = [T, N, H] \<and> well_formed (g_dh_new inp) \<and>
         (if NumElements (g_zoneout_mask inp) = 0 then True
          else shape (g_zoneout_mask inp) = [T, N, H]) \<and>
         well_formed (g_zoneout_mask inp) \<and>
         representable [T, N, C] \<and> allocatable alloc [T, N, C] \<and>
         representable [C, H * 3] \<and> allocatable alloc [C, H * 3] \<and>
         representable [H, H * 3] \<and> allocatable alloc [H, H * 3] \<and>
         representable [H * 3] \<and> allocatable alloc [H * 3] \<and>
         representable [N, H] \<and> allocatable alloc [N, H] \<and>
         representable [T, N, H * 3] \<and> allocatable alloc [T, N, H * 3] \<and>
         handles_ready proc)"

text \<open>
  The five buffers every reverse step receives and may update, as a call finds them
  (\<open>accumulators\<close>) and as it leaves them (\<open>accumulated\<close>). A trace is \<open>carried\<close> when
  each call finds them as the call before left them.
\<close>

definition accumulators :: "'a BackwardArgs \<Rightarrow> 'a list list" where
  "accumulators a = [ba_dW a, ba_dR a, ba_dbx a, ba_dbr a, ba_dh a]"

definition accumulated :: "'a BackwardCall \<Rightarrow> 'a list list" where
  "accumulated c =
     [overwrite (ba_dW (bc_args c)) (bw_dW (bc_writes c)),
      overwrite (ba_dR (bc_args c)) (bw_dR (bc_writes c)),
      overwrite (ba_dbx (bc_args c)) (bw_dbx (bc_writes c)),
      overwrite (ba_dbr (bc_args c)) (bw_dbr (bc_writes c)),
      overwrite (ba_dh (bc_args c)) (bw_dh (bc_writes c))]"

fun carried :: "'a BackwardCall list \<Rightarrow> bool" where
  "carried [] = True"
| "carried [c] = True"
| "carried (c # d # cs) = (accumulators (bc_args d) = accumulated c \<and> carried (d # cs))"

section \<open>Concrete engines and inputs\<close>

text \<open>
  Engines that leave every buffer as they find it, engines that count (the forward one
  writes the previous hidden state plus one, the backward one adds one to every
  accumulator), an allocator that never runs out of memory, and small inputs (\<open>T = 2\<close>, \<open>N = C = H = 1\<close>), used to run the two ops on
  concrete data.
\<close>

definition idle_forward :: "'a ForwardIterate" where
  "idle_forward forward a =
     \<lparr>fw_h_out = fa_h_out a,
      fw_v = (case fa_v a of None \<Rightarrow> [] | Some v \<Rightarrow> v),
      fw_tmp_Wx = fa_tmp_Wx a,
      fw_tmp_Rh = fa_tmp_Rh a\<rparr>"

definition idle_backward :: "'a BackwardIterate" where
  "idle_backward backward a =
     \<lparr>bw_dx = ba_dx a, bw_dW = ba_dW a, bw_dR = ba_dR a, bw_dbx = ba_dbx a,
      bw_dbr = ba_dbr a, bw_dh = ba_dh a, bw_dp = ba_dp a, bw_dq = ba_dq a\<rparr>"

definition counting_forward :: "real ForwardIterate" where
  "counting_forward forward a =
     \<lparr>fw_h_out = map (\<lambda>x. x + 1) (fa_h a),
      fw_v = (case fa_v a of None \<Rightarrow> [] | Some v \<Rightarrow> map (\<lambda>x. 7) v),
      fw_tmp_Wx = fa_tmp_Wx a,
      fw_tmp_Rh = fa_tmp_Rh a\<rparr>"

definition counting_backward :: "real BackwardIterate" where
  "counting_backward backward a =
     \<lparr>bw_dx = map (\<lambda>x. 9) (ba_dx a),
      bw_dW = map (\<lambda>x. x + 1) (ba_dW a),
      bw_dR = map (\<lambda>x. x + 1) (ba_dR a),
      bw_dbx = map (\<lambda>x. x + 1) (ba_dbx a),
      bw_dbr = map (\<lambda>x. x + 1) (ba_dbr a),
      bw_dh = map (\<lambda>x. x + 1) (ba_dh a),
      bw_dp = ba_dp a,
      bw_dq = ba_dq a\<rparr>"

definition roomy :: "real Allocator" where
  "roomy = \<lparr>alloc_ok = (\<lambda>s. True), uninitialized = (\<lambda>n. 100 + real n)\<rparr>"

definition tiny_forward :: "real HasteGruInputs" where
  "tiny_forward =
     \<lparr>f_input = \<lparr>shape = [2, 1, 1], flat = [5, 6]\<rparr>,
      f_kernel = \<lparr>shape = [1, 3], flat = [1, 2, 3]\<rparr>,
      f_recurrent_kernel = \<lparr>shape = [1, 3], flat = [1, 2, 3]\<rparr>,
      f_bias = \<lparr>shape = [3], flat = [0, 0, 0]\<rparr>,
      f_recurrent_bias = \<lparr>shape = [3], flat = [0, 0, 0]\<rparr>,
      f_zoneout_mask = \<lparr>shape = [2, 1, 1], flat = [1, 0]\<rparr>\<rparr>"

definition tiny_backward :: "real HasteGruGradInputs" where
  "tiny_backward =
     \<lparr>g_input = \<lparr>shape = [2, 1, 1], flat = [5, 6]\<rparr>,
      g_kernel = \<lparr>shape = [3, 1], flat = [1, 2, 3]\<rparr>,
      g_recurrent_kernel = \<lparr>shape = [3, 1], flat = [1, 2, 3]\<rparr>,
      g_bias = \<lparr>shape = [3], flat = [0, 0, 0]\<rparr>,
      g_recurrent_bias = \<lparr>shape = [3], flat = [0, 0, 0]\<rparr>,
      g_h_vector = \<lparr>shape = [2, 1, 1], flat = [41, 42]\<rparr>,
      g_v_vector = \<lparr>shape = [2, 1, 4], flat = [1, 2, 3, 4, 5, 6, 7, 8]\<rparr>,
      g_dh_new = \<lparr>shape = [2, 1, 1], flat = [31, 32]\<rparr>,
      g_zoneout_mask = \<lparr>shape = [2, 1, 1], flat = [1, 0]\<rparr>\<rparr>"

definition mismatched_backward :: "real HasteGruGradInputs" where
  "mismatched_backward =
     tiny_backward\<lparr>g_kernel := \<lparr>shape = [3, 2], flat = [1, 2, 3, 4, 5, 6]\<rparr>\<rparr>"

definition mismatched_forward :: "real HasteGruInputs" where
  "mismatched_forward =
     tiny_forward\<lparr>f_kernel := \<lparr>shape = [2, 3], flat = [1, 2, 3, 4, 5, 6]\<rparr>\<rparr>"

definition unchecked_forward :: "real HasteGruInputs" where
  "unchecked_forward =
     tiny_forward\<lparr>f_kernel := \<lparr>shape = [1, 7], flat = [1, 2, 3, 4, 5, 6, 7]\<rparr>\<rparr>"

definition empty_forward :: "real HasteGruInputs" where
  "empty_forward =
     tiny_forward\<lparr>f_input := \<lparr>shape = [0, 1, 1], flat = []\<rparr>,
                  f_zoneout_mask := \<lparr>shape = [0, 1, 1], flat = []\<rparr>\<rparr>"

definition empty_backward :: "real HasteGruGradInputs" where
  "empty_backward =
     tiny_backward\<lparr>g_input := \<lparr>shape = [0, 1, 1], flat = []\<rparr>,
                   g_h_vector := \<lparr>shape = [0, 1, 1], flat = []\<rparr>,
                   g_v_vector := \<lparr>shape = [0, 1, 4], flat = []\<rparr>,
                   g_dh_new := \<lparr>shape = [0, 1, 1], flat = []\<rparr>,
                   g_zoneout_mask := \<lparr>shape = [0, 1, 1], flat = []\<rparr>\<rparr>"

lemma sigmoid_deriv:
  "(sigmoid has_real_derivative d_sigmoid (sigmoid x)) (at x)"
proof -
  have pos: "1 + exp (- x) \<noteq> 0"
    using exp_gt_zero [of "- x"] by linarith
  have "((\<lambda>x. 1 / (1 + exp (- x))) has_real_derivative
          d_sigmoid (1 / (1 + exp (- x)))) (at x)"
    unfolding d_sigmoid_def
    by (rule derivative_eq_intros refl pos | simp add: pos)+
       (use pos in \<open>simp add: field_simps power2_eq_square\<close>)
  then show ?thesis
    unfolding sigmoid_def [abs_def] by simp
qed

lemma tanh_deriv:
  "(tanh has_real_derivative d_tanh (tanh x)) (at x)"
proof -
  have c: "cosh x \<noteq> 0" using cosh_real_pos [of x] by simp
  have "((\<lambda>x. sinh x / cosh x) has_real_derivative d_tanh (sinh x / cosh x)) (at x)"
    unfolding d_tanh_def
    by (rule derivative_eq_intros refl c | simp add: c)+
       (use c in \<open>simp add: field_simps power2_eq_square\<close>)
  then show ?thesis
    unfolding tanh_def [abs_def] by simp
qed

text \<open>
  Claim C9. The derivative primitives take the activation value, not the pre-activation:
  \<open>d_sigmoid s = s * (1 - s)\<close> and \<open>d_tanh u = 1 - u * u\<close> for every value, and applied to
  \<open>sigmoid x\<close> and \<open>tanh x\<close> they are the derivatives of the sigmoid and of the hyperbolic
  tangent at \<open>x\<close>. The scalar type of the templates is read as the real numbers.
\<close>

theorem derivatives_from_activation_values:
  "d_sigmoid s = s * (1 - s) \<and>
   d_tanh u = 1 - u * u \<and>
   (sigmoid has_real_derivative d_sigmoid (sigmoid x)) (at x) \<and>
   (tanh has_real_derivative d_tanh (tanh x)) (at x)"
proof -
  have "d_sigmoid s = s * (1 - s)" by (simp add: d_sigmoid_def)
  moreover have "d_tanh u = 1 - u * u" by (simp add: d_tanh_def)
  ultimately show ?thesis
    using sigmoid_deriv [of x] tanh_deriv [of x] by blast
qed

lemma loop_gen:
  "count \<le> device_count p \<Longrightarrow>
   CublasHandleContainer_loop i count handles p =
     (handles @ map (\<lambda>k. length (created p) + k) [0..<count - i],
      p\<lparr>current_device := (if i < count then count - 1 else current_device p),
        created := created p @ map (\<lambda>k. (length (created p) + k, i + k)) [0..<count - i]\<rparr>)"
proof (induction "count - i" arbitrary: i handles p)
  case 0
  then show ?case
    by (simp add: CublasHandleContainer_loop.simps)
next
  case (Suc n)
  let ?p' = "snd (cublasCreate (cudaSetDevice i p))"
  let ?h = "fst (cublasCreate (cudaSetDevice i p))"
  have True: "i < count" using Suc.hyps(2) by simp
  have step: "CublasHandleContainer_loop i count handles p =
              CublasHandleContainer_loop (i + 1) count (handles @ [?h]) ?p'"
    using True by (subst CublasHandleContainer_loop.simps) (simp add: case_prod_beta)
  have dc: "device_count ?p' = device_count p"
    by (simp add: cublasCreate_def cudaSetDevice_def)
  have n: "n = count - (i + 1)" using Suc.hyps(2) by simp
  note ih = Suc.hyps(1) [OF n, of ?p' "handles @ [?h]"]
  have cnt: "[0..<count - i] = 0 # map Suc [0..<count - (i + 1)]"
    using True by (simp add: upt_conv_Cons map_Suc_upt Suc_diff_Suc del: upt_Suc)
  have il: "i < device_count p" using True Suc.prems by simp
  show ?case
    unfolding step cnt using True il ih dc Suc.prems
    by (auto simp add: cublasCreate_def cudaSetDevice_def comp_def)
qed


lemma ctor_eq:
  assumes "current_device p < device_count p"
  shows "CublasHandleContainer p =
     (map (\<lambda>k. length (created p) + k) [0..<device_count p],
      p\<lparr>created := created p @
           map (\<lambda>k. (length (created p) + k, k)) [0..<device_count p]\<rparr>)"
  using assms
  by (simp add: CublasHandleContainer_def cudaGetDevice_def cudaGetDeviceCount_def
      loop_gen cudaSetDevice_def)

lemma GetCublasHandle_ready:
  assumes "handles_ready p"
  shows "GetCublasHandle p =
     (Some (current_device p),
      p\<lparr>created := map (\<lambda>i. (i, i)) [0..<device_count p],
        all_handles := Some [0..<device_count p]\<rparr>)"
proof (cases "all_handles p")
  case None
  with assms have c: "created p = []" and d: "current_device p < device_count p"
    by (simp_all add: handles_ready_def)
  have m: "map (\<lambda>k. k) [0..<device_count p] = [0..<device_count p]" by simp
  show ?thesis
    using None c d by (simp add: GetCublasHandle_def ctor_eq cudaGetDevice_def m)
next
  case (Some hs)
  with assms have h: "hs = [0..<device_count p]"
    and c: "created p = map (\<lambda>i. (i, i)) [0..<device_count p]"
    and d: "current_device p < device_count p"
    by (simp_all add: handles_ready_def)
  have "p\<lparr>created := created p, all_handles := all_handles p\<rparr> = p" by simp
  then show ?thesis
    using Some h c d by (simp add: GetCublasHandle_def cudaGetDevice_def)
qed

lemma handles_ready_start:
  "device < count \<Longrightarrow> handles_ready (process_start count device)"
  by (simp add: handles_ready_def process_start_def)

lemma handles_ready_perform:
  assumes "handles_ready p"
  shows "handles_ready (perform a p)"
proof (cases a)
  case Lookup
  then show ?thesis
    using assms by (simp add: GetCublasHandle_ready) (simp add: handles_ready_def)
next
  case (SelectDevice d)
  then show ?thesis
    using assms by (simp add: cudaSetDevice_def handles_ready_def split: option.splits)
qed

lemma handles_ready_fold:
  "handles_ready p \<Longrightarrow> handles_ready (fold perform acts p)"
  by (induction acts arbitrary: p) (simp_all add: handles_ready_perform)

lemma perform_all_handles:
  "handles_ready p \<Longrightarrow>
   all_handles (perform a p) = (if a = Lookup then Some [0..<device_count p] else all_handles p)"
  by (cases a) (simp_all add: GetCublasHandle_ready cudaSetDevice_def)

lemma perform_device_count:
  "handles_ready p \<Longrightarrow> device_count (perform a p) = device_count p"
  by (cases a) (simp_all add: GetCublasHandle_ready cudaSetDevice_def)

lemma fold_lazy:
  "handles_ready p \<Longrightarrow>
   (all_handles (fold perform acts p) = None) = (all_handles p = None \<and> Lookup \<notin> set acts)"
proof (induction acts arbitrary: p)
  case Nil
  then show ?case by simp
next
  case (Cons a acts)
  have r: "handles_ready (perform a p)"
    using Cons.prems by (rule handles_ready_perform)
  show ?case
    using Cons.IH [OF r] perform_all_handles [OF Cons.prems, of a] by auto
qed

lemma distinct_diag: "distinct (map snd (map (\<lambda>i. (i, i)) [0..<n]))"
  by (simp add: comp_def)

lemma destroy_fold:
  "destroyed (fold cublasDestroy hs p) = destroyed p @ hs"
  by (induction hs arbitrary: p) (simp_all add: cublasDestroy_def)

lemma ready_created:
  assumes "handles_ready p"
  shows "distinct (map snd (created p))"
    and "(created p = []) = (all_handles p = None)"
    and "destroyed (process_exit p) = map fst (created p)"
proof -
  show "distinct (map snd (created p))"
    using assms by (auto simp add: handles_ready_def comp_def split: option.splits)
  show "(created p = []) = (all_handles p = None)"
    using assms by (auto simp add: handles_ready_def split: option.splits)
  show "destroyed (process_exit p) = map fst (created p)"
    using assms
    by (auto simp add: handles_ready_def process_exit_def CublasHandleContainer_destroy_def
        destroy_fold comp_def split: option.splits)
qed

lemma fold_device_count:
  "handles_ready p \<Longrightarrow> device_count (fold perform acts p) = device_count p"
proof (induction acts arbitrary: p)
  case Nil
  then show ?case by simp
next
  case (Cons a acts)
  have "handles_ready (perform a p)"
    using Cons.prems by (rule handles_ready_perform)
  then show ?case
    using Cons.IH perform_device_count [OF Cons.prems, of a] by simp
qed

text \<open>
  Claim C7. In every state a process reaches by looking handles up and by selecting
  devices, at most one cuBLAS handle exists per device, no handle has been destroyed,
  no handle exists before the first lookup and the handles of all devices exist after
  it (the first lookup creates them all), a lookup returns the handle that was created
  on the selected device and creates nothing once the container exists, and the handles
  are destroyed when the process exits.
\<close>

theorem one_handle_per_device:
  assumes "device < count"
  shows "let p = fold perform acts (process_start count device);
             r = GetCublasHandle p
         in distinct (map snd (created p)) \<and>
            destroyed p = [] \<and>
            ((all_handles p = None) = (Lookup \<notin> set acts)) \<and>
            map snd (created p) = (if all_handles p = None then [] else [0..<count]) \<and>
            (case fst r of
               None \<Rightarrow> False
             | Some h \<Rightarrow> (h, current_device p) \<in> set (created (snd r)) \<and>
                         all_handles (snd r) = Some (map fst (created (snd r))) \<and>
                         (if all_handles p = None then True else snd r = p)) \<and>
            destroyed (process_exit p) = map fst (created p)"
proof -
  define p where "p = fold perform acts (process_start count device)"
  have s: "handles_ready (process_start count device)"
    using assms by (rule handles_ready_start)
  have r: "handles_ready p"
    unfolding p_def using s by (rule handles_ready_fold)
  have lazy: "(all_handles p = None) = (Lookup \<notin> set acts)"
    unfolding p_def using fold_lazy [OF s, of acts] by (simp add: process_start_def)
  have cur: "current_device p < device_count p"
    using r by (simp add: handles_ready_def)
  have cached: "all_handles p \<noteq> None \<Longrightarrow> snd (GetCublasHandle p) = p"
    using r by (auto simp add: GetCublasHandle_ready handles_ready_def split: option.splits)
  have look: "case fst (GetCublasHandle p) of
               None \<Rightarrow> False
             | Some h \<Rightarrow> (h, current_device p) \<in> set (created (snd (GetCublasHandle p))) \<and>
                         all_handles (snd (GetCublasHandle p)) =
                           Some (map fst (created (snd (GetCublasHandle p)))) \<and>
                         (if all_handles p = None then True else snd (GetCublasHandle p) = p)"
    using cur cached by (auto simp add: GetCublasHandle_ready [OF r] comp_def)
  have dc: "device_count p = count"
    unfolding p_def using fold_device_count [OF s, of acts] by (simp add: process_start_def)
  have all: "map snd (created p) = (if all_handles p = None then [] else [0..<count])"
    using r dc by (auto simp add: handles_ready_def comp_def split: option.splits)
  show ?thesis
    using ready_created [OF r] r lazy look all
    unfolding p_def [symmetric] Let_def by (simp add: handles_ready_def)
qed

theorem one_handle_per_device_witness:
  "(1::nat) < 2 \<and>
   (let p = fold perform [Lookup, SelectDevice 0, Lookup] (process_start 2 1);
        r = GetCublasHandle p
    in distinct (map snd (created p)) \<and>
       destroyed p = [] \<and>
       ((all_handles p = None) = (Lookup \<notin> set [Lookup, SelectDevice 0, Lookup])) \<and>
       map snd (created p) = (if all_handles p = None then [] else [0..<2]) \<and>
       (case fst r of
          None \<Rightarrow> False
        | Some h \<Rightarrow> (h, current_device p) \<in> set (created (snd r)) \<and>
                    all_handles (snd r) = Some (map fst (created (snd r))) \<and>
                    (if all_handles p = None then True else snd r = p)) \<and>
       destroyed (process_exit p) = map fst (created p)) \<and>
   created (fold perform [Lookup, SelectDevice 0, Lookup] (process_start 2 1)) = [(0, 0), (1, 1)] \<and>
   fst (GetCublasHandle (fold perform [Lookup, SelectDevice 0, Lookup] (process_start 2 1))) = Some 0"
proof -
  have h: "(1::nat) < 2" by simp
  have c: "created (fold perform [Lookup, SelectDevice 0, Lookup] (process_start 2 1)) = [(0, 0), (1, 1)]"
    by (simp add: process_start_def GetCublasHandle_def CublasHandleContainer_def
        CublasHandleContainer_loop.simps cudaGetDevice_def cudaGetDeviceCount_def
        cudaSetDevice_def cublasCreate_def Let_def)
  have g: "fst (GetCublasHandle (fold perform [Lookup, SelectDevice 0, Lookup] (process_start 2 1))) = Some 0"
    by (simp add: process_start_def GetCublasHandle_def CublasHandleContainer_def
        CublasHandleContainer_loop.simps cudaGetDevice_def cudaGetDeviceCount_def
        cudaSetDevice_def cublasCreate_def Let_def)
  show ?thesis
    using h c g one_handle_per_device [OF h, of "[Lookup, SelectDevice 0, Lookup]"]
    by blast
qed

text \<open>
  Claim C10. Creating the handles leaves the selected device as it was: the loop of the
  container's constructor ends on the last device, the constructor restores the device
  it found, and so does every call of \<open>GetCublasHandle\<close>.
\<close>

theorem handle_lookup_keeps_device:
  assumes "current_device p < device_count p"
  shows "current_device (snd (CublasHandleContainer_loop 0 (device_count p) [] p)) =
           device_count p - 1 \<and>
         current_device (snd (CublasHandleContainer p)) = current_device p \<and>
         current_device (snd (GetCublasHandle p)) = current_device p"
  using assms
  by (auto simp add: loop_gen ctor_eq GetCublasHandle_def cudaGetDevice_def Let_def
      split: option.splits)

theorem handle_lookup_keeps_device_witness:
  "current_device (process_start 3 1) < device_count (process_start 3 1) \<and>
   current_device (snd (CublasHandleContainer_loop 0 3 [] (process_start 3 1))) = 2 \<and>
   current_device (snd (CublasHandleContainer (process_start 3 1))) = 1 \<and>
   current_device (snd (GetCublasHandle (process_start 3 1))) = 1"
proof -
  have h: "current_device (process_start 3 1) < device_count (process_start 3 1)"
    by (simp add: process_start_def)
  show ?thesis
    using h handle_lookup_keeps_device [OF h] by (simp add: process_start_def)
qed

section \<open>Buffers, slices and writes in place\<close>

lemma length_overwrite [simp]: "length (overwrite old new) = length old"
  by (simp add: overwrite_def)

lemma overwrite_Nil [simp]: "overwrite [] new = []"
  by (simp add: overwrite_def)

lemma shape_write_slice [simp]: "shape (write_slice t i new) = shape t"
  by (simp add: write_slice_def)

lemma shape_write_flat [simp]: "shape (write_flat t new) = shape t"
  by (simp add: write_flat_def)

lemma flat_write_flat [simp]: "flat (write_flat t new) = overwrite (flat t) new"
  by (simp add: write_flat_def)

lemma shape_cudaMemset_zero [simp]: "shape (cudaMemset_zero t) = shape t"
  by (simp add: cudaMemset_zero_def)

lemma flat_cudaMemset_zero [simp]:
  "flat (cudaMemset_zero t) = replicate (length (flat t)) 0"
  by (simp add: cudaMemset_zero_def)

lemma elems_per_dim0_write_slice [simp]:
  "elems_per_dim0 (write_slice t i new) = elems_per_dim0 t"
  by (simp add: elems_per_dim0_def)

lemma elems_per_dim0_cudaMemset_zero [simp]:
  "elems_per_dim0 (cudaMemset_zero t) = elems_per_dim0 t"
  by (simp add: elems_per_dim0_def)

lemma length_slice_data:
  "length (slice_data t i) =
     min (elems_per_dim0 t) (length (flat t) - elems_per_dim0 t * nat i)"
  by (simp add: slice_data_def)

lemma length_write_slice [simp]: "length (flat (write_slice t i new)) = length (flat t)"
  by (simp add: write_slice_def length_slice_data)

lemma slice_data_empty [simp]: "flat t = [] \<Longrightarrow> slice_data t i = []"
  by (simp add: slice_data_def)

lemma write_slice_empty [simp]: "flat t = [] \<Longrightarrow> flat (write_slice t i new) = []"
  by (simp add: write_slice_def)

lemma SubSlice_Inr:
  assumes "SubSlice t i = Inr s"
  shows "flat s = slice_data t i"
    and "shape s = tl (shape t)"
    and "0 \<le> i"
    and "flat t = [] \<or> elems_per_dim0 t * nat i + elems_per_dim0 t \<le> length (flat t)"
  using assms
  by (auto simp add: SubSlice_def split: list.splits if_splits)

lemma segment_before:
  "e * j + e \<le> d \<Longrightarrow> d \<le> length f \<Longrightarrow>
   take e (drop (e * j) (take d f @ r)) = take e (drop (e * j) f)"
  by (simp add: take_drop min_def) 

lemma segment_after:
  "d + e \<le> e * j \<Longrightarrow> length ov = e \<Longrightarrow> d + e \<le> length f \<Longrightarrow>
   drop (e * j) (take d f @ ov @ drop (d + e) f) = drop (e * j) f"
  by (simp add: min_def)

lemma slice_data_write_slice_same:
  assumes "0 \<le> i"
    and "flat t = [] \<or> elems_per_dim0 t * nat i + elems_per_dim0 t \<le> length (flat t)"
  shows "slice_data (write_slice t i new) i = overwrite (slice_data t i) new"
proof (cases "flat t = []")
  case True
  then show ?thesis by simp
next
  case False
  with assms have r: "elems_per_dim0 t * nat i + elems_per_dim0 t \<le> length (flat t)"
    by simp
  have l: "length (overwrite (slice_data t i) new) = elems_per_dim0 t"
    using r by (simp add: length_slice_data)
  have w: "flat (write_slice t i new) =
             take (elems_per_dim0 t * nat i) (flat t) @ overwrite (slice_data t i) new @
             drop (elems_per_dim0 t * nat i + elems_per_dim0 t) (flat t)"
    by (simp add: write_slice_def)
  have "slice_data (write_slice t i new) i =
          take (elems_per_dim0 t) (drop (elems_per_dim0 t * nat i) (flat (write_slice t i new)))"
    by (simp add: slice_data_def)
  also have "\<dots> = overwrite (slice_data t i) new"
    unfolding w using r l by (simp add: min_def)
  finally show ?thesis .
qed

lemma slice_data_write_slice_other:
  assumes "0 \<le> i" and "0 \<le> j" and "j \<noteq> i"
    and "flat t = [] \<or> elems_per_dim0 t * nat i + elems_per_dim0 t \<le> length (flat t)"
  shows "slice_data (write_slice t i new) j = slice_data t j"
proof (cases "flat t = []")
  case True
  then show ?thesis by simp
next
  case False
  define e where "e = elems_per_dim0 t"
  define d where "d = e * nat i"
  from False assms have r: "d + e \<le> length (flat t)"
    by (simp add: d_def e_def)
  have l: "length (overwrite (slice_data t i) new) = e"
    using r by (simp add: length_slice_data d_def e_def)
  have w: "flat (write_slice t i new) =
             take d (flat t) @ overwrite (slice_data t i) new @ drop (d + e) (flat t)"
    by (simp add: write_slice_def d_def e_def)
  consider "nat j < nat i" | "nat i < nat j"
    using assms by (cases "nat j < nat i") auto
  then have "take e (drop (e * nat j) (flat (write_slice t i new))) =
             take e (drop (e * nat j) (flat t))"
  proof cases
    case 1
    then have "Suc (nat j) \<le> nat i" by (rule Suc_leI)
    then have "e * Suc (nat j) \<le> e * nat i" by (rule mult_le_mono2)
    then have b: "e * nat j + e \<le> d" by (simp add: d_def)
    have "d \<le> length (flat t)" using r by simp
    with b show ?thesis unfolding w by (rule segment_before)
  next
    case 2
    then have "Suc (nat i) \<le> nat j" by (rule Suc_leI)
    then have "e * Suc (nat i) \<le> e * nat j" by (rule mult_le_mono2)
    then have b: "d + e \<le> e * nat j" by (simp add: d_def)
    show ?thesis unfolding w using segment_after [OF b l r] by simp
  qed
  then show ?thesis
    by (simp add: slice_data_def e_def)
qed

section \<open>Invariants of the two time loops\<close>

lemma HasteGruOp_loop_rule:
  assumes "HasteGruOp_loop iterate forward op inp has_zoneout time_steps i st = (r, st')"
    and "P i st"
    and "\<And>j s s'. i \<le> j \<Longrightarrow> j < time_steps \<Longrightarrow> P j s \<Longrightarrow>
           HasteGruOp_iteration iterate forward op inp has_zoneout j s = Inr s' \<Longrightarrow> P (j + 1) s'"
  shows "\<exists>j. i \<le> j \<and> P j st' \<and>
           (case r of
              None \<Rightarrow> j = max i time_steps
            | Some e \<Rightarrow> j < time_steps \<and>
                HasteGruOp_iteration iterate forward op inp has_zoneout j st' = Inl e)"
  using assms
proof (induction iterate forward op inp has_zoneout time_steps i st
    rule: HasteGruOp_loop.induct)
  case (1 iterate forward op inp has_zoneout time_steps i st)
  show ?case
  proof (cases "i < time_steps")
    case False
    with "1.prems"(1) have "r = None" and "st' = st"
      by (simp_all add: HasteGruOp_loop.simps)
    with False "1.prems"(2) show ?thesis
      by (intro exI [of _ i]) simp
  next
    case True
    show ?thesis
    proof (cases "HasteGruOp_iteration iterate forward op inp has_zoneout i st")
      case (Inl e)
      with True "1.prems"(1) have "r = Some e" and "st' = st"
        by (simp_all add: HasteGruOp_loop.simps)
      with True Inl "1.prems"(2) show ?thesis
        by (intro exI [of _ i]) simp
    next
      case (Inr s)
      with True "1.prems"(1)
      have run: "HasteGruOp_loop iterate forward op inp has_zoneout time_steps (i + 1) s = (r, st')"
        by (simp add: HasteGruOp_loop.simps)
      have p: "P (i + 1) s"
        using "1.prems"(3) [OF _ True "1.prems"(2) Inr] by simp
      have "\<exists>j. i + 1 \<le> j \<and> P j st' \<and>
           (case r of
              None \<Rightarrow> j = max (i + 1) time_steps
            | Some e \<Rightarrow> j < time_steps \<and>
                HasteGruOp_iteration iterate forward op inp has_zoneout j st' = Inl e)"
        using "1.IH" [OF True Inr run p] "1.prems"(3) by simp
      then obtain j where "i + 1 \<le> j" and "P j st'"
        and "case r of
              None \<Rightarrow> j = max (i + 1) time_steps
            | Some e \<Rightarrow> j < time_steps \<and>
                HasteGruOp_iteration iterate forward op inp has_zoneout j st' = Inl e"
        by blast
      with True show ?thesis
        by (intro exI [of _ j]) (auto split: option.splits)
    qed
  qed
qed

lemma HasteGruGradOp_loop_rule:
  assumes "HasteGruGradOp_loop iterate backward inp has_zoneout zero_vector i st = (r, st')"
    and "P i st"
    and "\<And>j s s'. j \<le> i \<Longrightarrow> 0 \<le> j \<Longrightarrow> P j s \<Longrightarrow>
           HasteGruGradOp_iteration iterate backward inp has_zoneout zero_vector j s = Inr s' \<Longrightarrow>
           P (j - 1) s'"
  shows "\<exists>j. j \<le> i \<and> P j st' \<and>
           (case r of
              None \<Rightarrow> j = min i (- 1)
            | Some e \<Rightarrow> 0 \<le> j \<and>
                HasteGruGradOp_iteration iterate backward inp has_zoneout zero_vector j st' = Inl e)"
  using assms
proof (induction iterate backward inp has_zoneout zero_vector i st
    rule: HasteGruGradOp_loop.induct)
  case (1 iterate backward inp has_zoneout zero_vector i st)
  show ?case
  proof (cases "0 \<le> i")
    case False
    with "1.prems"(1) have "r = None" and "st' = st"
      by (simp_all add: HasteGruGradOp_loop.simps)
    with False "1.prems"(2) show ?thesis
      by (intro exI [of _ i]) simp
  next
    case True
    show ?thesis
    proof (cases "HasteGruGradOp_iteration iterate backward inp has_zoneout zero_vector i st")
      case (Inl e)
      with True "1.prems"(1) have "r = Some e" and "st' = st"
        by (simp_all add: HasteGruGradOp_loop.simps)
      with True Inl "1.prems"(2) show ?thesis
        by (intro exI [of _ i]) simp
    next
      case (Inr s)
      with True "1.prems"(1)
      have run: "HasteGruGradOp_loop iterate backward inp has_zoneout zero_vector (i - 1) s = (r, st')"
        by (simp add: HasteGruGradOp_loop.simps)
      have p: "P (i - 1) s"
        using "1.prems"(3) [OF _ True "1.prems"(2) Inr] by simp
      have "\<exists>j. j \<le> i - 1 \<and> P j st' \<and>
           (case r of
              None \<Rightarrow> j = min (i - 1) (- 1)
            | Some e \<Rightarrow> 0 \<le> j \<and>
                HasteGruGradOp_iteration iterate backward inp has_zoneout zero_vector j st' = Inl e)"
        using "1.IH" [OF True Inr run p] "1.prems"(3) by simp
      then obtain j where "j \<le> i - 1" and "P j st'"
        and "case r of
              None \<Rightarrow> j = min (i - 1) (- 1)
            | Some e \<Rightarrow> 0 \<le> j \<and>
                HasteGruGradOp_iteration iterate backward inp has_zoneout zero_vector j st' = Inl e"
        by blast
      with True show ?thesis
        by (intro exI [of _ j]) (auto split: option.splits)
    qed
  qed
qed

section \<open>What the buffers hold when the time loop starts\<close>

lemma TensorShape_init_Inr:
  assumes "TensorShape_init ds = Inr s"
  shows "s = ds" and "list_all (\<lambda>d. 0 \<le> d \<and> d < 2 ^ 63) ds" and "prod_list ds < 2 ^ 63"
  using assms by (auto simp add: TensorShape_init_def representable_def split: if_splits)

lemma allocate_Inr:
  assumes "allocate a s = Inr t"
  shows "shape t = s" and "length (flat t) = nat (prod_list s)"
  using assms by (auto simp add: allocate_def split: if_splits)

lemma allocated:
  assumes "TensorShape_init ds = Inr s" and "allocate a s = Inr t"
  shows "shape t = ds" and "length (flat t) = nat (prod_list ds)"
    and "list_all (\<lambda>d. 0 \<le> d \<and> d < 2 ^ 63) ds"
  using TensorShape_init_Inr [OF assms(1)] allocate_Inr [OF assms(2)] by simp_all

lemma HasteGruOp_buffers_Inr:
  assumes "HasteGruOp_buffers op alloc inp = Inr b"
  defines "T \<equiv> dim_size (f_input inp) 0"
    and "N \<equiv> dim_size (f_input inp) 1"
    and "H \<equiv> dim_size (f_recurrent_kernel inp) 0"
  shows "fs_calls b = []" and "fs_h b = 0"
    and "shape (fs_output b) = [T, N, H]"
    and "flat (fs_output b) = replicate (nat (T * (N * H))) 0"
    and "shape (fs_v_out b) = [T, N, if training op then H * 4 else 0]"
    and "length (flat (fs_v_out b)) = nat (T * (N * (if training op then H * 4 else 0)))"
    and "shape (fs_tmp_Wx b) = [T, N, H * 3]"
    and "length (flat (fs_tmp_Wx b)) = nat (T * (N * (H * 3)))"
    and "shape (fs_tmp_Rh b) = [N, H * 3]"
    and "0 \<le> T" and "0 \<le> N" and "0 \<le> H"
    and "dim_size (f_input inp) 2 = dim_size (f_kernel inp) 0"
proof -
  from assms(1) obtain s1 s2 s3 s4 out0 v_out tmp_Wx tmp_Rh where
    i1: "TensorShape_init [T, N, H] = Inr s1" and
    i2: "TensorShape_init [T, N, if training op then H * 4 else 0] = Inr s2" and
    a1: "allocate alloc s1 = Inr out0" and
    a2: "allocate alloc s2 = Inr v_out" and
    i3: "TensorShape_init [T, N, H * 3] = Inr s3" and
    a3: "allocate alloc s3 = Inr tmp_Wx" and
    i4: "TensorShape_init [N, H * 3] = Inr s4" and
    a4: "allocate alloc s4 = Inr tmp_Rh" and
    b: "b = \<lparr>fs_output = cudaMemset_zero out0, fs_v_out = v_out, fs_tmp_Wx = tmp_Wx,
            fs_tmp_Rh = tmp_Rh, fs_h = 0, fs_calls = []\<rparr>" and
    c: "dim_size (f_input inp) 2 = dim_size (f_kernel inp) 0"
    unfolding HasteGruOp_buffers_def Let_def T_def N_def H_def
    by (simp split: if_splits sum.splits)
  show "fs_calls b = []" and "fs_h b = 0" by (simp_all add: b)
  show "shape (fs_output b) = [T, N, H]"
    using allocated [OF i1 a1] by (simp add: b)
  show "flat (fs_output b) = replicate (nat (T * (N * H))) 0"
    using allocated [OF i1 a1] by (simp add: b)
  show "shape (fs_v_out b) = [T, N, if training op then H * 4 else 0]"
    using allocated [OF i2 a2] by (simp add: b)
  show "length (flat (fs_v_out b)) = nat (T * (N * (if training op then H * 4 else 0)))"
    using allocated [OF i2 a2] by (simp add: b)
  show "shape (fs_tmp_Wx b) = [T, N, H * 3]"
    using allocated [OF i3 a3] by (simp add: b)
  show "length (flat (fs_tmp_Wx b)) = nat (T * (N * (H * 3)))"
    using allocated [OF i3 a3] by (simp add: b)
  show "shape (fs_tmp_Rh b) = [N, H * 3]"
    using allocated [OF i4 a4] by (simp add: b)
  show "0 \<le> T" and "0 \<le> N" and "0 \<le> H"
    using allocated(3) [OF i1 a1] by simp_all
  show "dim_size (f_input inp) 2 = dim_size (f_kernel inp) 0" by (rule c)
qed

lemma HasteGruGradOp_buffers_Inr:
  assumes "HasteGruGradOp_buffers alloc inp = Inr b"
  defines "T \<equiv> dim_size (g_input inp) 0"
    and "C \<equiv> dim_size (g_input inp) 1"
    and "N \<equiv> dim_size (g_input inp) 2"
    and "H \<equiv> dim_size (g_recurrent_kernel inp) 1"
  shows "bs_calls (bb_state b) = []"
    and "allocate alloc [T, N, C] = Inr (bs_dx (bb_state b))"
    and "shape (bs_dx (bb_state b)) = [T, N, C]"
    and "length (flat (bs_dx (bb_state b))) = nat (T * (N * C))"
    and "shape (bs_dW (bb_state b)) = [C, H * 3]"
    and "flat (bs_dW (bb_state b)) = replicate (nat (C * (H * 3))) 0"
    and "shape (bs_dR (bb_state b)) = [H, H * 3]"
    and "flat (bs_dR (bb_state b)) = replicate (nat (H * (H * 3))) 0"
    and "shape (bs_dbx (bb_state b)) = [H * 3]"
    and "flat (bs_dbx (bb_state b)) = replicate (nat (H * 3)) 0"
    and "shape (bs_dbr (bb_state b)) = [H * 3]"
    and "flat (bs_dbr (bb_state b)) = replicate (nat (H * 3)) 0"
    and "flat (bs_dh (bb_state b)) = replicate (nat (N * H)) 0"
    and "flat (bb_zero_vector b) = replicate (nat (N * H)) 0"
    and "shape (bs_dp (bb_state b)) = [T, N, H * 3]"
    and "shape (bs_dq (bb_state b)) = [T, N, H * 3]"
    and "0 \<le> T" and "0 \<le> N" and "0 \<le> C"
proof -
  from assms(1) obtain s1 s2 s3 s4 s5 s6 s7 s8 s9 dx dW dR dbx dbr dh dp dq zero_vector where
    i1: "TensorShape_init [T, N, C] = Inr s1" and a1: "allocate alloc s1 = Inr dx" and
    i2: "TensorShape_init [C, H * 3] = Inr s2" and a2: "allocate alloc s2 = Inr dW" and
    i3: "TensorShape_init [H, H * 3] = Inr s3" and a3: "allocate alloc s3 = Inr dR" and
    i4: "TensorShape_init [H * 3] = Inr s4" and a4: "allocate alloc s4 = Inr dbx" and
    i5: "TensorShape_init [H * 3] = Inr s5" and a5: "allocate alloc s5 = Inr dbr" and
    i6: "TensorShape_init [N, H] = Inr s6" and a6: "allocate alloc s6 = Inr dh" and
    i7: "TensorShape_init [T, N, H * 3] = Inr s7" and a7: "allocate alloc s7 = Inr dp" and
    i8: "TensorShape_init [T, N, H * 3] = Inr s8" and a8: "allocate alloc s8 = Inr dq" and
    i9: "TensorShape_init [N, H] = Inr s9" and a9: "allocate alloc s9 = Inr zero_vector" and
    b: "b = \<lparr>bb_state =
              \<lparr>bs_dx = dx, bs_dW = cudaMemset_zero dW, bs_dR = cudaMemset_zero dR,
               bs_dbx = cudaMemset_zero dbx, bs_dbr = cudaMemset_zero dbr,
               bs_dh = cudaMemset_zero dh, bs_dp = dp, bs_dq = dq, bs_calls = []\<rparr>,
            bb_zero_vector = cudaMemset_zero zero_vector\<rparr>"
    unfolding HasteGruGradOp_buffers_def Let_def T_def N_def H_def C_def
    by (simp split: if_splits sum.splits)
  show "bs_calls (bb_state b) = []" by (simp add: b)
  show "allocate alloc [T, N, C] = Inr (bs_dx (bb_state b))"
    using TensorShape_init_Inr(1) [OF i1] a1 by (simp add: b)
  show "shape (bs_dx (bb_state b)) = [T, N, C]"
    using allocated [OF i1 a1] by (simp add: b)
  show "length (flat (bs_dx (bb_state b))) = nat (T * (N * C))"
    using allocated [OF i1 a1] by (simp add: b)
  show "shape (bs_dW (bb_state b)) = [C, H * 3]"
    using allocated [OF i2 a2] by (simp add: b)
  show "flat (bs_dW (bb_state b)) = replicate (nat (C * (H * 3))) 0"
    using allocated [OF i2 a2] by (simp add: b)
  show "shape (bs_dR (bb_state b)) = [H, H * 3]"
    using allocated [OF i3 a3] by (simp add: b)
  show "flat (bs_dR (bb_state b)) = replicate (nat (H * (H * 3))) 0"
    using allocated [OF i3 a3] by (simp add: b)
  show "shape (bs_dbx (bb_state b)) = [H * 3]"
    using allocated [OF i4 a4] by (simp add: b)
  show "flat (bs_dbx (bb_state b)) = replicate (nat (H * 3)) 0"
    using allocated [OF i4 a4] by (simp add: b)
  show "shape (bs_dbr (bb_state b)) = [H * 3]"
    using allocated [OF i5 a5] by (simp add: b)
  show "flat (bs_dbr (bb_state b)) = replicate (nat (H * 3)) 0"
    using allocated [OF i5 a5] by (simp add: b)
  show "flat (bs_dh (bb_state b)) = replicate (nat (N * H)) 0"
    using allocated [OF i6 a6] by (simp add: b)
  show "flat (bb_zero_vector b) = replicate (nat (N * H)) 0"
    using allocated [OF i9 a9] by (simp add: b)
  show "shape (bs_dp (bb_state b)) = [T, N, H * 3]"
    using allocated [OF i7 a7] by (simp add: b)
  show "shape (bs_dq (bb_state b)) = [T, N, H * 3]"
    using allocated [OF i8 a8] by (simp add: b)
  show "0 \<le> T" and "0 \<le> N" and "0 \<le> C"
    using allocated(3) [OF i1 a1] by simp_all
qed

section \<open>The forward op\<close>

lemma HasteGruOp_Compute_cases:
  fixes iterate :: "'a::zero ForwardIterate"
  defines "hz \<equiv> \<lambda>op inp. zoneout_prob op \<noteq> 0 \<and> NumElements (f_zoneout_mask inp) \<noteq> 0"
  shows "(\<exists>e p. HasteGruOp_Compute iterate op alloc inp proc = rejected e p) \<or>
     (\<exists>b bh proc' r st.
        HasteGruOp_buffers op alloc inp = Inr b \<and>
        GetCublasHandle proc = (Some bh, proc') \<and>
        HasteGruOp_loop iterate
          \<lparr>fp_training = training op, fp_batch_size = dim_size (f_input inp) 1,
           fp_input_size = dim_size (f_input inp) 2,
           fp_hidden_size = dim_size (f_recurrent_kernel inp) 0, fp_blas_handle = bh\<rparr>
          op inp (hz op inp) (dim_size (f_input inp) 0) 0 b = (r, st) \<and>
        HasteGruOp_Compute iterate op alloc inp proc =
          \<lparr>f_outcome = (case r of None \<Rightarrow> Inr \<lparr>out_h = fs_output st, out_v = fs_v_out st\<rparr>
                         | Some e \<Rightarrow> Inl e),
           f_calls = fs_calls st, f_process = proc'\<rparr>)"
  unfolding HasteGruOp_Compute_def Let_def hz_def
  by (auto split: sum.splits prod.splits option.splits)

lemma rejected_simps [simp]:
  "f_outcome (rejected e p) = Inl e" "f_calls (rejected e p) = []" "f_process (rejected e p) = p"
  by (simp_all add: rejected_def)

lemma HasteGruOp_iteration_Inr:
  assumes "HasteGruOp_iteration iterate forward op inp hz i s = Inr s'"
  shows "shape (fs_output s') = shape (fs_output s)"
    and "length (flat (fs_output s')) = length (flat (fs_output s))"
    and "shape (fs_v_out s') = shape (fs_v_out s)"
    and "length (flat (fs_v_out s')) = length (flat (fs_v_out s))"
    and "fs_h s' = i"
    and "\<exists>c. fs_calls s' = fs_calls s @ [c] \<and> fc_step c = i \<and>
           fa_h (fc_args c) = slice_data (fs_output s) (fs_h s) \<and>
           (fa_v (fc_args c) = None) = (\<not> training op) \<and>
           fa_zoneout_prob (fc_args c) = (if hz then zoneout_prob op else 0) \<and>
           fa_zoneout_mask (fc_args c) =
             (if hz then Some (slice_data (f_zoneout_mask inp) i) else None)"
  using assms
  unfolding HasteGruOp_iteration_def Let_def
  by (auto split: sum.splits if_splits dest: SubSlice_Inr(1))

lemma HasteGruOp_loop_cong:
  assumes "\<And>i s. HasteGruOp_iteration iterate forward op' inp' hz i s =
                  HasteGruOp_iteration iterate forward op inp hz i s"
  shows "HasteGruOp_loop iterate forward op' inp' hz time_steps i st =
         HasteGruOp_loop iterate forward op inp hz time_steps i st"
  using assms
proof (induction iterate forward op inp hz time_steps i st rule: HasteGruOp_loop.induct)
  case (1 iterate forward op inp hz time_steps i st)
  show ?case
  proof (cases "i < time_steps")
    case False
    then show ?thesis by (simp add: HasteGruOp_loop.simps)
  next
    case True
    show ?thesis
    proof (cases "HasteGruOp_iteration iterate forward op inp hz i st")
      case (Inl e)
      with True "1.prems" show ?thesis
        by (simp add: HasteGruOp_loop.simps [of _ _ _ _ _ _ i])
    next
      case (Inr s)
      with True "1.prems" "1.IH" [OF True Inr "1.prems"] show ?thesis
        by (simp add: HasteGruOp_loop.simps [of _ _ _ _ _ _ i])
    qed
  qed
qed

lemma HasteGruOp_iteration_no_zoneout:
  "HasteGruOp_iteration iterate forward (op\<lparr>zoneout_prob := p\<rparr>)
     (inp\<lparr>f_zoneout_mask := m\<rparr>) False i s =
   HasteGruOp_iteration iterate forward op inp False i s"
  by (simp add: HasteGruOp_iteration_def Let_def cong: sum.case_cong)

lemma HasteGruOp_buffers_no_zoneout:
  "HasteGruOp_buffers (op\<lparr>zoneout_prob := p\<rparr>) alloc (inp\<lparr>f_zoneout_mask := m\<rparr>) =
   HasteGruOp_buffers op alloc inp"
  by (simp add: HasteGruOp_buffers_def Let_def cong: sum.case_cong if_cong)

lemmas run_forward =
  dims_def dim_size_def NumElements_def TensorShape_init_def representable_def allocate_def
  allocatable_def cudaMemset_zero_def
  rejected_def process_start_def GetCublasHandle_def CublasHandleContainer_def
  CublasHandleContainer_loop.simps cudaGetDevice_def cudaGetDeviceCount_def cudaSetDevice_def
  cublasCreate_def Let_def SubSlice_def elems_per_dim0_def slice_data_def HasteGruOp_loop.simps
  HasteGruOp_iteration_def write_slice_def write_flat_def overwrite_def HasteGruOp_buffers_def
  HasteGruOp_Compute_def roomy_def idle_forward_def tiny_forward_def

lemma forward_calls_without_zoneout:
  fixes iterate :: "'a::zero ForwardIterate"
  assumes "zoneout_prob op = 0 \<or> NumElements (f_zoneout_mask inp) = 0"
  shows "list_all (\<lambda>c. fa_zoneout_prob (fc_args c) = 0 \<and> fa_zoneout_mask (fc_args c) = None)
           (f_calls (HasteGruOp_Compute iterate op alloc inp proc))"
proof -
  let ?Q = "\<lambda>c::'a ForwardCall.
              fa_zoneout_prob (fc_args c) = 0 \<and> fa_zoneout_mask (fc_args c) = None"
  have hz: "(zoneout_prob op \<noteq> 0 \<and> NumElements (f_zoneout_mask inp) \<noteq> 0) = False"
    using assms by auto
  consider (rejected) e p where "HasteGruOp_Compute iterate op alloc inp proc = rejected e p"
    | (looped) b bh r st where
        "HasteGruOp_buffers op alloc inp = Inr b"
        "HasteGruOp_loop iterate
          \<lparr>fp_training = training op, fp_batch_size = dim_size (f_input inp) 1,
           fp_input_size = dim_size (f_input inp) 2,
           fp_hidden_size = dim_size (f_recurrent_kernel inp) 0, fp_blas_handle = bh\<rparr>
          op inp False (dim_size (f_input inp) 0) 0 b = (r, st)"
        "f_calls (HasteGruOp_Compute iterate op alloc inp proc) = fs_calls st"
    using HasteGruOp_Compute_cases [of iterate op alloc inp proc] unfolding hz by fastforce
  then show ?thesis
  proof cases
    case rejected
    then show ?thesis by simp
  next
    case looped
    have "\<exists>j. 0 \<le> j \<and> list_all ?Q (fs_calls st) \<and>
           (case r of
              None \<Rightarrow> j = max 0 (dim_size (f_input inp) 0)
            | Some e \<Rightarrow> j < dim_size (f_input inp) 0 \<and>
                HasteGruOp_iteration iterate
                 \<lparr>fp_training = training op, fp_batch_size = dim_size (f_input inp) 1,
                  fp_input_size = dim_size (f_input inp) 2,
                  fp_hidden_size = dim_size (f_recurrent_kernel inp) 0, fp_blas_handle = bh\<rparr>
                 op inp False j st = Inl e)"
    proof (rule HasteGruOp_loop_rule [OF looped(2), where P = "\<lambda>j s. list_all ?Q (fs_calls s)"])
      show "list_all ?Q (fs_calls b)"
        using HasteGruOp_buffers_Inr(1) [OF looped(1)] by simp
    next
      fix j s s'
      assume "list_all ?Q (fs_calls s)"
        and "HasteGruOp_iteration iterate
              \<lparr>fp_training = training op, fp_batch_size = dim_size (f_input inp) 1,
               fp_input_size = dim_size (f_input inp) 2,
               fp_hidden_size = dim_size (f_recurrent_kernel inp) 0, fp_blas_handle = bh\<rparr>
              op inp False j s = Inr s'"
      then show "list_all ?Q (fs_calls s')"
        using HasteGruOp_iteration_Inr(6) by fastforce
    qed
    then show ?thesis
      using looped(3) by auto
  qed
qed

text \<open>
  Claim C4. A forward call with zoneout probability 0, or with a zoneout mask without
  elements, is the same run as the call with probability 0 and an empty mask: the
  outputs, the trace of \<open>Iterate\<close> calls and the process state are equal, whatever the
  engine computes. Every \<open>Iterate\<close> call of such a run receives probability 0 and a null
  mask.
\<close>

theorem zoneout_disabled_forward:
  fixes iterate :: "'a::zero ForwardIterate"
  assumes "zoneout_prob op = 0 \<or> NumElements (f_zoneout_mask inp) = 0"
  shows "HasteGruOp_Compute iterate op alloc inp proc =
         HasteGruOp_Compute iterate (op\<lparr>zoneout_prob := 0\<rparr>) alloc
           (inp\<lparr>f_zoneout_mask := \<lparr>shape = [0, 0, 0], flat = []\<rparr>\<rparr>) proc \<and>
         list_all (\<lambda>c. fa_zoneout_prob (fc_args c) = 0 \<and> fa_zoneout_mask (fc_args c) = None)
           (f_calls (HasteGruOp_Compute iterate op alloc inp proc))"
proof -
  have hz: "(zoneout_prob op \<noteq> 0 \<and> NumElements (f_zoneout_mask inp) \<noteq> 0) = False"
    using assms by auto
  have loop: "\<And>forward time_steps i st.
      HasteGruOp_loop iterate forward (op\<lparr>zoneout_prob := 0\<rparr>)
        (inp\<lparr>f_zoneout_mask := \<lparr>shape = [0, 0, 0], flat = []\<rparr>\<rparr>) False time_steps i st =
      HasteGruOp_loop iterate forward op inp False time_steps i st"
    by (rule HasteGruOp_loop_cong) (rule HasteGruOp_iteration_no_zoneout)
  have "HasteGruOp_Compute iterate op alloc inp proc =
        HasteGruOp_Compute iterate (op\<lparr>zoneout_prob := 0\<rparr>) alloc
          (inp\<lparr>f_zoneout_mask := \<lparr>shape = [0, 0, 0], flat = []\<rparr>\<rparr>) proc"
    unfolding HasteGruOp_Compute_def Let_def hz
    by (simp add: HasteGruOp_buffers_no_zoneout loop
        cong: sum.case_cong prod.case_cong option.case_cong)
  moreover note forward_calls_without_zoneout [OF assms, of iterate alloc proc]
  ultimately show ?thesis
    by (intro conjI)
qed

theorem zoneout_disabled_forward_witness:
  "(zoneout_prob \<lparr>training = True, zoneout_prob = 0\<rparr> = 0 \<or>
      NumElements (f_zoneout_mask tiny_forward) = 0) \<and>
   HasteGruOp_Compute idle_forward \<lparr>training = True, zoneout_prob = 0\<rparr> roomy tiny_forward
     (process_start 1 0) =
   HasteGruOp_Compute idle_forward (\<lparr>training = True, zoneout_prob = 0\<rparr>\<lparr>zoneout_prob := 0\<rparr>)
     roomy (tiny_forward\<lparr>f_zoneout_mask := \<lparr>shape = [0, 0, 0], flat = []\<rparr>\<rparr>)
     (process_start 1 0) \<and>
   list_all (\<lambda>c. fa_zoneout_prob (fc_args c) = 0 \<and> fa_zoneout_mask (fc_args c) = None)
     (f_calls (HasteGruOp_Compute idle_forward \<lparr>training = True, zoneout_prob = 0\<rparr> roomy
        tiny_forward (process_start 1 0))) \<and>
   map fc_step (f_calls (HasteGruOp_Compute idle_forward \<lparr>training = True, zoneout_prob = 0\<rparr>
     roomy tiny_forward (process_start 1 0))) = [0, 1] \<and>
   NumElements (f_zoneout_mask tiny_forward) = 2"
proof -
  have h: "zoneout_prob \<lparr>training = True, zoneout_prob = 0\<rparr> = 0 \<or>
      NumElements (f_zoneout_mask tiny_forward) = 0"
    by simp
  have c: "map fc_step (f_calls (HasteGruOp_Compute idle_forward
      \<lparr>training = True, zoneout_prob = 0\<rparr> roomy tiny_forward (process_start 1 0))) = [0, 1]"
    by (simp add: run_forward)
  have n: "NumElements (f_zoneout_mask tiny_forward) = 2"
    by (simp add: NumElements_def tiny_forward_def)
  show ?thesis
    using h c n
      zoneout_disabled_forward [OF h, of idle_forward roomy "process_start 1 0"]
    by blast
qed

section \<open>Legal forward calls run to completion\<close>

lemma sliceable_SubSlice:
  assumes "sliceable n t" and "0 \<le> i" and "i < n"
  shows "\<exists>s. SubSlice t i = Inr s"
proof -
  from assms(1) obtain d0 rest where s: "shape t = d0 # rest" and n: "n \<le> d0"
    and l: "flat t = [] \<or> length (flat t) = nat d0 * nat (prod_list rest)"
    by (auto simp add: sliceable_def split: list.splits if_splits)
  show ?thesis
  proof (cases "flat t = []")
    case True
    with s n assms(2,3) show ?thesis by (simp add: SubSlice_def)
  next
    case False
    with l have len: "length (flat t) = nat d0 * nat (prod_list rest)" by simp
    have "Suc (nat i) \<le> nat d0" using assms(2,3) n by linarith
    then have "nat (prod_list rest) * Suc (nat i) \<le> nat (prod_list rest) * nat d0"
      by (rule mult_le_mono2)
    then have "elems_per_dim0 t * nat i + elems_per_dim0 t \<le> length (flat t)"
      by (simp add: elems_per_dim0_def s len mult.commute)
    with s n assms(2,3) False show ?thesis by (simp add: SubSlice_def)
  qed
qed

lemma sliceable_write_slice: "sliceable n t \<Longrightarrow> sliceable n (write_slice t i new)"
proof -
  assume a: "sliceable n t"
  have "flat t = [] \<Longrightarrow> flat (write_slice t i new) = []" by simp
  moreover have "flat t \<noteq> [] \<Longrightarrow> flat (write_slice t i new) \<noteq> []"
    using length_write_slice [of t i new] by (metis length_0_conv)
  ultimately show ?thesis
    using a by (cases "flat t = []") (auto simp add: sliceable_def split: list.splits)
qed

lemma sliceable_well_formed:
  assumes "well_formed t" and "shape t = d0 # rest"
  shows "sliceable d0 t"
proof -
  from assms have "0 \<le> d0" and "length (flat t) = nat (d0 * prod_list rest)"
    by (simp_all add: well_formed_def representable_def)
  then show ?thesis
    using assms(2) by (simp add: sliceable_def nat_mult_distrib)
qed

lemma sliceable_allocate:
  assumes "allocate a (d0 # rest) = Inr t" and "0 \<le> d0"
  shows "sliceable d0 t"
  using allocate_Inr [OF assms(1)] assms(2)
  by (simp add: sliceable_def nat_mult_distrib)

lemma sliceable_first:
  assumes "sliceable n t" and "0 \<le> n"
  shows "\<exists>s. SubSlice t 0 = Inr s"
proof (cases "flat t = []")
  case True
  with assms show ?thesis
    by (auto simp add: sliceable_def SubSlice_def split: list.splits)
next
  case False
  from assms(1) obtain d0 rest where s: "shape t = d0 # rest" and n: "n \<le> d0"
    and l: "length (flat t) = nat d0 * nat (prod_list rest)"
    using False by (auto simp add: sliceable_def split: list.splits if_splits)
  have "0 < nat d0" using False l by (cases "nat d0") simp_all
  then have "0 < d0" by simp
  then have "sliceable d0 t" using s l by (simp add: sliceable_def)
  then show ?thesis using \<open>0 < d0\<close> by (rule sliceable_SubSlice [where i = 0, simplified])
qed

lemma HasteGruOp_iteration_ok:
  assumes "0 \<le> i" and "i < T"
    and "sliceable T (f_input inp)" and "sliceable T (fs_output s)"
    and "sliceable T (fs_v_out s)" and "sliceable T (fs_tmp_Wx s)"
    and "hz \<Longrightarrow> sliceable T (f_zoneout_mask inp)"
  shows "\<exists>s'. HasteGruOp_iteration iterate forward op inp hz i s = Inr s'"
proof -
  obtain x where x: "SubSlice (f_input inp) i = Inr x"
    using sliceable_SubSlice [OF assms(3) assms(1,2)] by blast
  obtain new_h where h: "SubSlice (fs_output s) i = Inr new_h"
    using sliceable_SubSlice [OF assms(4) assms(1,2)] by blast
  obtain v where v: "SubSlice (fs_v_out s) i = Inr v"
    using sliceable_SubSlice [OF assms(5) assms(1,2)] by blast
  obtain w where w: "SubSlice (fs_tmp_Wx s) i = Inr w"
    using sliceable_SubSlice [OF assms(6) assms(1,2)] by blast
  show ?thesis
  proof (cases hz)
    case False
    then show ?thesis
      by (simp add: HasteGruOp_iteration_def x h v w Let_def)
  next
    case True
    then obtain m where m: "SubSlice (f_zoneout_mask inp) i = Inr m"
      using sliceable_SubSlice [OF assms(7) assms(1,2)] by blast
    with True show ?thesis
      by (simp add: HasteGruOp_iteration_def x h v w Let_def)
  qed
qed

lemma HasteGruOp_iteration_sliceable:
  assumes "HasteGruOp_iteration iterate forward op inp hz i s = Inr s'"
    and "sliceable T (fs_output s)" and "sliceable T (fs_v_out s)"
    and "sliceable T (fs_tmp_Wx s)"
  shows "sliceable T (fs_output s')" and "sliceable T (fs_v_out s')"
    and "sliceable T (fs_tmp_Wx s')"
  using assms
  unfolding HasteGruOp_iteration_def Let_def
  by (auto split: sum.splits if_splits intro: sliceable_write_slice)

lemma HasteGruOp_loop_completes:
  assumes run: "HasteGruOp_loop iterate forward op inp hz T 0 b = (r, st)"
    and "sliceable T (f_input inp)" and "sliceable T (fs_output b)"
    and "sliceable T (fs_v_out b)" and "sliceable T (fs_tmp_Wx b)"
    and "hz \<Longrightarrow> sliceable T (f_zoneout_mask inp)"
  shows "r = None"
proof -
  let ?P = "\<lambda>(j::int) s. 0 \<le> j \<and> sliceable T (fs_output s) \<and> sliceable T (fs_v_out s) \<and>
                   sliceable T (fs_tmp_Wx s)"
  have "\<exists>j. 0 \<le> j \<and> ?P j st \<and>
           (case r of
              None \<Rightarrow> j = max 0 T
            | Some e \<Rightarrow> j < T \<and> HasteGruOp_iteration iterate forward op inp hz j st = Inl e)"
  proof (rule HasteGruOp_loop_rule [OF run, where P = ?P])
    show "?P 0 b" using assms by simp
  next
    fix j s s'
    assume "0 \<le> j" and "?P j s"
      and "HasteGruOp_iteration iterate forward op inp hz j s = Inr s'"
    then show "?P (j + 1) s'"
      using HasteGruOp_iteration_sliceable [of iterate forward op inp hz j s s' T] by simp
  qed
  then obtain j where j: "0 \<le> j" "?P j st"
    and c: "case r of
              None \<Rightarrow> j = max 0 T
            | Some e \<Rightarrow> j < T \<and> HasteGruOp_iteration iterate forward op inp hz j st = Inl e"
    by blast
  show ?thesis
  proof (cases r)
    case None
    then show ?thesis .
  next
    case (Some e)
    with c have "j < T" and f: "HasteGruOp_iteration iterate forward op inp hz j st = Inl e"
      by simp_all
    from HasteGruOp_iteration_ok [OF j(1) \<open>j < T\<close> assms(2), of st hz iterate forward op]
      j(2) assms(6) f
    show ?thesis by auto
  qed
qed

lemma allocate_allocatable:
  "allocatable a s \<Longrightarrow> \<exists>t. allocate a s = Inr t"
  by (simp add: allocate_def)

lemma legal_forward_buffers:
  fixes alloc :: "'a::zero Allocator"
  assumes "legal_forward op alloc inp proc"
  shows "\<exists>b. HasteGruOp_buffers op alloc inp = Inr b"
proof -
  let ?T = "dim_size (f_input inp) 0" and ?N = "dim_size (f_input inp) 1"
  let ?C = "dim_size (f_input inp) 2" and ?H = "dim_size (f_recurrent_kernel inp) 0"
  let ?V = "if training op then ?H * 4 else 0"
  from assms have s: "shape (f_input inp) = [?T, ?N, ?C]"
    "shape (f_kernel inp) = [?C, ?H * 3]" "shape (f_recurrent_kernel inp) = [?H, ?H * 3]"
    and r: "representable [?T, ?N, ?H]" "representable [?T, ?N, ?V]"
      "representable [?T, ?N, ?H * 3]" "representable [?N, ?H * 3]"
    and a: "allocatable alloc [?T, ?N, ?H]" "allocatable alloc [?T, ?N, ?V]"
      "allocatable alloc [?T, ?N, ?H * 3]" "allocatable alloc [?N, ?H * 3]"
    unfolding legal_forward_def Let_def by simp_all
  have d: "\<not> (dims (f_input inp) < 3 \<or> dims (f_kernel inp) < 1 \<or>
              dims (f_recurrent_kernel inp) < 1)"
    unfolding dims_def by (subst s(1), subst s(2), subst s(3)) simp
  have k: "dim_size (f_input inp) 2 = dim_size (f_kernel inp) 0"
    unfolding dim_size_def [of "f_kernel inp"] by (subst s(2)) simp
  obtain t1 where t1: "allocate alloc [?T, ?N, ?H] = Inr t1"
    using allocate_allocatable [OF a(1)] by blast
  obtain t2 where t2: "allocate alloc [?T, ?N, ?V] = Inr t2"
    using allocate_allocatable [OF a(2)] by blast
  obtain t3 where t3: "allocate alloc [?T, ?N, ?H * 3] = Inr t3"
    using allocate_allocatable [OF a(3)] by blast
  obtain t4 where t4: "allocate alloc [?N, ?H * 3] = Inr t4"
    using allocate_allocatable [OF a(4)] by blast
  show ?thesis
    unfolding HasteGruOp_buffers_def Let_def
    using d k r t1 t2 t3 t4 by (simp add: TensorShape_init_def)
qed

lemma forward_run_facts:
  fixes iterate :: "'a::zero ForwardIterate"
  assumes b: "HasteGruOp_buffers op alloc inp = Inr b"
    and run: "HasteGruOp_loop iterate forward op inp hz (dim_size (f_input inp) 0) 0 b = (r, st)"
  defines "T \<equiv> dim_size (f_input inp) 0"
    and "N \<equiv> dim_size (f_input inp) 1"
    and "H \<equiv> dim_size (f_recurrent_kernel inp) 0"
  shows "shape (fs_output st) = [T, N, H]"
    and "length (flat (fs_output st)) = nat (T * (N * H))"
    and "shape (fs_v_out st) = [T, N, if training op then H * 4 else 0]"
    and "length (flat (fs_v_out st)) = nat (T * (N * (if training op then H * 4 else 0)))"
    and "list_all (\<lambda>c. (fa_v (fc_args c) = None) = (\<not> training op)) (fs_calls st)"
    and "r = None \<Longrightarrow> map fc_step (fs_calls st) = [0..T - 1]"
proof -
  let ?Q = "\<lambda>c::'a ForwardCall. (fa_v (fc_args c) = None) = (\<not> training op)"
  let ?P = "\<lambda>(j::int) s.
      shape (fs_output s) = [T, N, H] \<and>
      length (flat (fs_output s)) = nat (T * (N * H)) \<and>
      shape (fs_v_out s) = [T, N, if training op then H * 4 else 0] \<and>
      length (flat (fs_v_out s)) = nat (T * (N * (if training op then H * 4 else 0))) \<and>
      list_all ?Q (fs_calls s) \<and>
      map fc_step (fs_calls s) = [0..j - 1]"
  note f = HasteGruOp_buffers_Inr [OF b, folded T_def N_def H_def]
  have "\<exists>j. 0 \<le> j \<and> ?P j st \<and>
           (case r of
              None \<Rightarrow> j = max 0 T
            | Some e \<Rightarrow> j < T \<and> HasteGruOp_iteration iterate forward op inp hz j st = Inl e)"
  proof (rule HasteGruOp_loop_rule [OF run [folded T_def], where P = ?P])
    show "?P 0 b" using f by simp
  next
    fix j :: int and s s'
    assume j: "0 \<le> j" and p: "?P j s"
      and i: "HasteGruOp_iteration iterate forward op inp hz j s = Inr s'"
    from HasteGruOp_iteration_Inr(6) [OF i]
    obtain c where "fs_calls s' = fs_calls s @ [c] \<and> fc_step c = j \<and>
           fa_h (fc_args c) = slice_data (fs_output s) (fs_h s) \<and>
           (fa_v (fc_args c) = None) = (\<not> training op) \<and>
           fa_zoneout_prob (fc_args c) = (if hz then zoneout_prob op else 0) \<and>
           fa_zoneout_mask (fc_args c) =
             (if hz then Some (slice_data (f_zoneout_mask inp) j) else None)" ..
    then have c: "fs_calls s' = fs_calls s @ [c]" "fc_step c = j"
      "(fa_v (fc_args c) = None) = (\<not> training op)"
      by simp_all
    have u: "[0..j + 1 - 1] = [0..j - 1] @ [j]"
      using j upto_rec2 [of 0 j] by simp
    show "?P (j + 1) s'"
      using p HasteGruOp_iteration_Inr(1-4) [OF i] c u by simp
  qed
  then obtain j where j: "0 \<le> j" "?P j st"
    and c: "case r of
              None \<Rightarrow> j = max 0 T
            | Some e \<Rightarrow> j < T \<and> HasteGruOp_iteration iterate forward op inp hz j st = Inl e"
    by blast
  from j(2) show "shape (fs_output st) = [T, N, H]"
    and "length (flat (fs_output st)) = nat (T * (N * H))"
    and "shape (fs_v_out st) = [T, N, if training op then H * 4 else 0]"
    and "length (flat (fs_v_out st)) = nat (T * (N * (if training op then H * 4 else 0)))"
    and "list_all ?Q (fs_calls st)"
    by simp_all
  show "map fc_step (fs_calls st) = [0..T - 1]" if "r = None"
    using that c j(2) f(10) by (simp add: max_def)
qed

lemma legal_forward_completes:
  fixes iterate :: "'a::zero ForwardIterate"
  assumes legal: "legal_forward op alloc inp proc"
  shows "\<exists>b bh proc' st.
        HasteGruOp_buffers op alloc inp = Inr b \<and>
        HasteGruOp_loop iterate
          \<lparr>fp_training = training op, fp_batch_size = dim_size (f_input inp) 1,
           fp_input_size = dim_size (f_input inp) 2,
           fp_hidden_size = dim_size (f_recurrent_kernel inp) 0, fp_blas_handle = bh\<rparr>
          op inp (zoneout_prob op \<noteq> 0 \<and> NumElements (f_zoneout_mask inp) \<noteq> 0)
          (dim_size (f_input inp) 0) 0 b = (None, st) \<and>
        HasteGruOp_Compute iterate op alloc inp proc =
          \<lparr>f_outcome = Inr \<lparr>out_h = fs_output st, out_v = fs_v_out st\<rparr>,
           f_calls = fs_calls st, f_process = proc'\<rparr>"
proof -
  let ?T = "dim_size (f_input inp) 0" and ?N = "dim_size (f_input inp) 1"
  let ?H = "dim_size (f_recurrent_kernel inp) 0"
  let ?hz = "zoneout_prob op \<noteq> 0 \<and> NumElements (f_zoneout_mask inp) \<noteq> 0"
  obtain b where b: "HasteGruOp_buffers op alloc inp = Inr b"
    using legal_forward_buffers [OF legal] by blast
  note f = HasteGruOp_buffers_Inr [OF b]
  from legal have ready: "handles_ready proc"
    and wi: "well_formed (f_input inp)"
    and si: "shape (f_input inp) = [?T, ?N, dim_size (f_input inp) 2]"
    and wm: "well_formed (f_zoneout_mask inp)"
    and sm: "NumElements (f_zoneout_mask inp) \<noteq> 0 \<Longrightarrow> shape (f_zoneout_mask inp) = [?T, ?N, ?H]"
    unfolding legal_forward_def Let_def by (simp_all split: if_splits)
  obtain bh proc' where g: "GetCublasHandle proc = (Some bh, proc')"
    using GetCublasHandle_ready [OF ready] by simp
  have lo: "flat (fs_output b) = [] \<or>
            length (flat (fs_output b)) = nat ?T * nat (prod_list [?N, ?H])"
    using f(4,10) by (simp add: nat_mult_distrib)
  have so: "sliceable ?T (fs_output b)"
    using f(3) lo by (auto simp add: sliceable_def)
  have sv: "sliceable ?T (fs_v_out b)"
    using f(5,6,10) by (simp add: sliceable_def nat_mult_distrib)
  have sw: "sliceable ?T (fs_tmp_Wx b)"
    using f(7,8,10) by (simp add: sliceable_def nat_mult_distrib)
  have sx: "sliceable ?T (f_input inp)"
    using wi si by (rule sliceable_well_formed)
  have smask: "?hz \<Longrightarrow> sliceable ?T (f_zoneout_mask inp)"
    using wm sm by (simp add: sliceable_well_formed)
  obtain h where h: "SubSlice (fs_output b) 0 = Inr h"
    using sliceable_first [OF so f(10)] by blast
  obtain r st where run: "HasteGruOp_loop iterate
          \<lparr>fp_training = training op, fp_batch_size = ?N,
           fp_input_size = dim_size (f_input inp) 2,
           fp_hidden_size = ?H, fp_blas_handle = bh\<rparr>
          op inp ?hz ?T 0 b = (r, st)"
    by (meson surj_pair)
  have r: "r = None"
    using HasteGruOp_loop_completes [OF run sx so sv sw smask] by simp
  have c: "HasteGruOp_Compute iterate op alloc inp proc =
          \<lparr>f_outcome = Inr \<lparr>out_h = fs_output st, out_v = fs_v_out st\<rparr>,
           f_calls = fs_calls st, f_process = proc'\<rparr>"
    unfolding HasteGruOp_Compute_def Let_def using run r b g h by simp
  from b run [unfolded r] c show ?thesis
    by (intro exI conjI)
qed

lemma forward_declared_shapes:
  shows "HasteGru_ShapeFn (map shape [f_input inp, f_kernel inp, f_recurrent_kernel inp,
           f_bias inp, f_recurrent_bias inp, f_zoneout_mask inp]) = Inr (s_h, s_v) \<Longrightarrow>
         s_h = [dim_size (f_input inp) 0, dim_size (f_input inp) 1,
                dim_size (f_recurrent_kernel inp) 0] \<and>
         s_v = [dim_size (f_input inp) 0, dim_size (f_input inp) 1,
                dim_size (f_recurrent_kernel inp) 0 * 4]"
  by (auto simp add: HasteGru_ShapeFn_def Let_def dim_size_def split: if_splits)

text \<open>
  Claim C2. A forward call on a legal problem size (tensors of the documented shapes,
  buffer sizes that a \<open>TensorShape\<close> can hold and that the allocator grants, a ready
  device) is accepted; its output \<open>h\<close> has shape \<open>[T, N, H]\<close>, its output \<open>v\<close> has shape
  \<open>[T, N, 4H]\<close> when the op is in training mode and \<open>[T, N, 0]\<close> (no element)
  otherwise, and \<open>Iterate\<close> is called once per step \<open>0, \<dots>, T - 1\<close> with a null \<open>v\<close>
  target exactly when the op is not in training mode.
\<close>

theorem forward_output_shapes:
  fixes iterate :: "'a::zero ForwardIterate"
  assumes "legal_forward op alloc inp proc"
  shows "let T = dim_size (f_input inp) 0;
             N = dim_size (f_input inp) 1;
             H = dim_size (f_recurrent_kernel inp) 0;
             run = HasteGruOp_Compute iterate op alloc inp proc
         in case f_outcome run of
              Inl e \<Rightarrow> False
            | Inr out \<Rightarrow>
                shape (out_h out) = [T, N, H] \<and>
                int (length (flat (out_h out))) = T * N * H \<and>
                shape (out_v out) = [T, N, if training op then H * 4 else 0] \<and>
                int (length (flat (out_v out))) = (if training op then T * N * (H * 4) else 0) \<and>
                list_all (\<lambda>c. (fa_v (fc_args c) = None) = (\<not> training op)) (f_calls run) \<and>
                map fc_step (f_calls run) = [0..T - 1]"
proof -
  obtain b bh proc' st where
    b: "HasteGruOp_buffers op alloc inp = Inr b" and
    run: "HasteGruOp_loop iterate
          \<lparr>fp_training = training op, fp_batch_size = dim_size (f_input inp) 1,
           fp_input_size = dim_size (f_input inp) 2,
           fp_hidden_size = dim_size (f_recurrent_kernel inp) 0, fp_blas_handle = bh\<rparr>
          op inp (zoneout_prob op \<noteq> 0 \<and> NumElements (f_zoneout_mask inp) \<noteq> 0)
          (dim_size (f_input inp) 0) 0 b = (None, st)" and
    c: "HasteGruOp_Compute iterate op alloc inp proc =
          \<lparr>f_outcome = Inr \<lparr>out_h = fs_output st, out_v = fs_v_out st\<rparr>,
           f_calls = fs_calls st, f_process = proc'\<rparr>"
    using legal_forward_completes [OF assms, of iterate] by blast
  note f = HasteGruOp_buffers_Inr [OF b]
  note g = forward_run_facts [OF b run]
  have nn: "0 \<le> dim_size (f_input inp) 0 * (dim_size (f_input inp) 1 *
                 dim_size (f_recurrent_kernel inp) 0)"
    using f(10,11,12) by simp
  have nv: "0 \<le> dim_size (f_input inp) 0 * (dim_size (f_input inp) 1 *
                 (dim_size (f_recurrent_kernel inp) 0 * 4))"
    using f(10,11,12) by simp
  show ?thesis
    unfolding Let_def c using g nn nv by (simp add: mult.assoc)
qed

section \<open>The backward op\<close>

lemma grad_rejected_simps [simp]:
  "g_outcome (grad_rejected e p) = Inl e" "g_calls (grad_rejected e p) = []"
  "g_process (grad_rejected e p) = p"
  by (simp_all add: grad_rejected_def)

lemma HasteGruGradOp_Compute_cases:
  fixes iterate :: "'a::zero BackwardIterate"
  shows "(\<exists>e p. HasteGruGradOp_Compute iterate alloc inp proc = grad_rejected e p) \<or>
     (\<exists>b bh proc' r st.
        HasteGruGradOp_buffers alloc inp = Inr b \<and>
        GetCublasHandle proc = (Some bh, proc') \<and>
        HasteGruGradOp_loop iterate
          \<lparr>bp_batch_size = dim_size (g_input inp) 2, bp_input_size = dim_size (g_input inp) 1,
           bp_hidden_size = dim_size (g_recurrent_kernel inp) 1, bp_blas_handle = bh\<rparr>
          inp (NumElements (g_zoneout_mask inp) \<noteq> 0) (bb_zero_vector b)
          (dim_size (g_input inp) 0 - 1) (bb_state b) = (r, st) \<and>
        HasteGruGradOp_Compute iterate alloc inp proc =
          \<lparr>g_outcome =
             (case r of
                None \<Rightarrow> Inr \<lparr>out_dx = bs_dx st, out_dW = bs_dW st, out_dR = bs_dR st,
                              out_dbx = bs_dbx st, out_dbr = bs_dbr st\<rparr>
              | Some e \<Rightarrow> Inl e),
           g_calls = bs_calls st, g_process = proc'\<rparr>)"
  unfolding HasteGruGradOp_Compute_def Let_def
  by (auto split: sum.splits prod.splits option.splits)

lemma HasteGruGradOp_iteration_call:
  assumes "HasteGruGradOp_iteration iterate backward inp hz zero_vector i s = Inr s'"
  shows "\<exists>c. bs_calls s' = bs_calls s @ [c] \<and> bc_step c = i \<and>
           bc_writes c = iterate backward (bc_args c) \<and>
           ba_h (bc_args c) =
             (if i \<noteq> 0 then slice_data (g_h_vector inp) (i - 1) else flat zero_vector) \<and>
           ba_zoneout_mask (bc_args c) =
             (if hz then Some (slice_data (g_zoneout_mask inp) i) else None) \<and>
           accumulators (bc_args c) =
             [flat (bs_dW s), flat (bs_dR s), flat (bs_dbx s), flat (bs_dbr s), flat (bs_dh s)] \<and>
           [flat (bs_dW s'), flat (bs_dR s'), flat (bs_dbx s'), flat (bs_dbr s'),
            flat (bs_dh s')] = accumulated c \<and>
           ba_dx (bc_args c) = slice_data (bs_dx s) i \<and>
           bs_dx s' = write_slice (bs_dx s) i (bw_dx (bc_writes c))"
  using assms
  unfolding HasteGruGradOp_iteration_def Let_def
  by (auto simp add: accumulators_def accumulated_def
      split: sum.splits if_splits dest: SubSlice_Inr(1))

lemma HasteGruGradOp_iteration_dx:
  assumes "HasteGruGradOp_iteration iterate backward inp hz zero_vector i s = Inr s'"
  shows "0 \<le> i"
    and "flat (bs_dx s) = [] \<or>
         elems_per_dim0 (bs_dx s) * nat i + elems_per_dim0 (bs_dx s) \<le> length (flat (bs_dx s))"
proof -
  from assms obtain dx_cur where dx: "SubSlice (bs_dx s) i = Inr dx_cur"
    unfolding HasteGruGradOp_iteration_def by (auto split: sum.splits)
  show "0 \<le> i" by (rule SubSlice_Inr(3) [OF dx])
  show "flat (bs_dx s) = [] \<or>
         elems_per_dim0 (bs_dx s) * nat i + elems_per_dim0 (bs_dx s) \<le> length (flat (bs_dx s))"
    by (rule SubSlice_Inr(4) [OF dx])
qed

lemma HasteGruGradOp_iteration_shapes:
  assumes "HasteGruGradOp_iteration iterate backward inp hz zero_vector i s = Inr s'"
  shows "shape (bs_dW s') = shape (bs_dW s)" and "shape (bs_dR s') = shape (bs_dR s)"
    and "shape (bs_dbx s') = shape (bs_dbx s)" and "shape (bs_dbr s') = shape (bs_dbr s)"
    and "shape (bs_dx s') = shape (bs_dx s)"
    and "length (flat (bs_dx s')) = length (flat (bs_dx s))"
  using assms
  unfolding HasteGruGradOp_iteration_def Let_def
  by (auto split: sum.splits if_splits)

section \<open>Legal backward calls run to completion\<close>

lemma legal_backward_buffers:
  fixes alloc :: "'a::zero Allocator"
  assumes "legal_backward alloc inp proc"
  shows "\<exists>b. HasteGruGradOp_buffers alloc inp = Inr b"
proof -
  let ?T = "dim_size (g_input inp) 0" and ?C = "dim_size (g_input inp) 1"
  let ?N = "dim_size (g_input inp) 2" and ?H = "dim_size (g_recurrent_kernel inp) 1"
  from assms have s: "shape (g_input inp) = [?T, ?C, ?N]"
    "shape (g_recurrent_kernel inp) = [?H * 3, ?H]"
    and r: "representable [?T, ?N, ?C]" "representable [?C, ?H * 3]"
      "representable [?H, ?H * 3]" "representable [?H * 3]" "representable [?N, ?H]"
      "representable [?T, ?N, ?H * 3]"
    and a: "allocatable alloc [?T, ?N, ?C]" "allocatable alloc [?C, ?H * 3]"
      "allocatable alloc [?H, ?H * 3]" "allocatable alloc [?H * 3]" "allocatable alloc [?N, ?H]"
      "allocatable alloc [?T, ?N, ?H * 3]"
    unfolding legal_backward_def Let_def by simp_all
  have d: "\<not> (dims (g_input inp) < 3 \<or> dims (g_recurrent_kernel inp) < 2)"
    unfolding dims_def by (subst s(1), subst s(2)) simp
  obtain t1 where t1: "allocate alloc [?T, ?N, ?C] = Inr t1"
    using allocate_allocatable [OF a(1)] by blast
  obtain t2 where t2: "allocate alloc [?C, ?H * 3] = Inr t2"
    using allocate_allocatable [OF a(2)] by blast
  obtain t3 where t3: "allocate alloc [?H, ?H * 3] = Inr t3"
    using allocate_allocatable [OF a(3)] by blast
  obtain t4 where t4: "allocate alloc [?H * 3] = Inr t4"
    using allocate_allocatable [OF a(4)] by blast
  obtain t5 where t5: "allocate alloc [?N, ?H] = Inr t5"
    using allocate_allocatable [OF a(5)] by blast
  obtain t6 where t6: "allocate alloc [?T, ?N, ?H * 3] = Inr t6"
    using allocate_allocatable [OF a(6)] by blast
  show ?thesis
    unfolding HasteGruGradOp_buffers_def Let_def
    using d r t1 t2 t3 t4 t5 t6 by (simp add: TensorShape_init_def)
qed

lemma HasteGruGradOp_iteration_ok:
  assumes "0 \<le> i" and "i < T"
    and "sliceable T (g_input inp)" and "sliceable (T - 1) (g_h_vector inp)"
    and "sliceable T (g_v_vector inp)" and "sliceable T (g_dh_new inp)"
    and "sliceable T (bs_dx s)" and "sliceable T (bs_dp s)" and "sliceable T (bs_dq s)"
    and "hz \<Longrightarrow> sliceable T (g_zoneout_mask inp)"
  shows "\<exists>s'. HasteGruGradOp_iteration iterate backward inp hz zero_vector i s = Inr s'"
proof -
  obtain x where x: "SubSlice (g_input inp) i = Inr x"
    using sliceable_SubSlice [OF assms(3) assms(1,2)] by blast
  have "\<exists>h. (if i \<noteq> 0 then SubSlice (g_h_vector inp) (i - 1) else Inr zero_vector) = Inr h"
    using sliceable_SubSlice [OF assms(4), of "i - 1"] assms(1,2) by simp
  then obtain h where
    h: "(if i \<noteq> 0 then SubSlice (g_h_vector inp) (i - 1) else Inr zero_vector) = Inr h" ..
  obtain v where v: "SubSlice (g_v_vector inp) i = Inr v"
    using sliceable_SubSlice [OF assms(5) assms(1,2)] by blast
  obtain dh where dh: "SubSlice (g_dh_new inp) i = Inr dh"
    using sliceable_SubSlice [OF assms(6) assms(1,2)] by blast
  obtain dx where dx: "SubSlice (bs_dx s) i = Inr dx"
    using sliceable_SubSlice [OF assms(7) assms(1,2)] by blast
  obtain dp where dp: "SubSlice (bs_dp s) i = Inr dp"
    using sliceable_SubSlice [OF assms(8) assms(1,2)] by blast
  obtain dq where dq: "SubSlice (bs_dq s) i = Inr dq"
    using sliceable_SubSlice [OF assms(9) assms(1,2)] by blast
  show ?thesis
  proof (cases hz)
    case False
    then show ?thesis
      unfolding HasteGruGradOp_iteration_def by (simp add: x h v dh dx dp dq Let_def)
  next
    case True
    then obtain m where m: "SubSlice (g_zoneout_mask inp) i = Inr m"
      using sliceable_SubSlice [OF assms(10) assms(1,2)] by blast
    with True show ?thesis
      unfolding HasteGruGradOp_iteration_def by (simp add: x h v dh dx dp dq Let_def)
  qed
qed

lemma HasteGruGradOp_iteration_sliceable:
  assumes "HasteGruGradOp_iteration iterate backward inp hz zero_vector i s = Inr s'"
    and "sliceable T (bs_dx s)" and "sliceable T (bs_dp s)" and "sliceable T (bs_dq s)"
  shows "sliceable T (bs_dx s')" and "sliceable T (bs_dp s')" and "sliceable T (bs_dq s')"
  using assms
  unfolding HasteGruGradOp_iteration_def Let_def
  by (auto split: sum.splits if_splits intro: sliceable_write_slice)

lemma HasteGruGradOp_loop_completes:
  assumes run: "HasteGruGradOp_loop iterate backward inp hz zero_vector (T - 1) s0 = (r, st)"
    and "sliceable T (g_input inp)" and "sliceable (T - 1) (g_h_vector inp)"
    and "sliceable T (g_v_vector inp)" and "sliceable T (g_dh_new inp)"
    and "sliceable T (bs_dx s0)" and "sliceable T (bs_dp s0)" and "sliceable T (bs_dq s0)"
    and "hz \<Longrightarrow> sliceable T (g_zoneout_mask inp)"
  shows "r = None"
proof -
  let ?P = "\<lambda>(j::int) s. j < T \<and> sliceable T (bs_dx s) \<and> sliceable T (bs_dp s) \<and>
                   sliceable T (bs_dq s)"
  have "\<exists>j. j \<le> T - 1 \<and> ?P j st \<and>
           (case r of
              None \<Rightarrow> j = min (T - 1) (- 1)
            | Some e \<Rightarrow> 0 \<le> j \<and>
                HasteGruGradOp_iteration iterate backward inp hz zero_vector j st = Inl e)"
  proof (rule HasteGruGradOp_loop_rule [OF run, where P = ?P])
    show "?P (T - 1) s0" using assms by simp
  next
    fix j s s'
    assume "j \<le> T - 1" and "?P j s"
      and "HasteGruGradOp_iteration iterate backward inp hz zero_vector j s = Inr s'"
    then show "?P (j - 1) s'"
      using HasteGruGradOp_iteration_sliceable [of iterate backward inp hz zero_vector j s s' T]
      by simp
  qed
  then obtain j where j: "?P j st"
    and c: "case r of
              None \<Rightarrow> j = min (T - 1) (- 1)
            | Some e \<Rightarrow> 0 \<le> j \<and>
                HasteGruGradOp_iteration iterate backward inp hz zero_vector j st = Inl e"
    by blast
  show ?thesis
  proof (cases r)
    case None
    then show ?thesis .
  next
    case (Some e)
    with c have "0 \<le> j"
      and f: "HasteGruGradOp_iteration iterate backward inp hz zero_vector j st = Inl e"
      by simp_all
    from j have "j < T" by simp
    from HasteGruGradOp_iteration_ok [OF \<open>0 \<le> j\<close> \<open>j < T\<close> assms(2-5), of st hz iterate
        backward zero_vector] j assms(9) f
    show ?thesis by auto
  qed
qed

lemma sliceable_less: "sliceable n t \<Longrightarrow> m \<le> n \<Longrightarrow> sliceable m t"
  by (auto simp add: sliceable_def split: list.splits)

lemma legal_backward_completes:
  fixes iterate :: "'a::zero BackwardIterate"
  assumes legal: "legal_backward alloc inp proc"
  shows "\<exists>out. g_outcome (HasteGruGradOp_Compute iterate alloc inp proc) = Inr out"
proof -
  let ?T = "dim_size (g_input inp) 0" and ?C = "dim_size (g_input inp) 1"
  let ?N = "dim_size (g_input inp) 2" and ?H = "dim_size (g_recurrent_kernel inp) 1"
  let ?hz = "NumElements (g_zoneout_mask inp) \<noteq> 0"
  obtain b where b: "HasteGruGradOp_buffers alloc inp = Inr b"
    using legal_backward_buffers [OF legal] by blast
  note f = HasteGruGradOp_buffers_Inr [OF b]
  from legal have ready: "handles_ready proc"
    and wi: "well_formed (g_input inp)" "shape (g_input inp) = [?T, ?C, ?N]"
    and wh: "well_formed (g_h_vector inp)" "shape (g_h_vector inp) = [?T, ?H, ?N]"
    and wv: "well_formed (g_v_vector inp)" "shape (g_v_vector inp) = [?T, ?N, ?H * 4]"
    and wd: "well_formed (g_dh_new inp)" "shape (g_dh_new inp) = [?T, ?N, ?H]"
    and wm: "well_formed (g_zoneout_mask inp)"
    and sm: "?hz \<Longrightarrow> shape (g_zoneout_mask inp) = [?T, ?N, ?H]"
    and rp: "representable [?T, ?N, ?H * 3]" and ap: "allocatable alloc [?T, ?N, ?H * 3]"
    unfolding legal_backward_def Let_def by (simp_all split: if_splits)
  obtain bh proc' where g: "GetCublasHandle proc = (Some bh, proc')"
    using GetCublasHandle_ready [OF ready] by simp
  have sx: "sliceable ?T (g_input inp)" using wi by (rule sliceable_well_formed)
  have sh: "sliceable (?T - 1) (g_h_vector inp)"
    using sliceable_well_formed [OF wh] by (rule sliceable_less) simp
  have sv: "sliceable ?T (g_v_vector inp)" using wv by (rule sliceable_well_formed)
  have sd: "sliceable ?T (g_dh_new inp)" using wd by (rule sliceable_well_formed)
  have smask: "?hz \<Longrightarrow> sliceable ?T (g_zoneout_mask inp)"
    using wm sm by (simp add: sliceable_well_formed)
  have sdx: "sliceable ?T (bs_dx (bb_state b))"
    using f(2,17) by (rule sliceable_allocate)
  obtain sp sq where
    ip: "allocate alloc [?T, ?N, ?H * 3] = Inr (bs_dp (bb_state b))" and
    iq: "allocate alloc [?T, ?N, ?H * 3] = Inr (bs_dq (bb_state b))"
    using b rp unfolding HasteGruGradOp_buffers_def Let_def
    by (auto simp add: TensorShape_init_def split: if_splits sum.splits)
  have sdp: "sliceable ?T (bs_dp (bb_state b))"
    using ip f(17) by (rule sliceable_allocate)
  have sdq: "sliceable ?T (bs_dq (bb_state b))"
    using iq f(17) by (rule sliceable_allocate)
  obtain r st where run: "HasteGruGradOp_loop iterate
        \<lparr>bp_batch_size = ?N, bp_input_size = ?C, bp_hidden_size = ?H, bp_blas_handle = bh\<rparr>
        inp ?hz (bb_zero_vector b) (?T - 1) (bb_state b) = (r, st)"
    by (meson surj_pair)
  have "r = None"
    using HasteGruGradOp_loop_completes [OF run sx sh sv sd sdx sdp sdq smask] by simp
  with run b g show ?thesis
    unfolding HasteGruGradOp_Compute_def Let_def by simp
qed

lemma backward_run_calls:
  fixes iterate :: "'a::zero BackwardIterate"
  assumes b: "HasteGruGradOp_buffers alloc inp = Inr b"
    and run: "HasteGruGradOp_loop iterate backward inp hz (bb_zero_vector b)
                (dim_size (g_input inp) 0 - 1) (bb_state b) = (r, st)"
  defines "T \<equiv> dim_size (g_input inp) 0"
    and "N \<equiv> dim_size (g_input inp) 2"
    and "H \<equiv> dim_size (g_recurrent_kernel inp) 1"
  shows "list_all (\<lambda>c. ba_h (bc_args c) =
                          (if bc_step c = 0 then replicate (nat (N * H)) 0
                           else slice_data (g_h_vector inp) (bc_step c - 1)) \<and>
                        ba_zoneout_mask (bc_args c) =
                          (if hz then Some (slice_data (g_zoneout_mask inp) (bc_step c))
                           else None) \<and>
                        bc_writes c = iterate backward (bc_args c))
           (bs_calls st)"
    and "r = None \<Longrightarrow> map bc_step (bs_calls st) = rev [0..T - 1]"
proof -
  let ?Q = "\<lambda>c::'a BackwardCall.
      ba_h (bc_args c) =
        (if bc_step c = 0 then replicate (nat (N * H)) 0
         else slice_data (g_h_vector inp) (bc_step c - 1)) \<and>
      ba_zoneout_mask (bc_args c) =
        (if hz then Some (slice_data (g_zoneout_mask inp) (bc_step c)) else None) \<and>
      bc_writes c = iterate backward (bc_args c)"
  let ?P = "\<lambda>(j::int) s. list_all ?Q (bs_calls s) \<and> map bc_step (bs_calls s) = rev [j + 1..T - 1]"
  note f = HasteGruGradOp_buffers_Inr [OF b, folded T_def N_def H_def]
  have "\<exists>j. j \<le> T - 1 \<and> ?P j st \<and>
           (case r of
              None \<Rightarrow> j = min (T - 1) (- 1)
            | Some e \<Rightarrow> 0 \<le> j \<and>
                HasteGruGradOp_iteration iterate backward inp hz (bb_zero_vector b) j st = Inl e)"
  proof (rule HasteGruGradOp_loop_rule [OF run [folded T_def], where P = ?P])
    show "?P (T - 1) (bb_state b)" using f(1) by simp
  next
    fix j :: int and s s'
    assume j: "j \<le> T - 1" "0 \<le> j" and p: "?P j s"
      and i: "HasteGruGradOp_iteration iterate backward inp hz (bb_zero_vector b) j s = Inr s'"
    from HasteGruGradOp_iteration_call [OF i]
    obtain c where "bs_calls s' = bs_calls s @ [c] \<and> bc_step c = j \<and>
           bc_writes c = iterate backward (bc_args c) \<and>
           ba_h (bc_args c) =
             (if j \<noteq> 0 then slice_data (g_h_vector inp) (j - 1)
              else flat (bb_zero_vector b)) \<and>
           ba_zoneout_mask (bc_args c) =
             (if hz then Some (slice_data (g_zoneout_mask inp) j) else None) \<and>
           accumulators (bc_args c) =
             [flat (bs_dW s), flat (bs_dR s), flat (bs_dbx s), flat (bs_dbr s), flat (bs_dh s)] \<and>
           [flat (bs_dW s'), flat (bs_dR s'), flat (bs_dbx s'), flat (bs_dbr s'),
            flat (bs_dh s')] = accumulated c \<and>
           ba_dx (bc_args c) = slice_data (bs_dx s) j \<and>
           bs_dx s' = write_slice (bs_dx s) j (bw_dx (bc_writes c))" ..
    then have c: "bs_calls s' = bs_calls s @ [c]" "bc_step c = j" "?Q c"
      using f(14) by simp_all
    have u: "[j - 1 + 1..T - 1] = j # [j + 1..T - 1]"
      using j upto_rec1 [of j "T - 1"] by simp
    show "?P (j - 1) s'"
      using p c u by simp
  qed
  then obtain j where j: "?P j st"
    and c: "case r of
              None \<Rightarrow> j = min (T - 1) (- 1)
            | Some e \<Rightarrow> 0 \<le> j \<and>
                HasteGruGradOp_iteration iterate backward inp hz (bb_zero_vector b) j st = Inl e"
    by blast
  from j show "list_all ?Q (bs_calls st)" by simp
  show "map bc_step (bs_calls st) = rev [0..T - 1]" if "r = None"
    using that c j f(17) by (simp add: min_def)
qed

lemma forward_first_call:
  fixes iterate :: "'a::zero ForwardIterate"
  assumes b: "HasteGruOp_buffers op alloc inp = Inr b"
    and run: "HasteGruOp_loop iterate forward op inp hz (dim_size (f_input inp) 0) 0 b = (r, st)"
  defines "T \<equiv> dim_size (f_input inp) 0"
    and "N \<equiv> dim_size (f_input inp) 1"
    and "H \<equiv> dim_size (f_recurrent_kernel inp) 0"
  shows "case fs_calls st of
           [] \<Rightarrow> True
         | c # cs \<Rightarrow> fc_step c = 0 \<and> fa_h (fc_args c) = replicate (nat (N * H)) 0"
proof -
  let ?P = "\<lambda>(j::int) s.
      (case fs_calls s of
         [] \<Rightarrow> j = 0 \<and> fs_h s = 0 \<and> shape (fs_output s) = [T, N, H] \<and>
                flat (fs_output s) = replicate (nat (T * (N * H))) 0
       | c # cs \<Rightarrow> fc_step c = 0 \<and> fa_h (fc_args c) = replicate (nat (N * H)) 0)"
  note f = HasteGruOp_buffers_Inr [OF b, folded T_def N_def H_def]
  have "\<exists>j. 0 \<le> j \<and> ?P j st \<and>
           (case r of
              None \<Rightarrow> j = max 0 T
            | Some e \<Rightarrow> j < T \<and> HasteGruOp_iteration iterate forward op inp hz j st = Inl e)"
  proof (rule HasteGruOp_loop_rule [OF run [folded T_def], where P = ?P])
    show "?P 0 b" using f by simp
  next
    fix j :: int and s s'
    assume j: "0 \<le> j" "j < T" and p: "?P j s"
      and i: "HasteGruOp_iteration iterate forward op inp hz j s = Inr s'"
    from HasteGruOp_iteration_Inr(6) [OF i]
    obtain c where "fs_calls s' = fs_calls s @ [c] \<and> fc_step c = j \<and>
           fa_h (fc_args c) = slice_data (fs_output s) (fs_h s) \<and>
           (fa_v (fc_args c) = None) = (\<not> training op) \<and>
           fa_zoneout_prob (fc_args c) = (if hz then zoneout_prob op else 0) \<and>
           fa_zoneout_mask (fc_args c) =
             (if hz then Some (slice_data (f_zoneout_mask inp) j) else None)" ..
    then have c: "fs_calls s' = fs_calls s @ [c]" "fc_step c = j"
      "fa_h (fc_args c) = slice_data (fs_output s) (fs_h s)"
      by simp_all
    show "?P (j + 1) s'"
    proof (cases "fs_calls s")
      case Nil
      with p have z: "j = 0" "fs_h s = 0" "shape (fs_output s) = [T, N, H]"
        "flat (fs_output s) = replicate (nat (T * (N * H))) 0"
        by simp_all
      have "1 * (N * H) \<le> T * (N * H)"
        using j f(11,12) by (intro mult_right_mono) simp_all
      then have le: "nat (N * H) \<le> nat (T * (N * H))" by simp
      have "slice_data (fs_output s) 0 = replicate (nat (N * H)) 0"
        using le by (simp add: slice_data_def elems_per_dim0_def z min_def)
      with Nil c z show ?thesis by simp
    next
      case (Cons d ds)
      with p c show ?thesis by simp
    qed
  qed
  then show ?thesis
    by (auto split: list.splits)
qed

text \<open>
  Claim C6. The recurrence starts from the zero vector in both passes. Whenever the
  forward op calls \<open>Iterate\<close> at all, its first call is the one of step 0 and receives an
  all-zero previous hidden state of \<open>N * H\<close> entries. Every \<open>Iterate\<close> call of the
  backward op at step 0 receives an all-zero \<open>h\<close> of \<open>N * H\<close> entries and every call at
  a step \<open>t > 0\<close> receives slice \<open>t - 1\<close> of the recorded hidden states; a backward run
  that completes has made the calls of the steps \<open>T - 1\<close> down to \<open>0\<close>, in this order,
  and every legal backward call completes.
\<close>

theorem initial_hidden_state_zero:
  fixes iterate :: "'a::zero ForwardIterate" and giterate :: "'a BackwardIterate"
  shows "(case f_calls (HasteGruOp_Compute iterate op alloc inp proc) of
            [] \<Rightarrow> True
          | c # cs \<Rightarrow>
              fc_step c = 0 \<and>
              fa_h (fc_args c) =
                replicate (nat (dim_size (f_input inp) 1 * dim_size (f_recurrent_kernel inp) 0)) 0) \<and>
         list_all (\<lambda>c. ba_h (bc_args c) =
                     (if bc_step c = 0
                      then replicate
                        (nat (dim_size (g_input ginp) 2 * dim_size (g_recurrent_kernel ginp) 1)) 0
                      else slice_data (g_h_vector ginp) (bc_step c - 1)))
           (g_calls (HasteGruGradOp_Compute giterate galloc ginp gproc)) \<and>
         (case g_outcome (HasteGruGradOp_Compute giterate galloc ginp gproc) of
            Inl e \<Rightarrow> True
          | Inr out \<Rightarrow>
              map bc_step (g_calls (HasteGruGradOp_Compute giterate galloc ginp gproc)) =
                rev [0..dim_size (g_input ginp) 0 - 1]) \<and>
         (legal_backward galloc ginp gproc \<longrightarrow>
            (\<exists>out. g_outcome (HasteGruGradOp_Compute giterate galloc ginp gproc) = Inr out))"
proof -
  have fwd: "case f_calls (HasteGruOp_Compute iterate op alloc inp proc) of
            [] \<Rightarrow> True
          | c # cs \<Rightarrow>
              fc_step c = 0 \<and>
              fa_h (fc_args c) =
                replicate (nat (dim_size (f_input inp) 1 * dim_size (f_recurrent_kernel inp) 0)) 0"
    using HasteGruOp_Compute_cases [of iterate op alloc inp proc]
  proof (elim disjE exE conjE)
    fix e p
    assume "HasteGruOp_Compute iterate op alloc inp proc = rejected e p"
    then show ?thesis by simp
  next
    fix b bh proc' r st
    assume b: "HasteGruOp_buffers op alloc inp = Inr b"
      and run: "HasteGruOp_loop iterate
          \<lparr>fp_training = training op, fp_batch_size = dim_size (f_input inp) 1,
           fp_input_size = dim_size (f_input inp) 2,
           fp_hidden_size = dim_size (f_recurrent_kernel inp) 0, fp_blas_handle = bh\<rparr>
          op inp (zoneout_prob op \<noteq> 0 \<and> NumElements (f_zoneout_mask inp) \<noteq> 0)
          (dim_size (f_input inp) 0) 0 b = (r, st)"
      and c: "HasteGruOp_Compute iterate op alloc inp proc =
          \<lparr>f_outcome = (case r of None \<Rightarrow> Inr \<lparr>out_h = fs_output st, out_v = fs_v_out st\<rparr>
                         | Some e \<Rightarrow> Inl e),
           f_calls = fs_calls st, f_process = proc'\<rparr>"
    show ?thesis
      using forward_first_call [OF b run] by (simp add: c)
  qed
  have bwd: "list_all (\<lambda>c. ba_h (bc_args c) =
                     (if bc_step c = 0
                      then replicate
                        (nat (dim_size (g_input ginp) 2 * dim_size (g_recurrent_kernel ginp) 1)) 0
                      else slice_data (g_h_vector ginp) (bc_step c - 1)))
           (g_calls (HasteGruGradOp_Compute giterate galloc ginp gproc)) \<and>
         (case g_outcome (HasteGruGradOp_Compute giterate galloc ginp gproc) of
            Inl e \<Rightarrow> True
          | Inr out \<Rightarrow>
              map bc_step (g_calls (HasteGruGradOp_Compute giterate galloc ginp gproc)) =
                rev [0..dim_size (g_input ginp) 0 - 1])"
    using HasteGruGradOp_Compute_cases [of giterate galloc ginp gproc]
  proof (elim disjE exE conjE)
    fix e p
    assume "HasteGruGradOp_Compute giterate galloc ginp gproc = grad_rejected e p"
    then show ?thesis by simp
  next
    fix b bh proc' r st
    assume b: "HasteGruGradOp_buffers galloc ginp = Inr b"
      and run: "HasteGruGradOp_loop giterate
          \<lparr>bp_batch_size = dim_size (g_input ginp) 2, bp_input_size = dim_size (g_input ginp) 1,
           bp_hidden_size = dim_size (g_recurrent_kernel ginp) 1, bp_blas_handle = bh\<rparr>
          ginp (NumElements (g_zoneout_mask ginp) \<noteq> 0) (bb_zero_vector b)
          (dim_size (g_input ginp) 0 - 1) (bb_state b) = (r, st)"
      and c: "HasteGruGradOp_Compute giterate galloc ginp gproc =
          \<lparr>g_outcome =
             (case r of
                None \<Rightarrow> Inr \<lparr>out_dx = bs_dx st, out_dW = bs_dW st, out_dR = bs_dR st,
                              out_dbx = bs_dbx st, out_dbr = bs_dbr st\<rparr>
              | Some e \<Rightarrow> Inl e),
           g_calls = bs_calls st, g_process = proc'\<rparr>"
    note k = backward_run_calls [OF b run]
    have "list_all (\<lambda>c. ba_h (bc_args c) =
                     (if bc_step c = 0
                      then replicate
                        (nat (dim_size (g_input ginp) 2 * dim_size (g_recurrent_kernel ginp) 1)) 0
                      else slice_data (g_h_vector ginp) (bc_step c - 1))) (bs_calls st)"
      using k(1) by (rule list.pred_mono_strong) simp
    then show ?thesis
      using k(2) by (cases r) (simp_all add: c)
  qed
  have acc: "legal_backward galloc ginp gproc \<longrightarrow>
            (\<exists>out. g_outcome (HasteGruGradOp_Compute giterate galloc ginp gproc) = Inr out)"
    using legal_backward_completes [of galloc ginp gproc giterate] by blast
  from fwd bwd acc show ?thesis by (intro conjI) simp_all
qed

lemmas run_backward =
  dims_def dim_size_def NumElements_def TensorShape_init_def representable_def allocate_def
  allocatable_def cudaMemset_zero_def grad_rejected_def process_start_def GetCublasHandle_def
  CublasHandleContainer_def CublasHandleContainer_loop.simps cudaGetDevice_def
  cudaGetDeviceCount_def cudaSetDevice_def cublasCreate_def Let_def SubSlice_def
  elems_per_dim0_def slice_data_def HasteGruGradOp_loop.simps HasteGruGradOp_iteration_def
  write_slice_def write_flat_def overwrite_def HasteGruGradOp_buffers_def
  HasteGruGradOp_Compute_def roomy_def idle_backward_def tiny_backward_def

lemma legal_tiny_forward:
  "legal_forward \<lparr>training = t, zoneout_prob = p\<rparr> roomy tiny_forward (process_start 1 0)"
  by (simp add: legal_forward_def tiny_forward_def roomy_def dim_size_def well_formed_def
      representable_def allocatable_def NumElements_def handles_ready_def process_start_def)

lemma legal_tiny_backward:
  "legal_backward roomy tiny_backward (process_start 1 0)"
  by (simp add: legal_backward_def tiny_backward_def roomy_def dim_size_def well_formed_def
      representable_def allocatable_def NumElements_def handles_ready_def process_start_def)

theorem forward_output_shapes_witness:
  "legal_forward \<lparr>training = False, zoneout_prob = 1 / 2\<rparr> roomy tiny_forward
     (process_start 1 0) \<and>
   (let T = dim_size (f_input tiny_forward) 0;
        N = dim_size (f_input tiny_forward) 1;
        H = dim_size (f_recurrent_kernel tiny_forward) 0;
        run = HasteGruOp_Compute idle_forward \<lparr>training = False, zoneout_prob = 1 / 2\<rparr> roomy
                tiny_forward (process_start 1 0)
    in case f_outcome run of
         Inl e \<Rightarrow> False
       | Inr out \<Rightarrow>
           shape (out_h out) = [T, N, H] \<and>
           int (length (flat (out_h out))) = T * N * H \<and>
           shape (out_v out) =
             [T, N, if training \<lparr>training = False, zoneout_prob = 1 / 2\<rparr> then H * 4 else 0] \<and>
           int (length (flat (out_v out))) =
             (if training \<lparr>training = False, zoneout_prob = 1 / 2\<rparr>
              then T * N * (H * 4) else 0) \<and>
           list_all (\<lambda>c. (fa_v (fc_args c) = None) =
                          (\<not> training \<lparr>training = False, zoneout_prob = 1 / 2\<rparr>))
             (f_calls run) \<and>
           map fc_step (f_calls run) = [0..T - 1]) \<and>
   f_outcome (HasteGruOp_Compute idle_forward \<lparr>training = False, zoneout_prob = 1 / 2\<rparr> roomy
     tiny_forward (process_start 1 0)) =
     Inr \<lparr>out_h = \<lparr>shape = [2, 1, 1], flat = [0, 0]\<rparr>,
          out_v = \<lparr>shape = [2, 1, 0], flat = []\<rparr>\<rparr>"
proof -
  have o: "f_outcome (HasteGruOp_Compute idle_forward \<lparr>training = False, zoneout_prob = 1 / 2\<rparr>
     roomy tiny_forward (process_start 1 0)) =
     Inr \<lparr>out_h = \<lparr>shape = [2, 1, 1], flat = [0, 0]\<rparr>,
          out_v = \<lparr>shape = [2, 1, 0], flat = []\<rparr>\<rparr>"
    by (simp add: run_forward)
  show ?thesis
    using o legal_tiny_forward [of False "1 / 2"]
      forward_output_shapes [OF legal_tiny_forward [of False "1 / 2"], of idle_forward]
    by blast
qed

theorem initial_hidden_state_zero_witness:
  "((case f_calls (HasteGruOp_Compute counting_forward \<lparr>training = True, zoneout_prob = 1 / 2\<rparr>
            roomy tiny_forward (process_start 1 0)) of
       [] \<Rightarrow> True
     | c # cs \<Rightarrow>
         fc_step c = 0 \<and>
         fa_h (fc_args c) =
           replicate (nat (dim_size (f_input tiny_forward) 1 *
                           dim_size (f_recurrent_kernel tiny_forward) 0)) 0) \<and>
    list_all (\<lambda>c. ba_h (bc_args c) =
                (if bc_step c = 0
                 then replicate (nat (dim_size (g_input tiny_backward) 2 *
                                      dim_size (g_recurrent_kernel tiny_backward) 1)) 0
                 else slice_data (g_h_vector tiny_backward) (bc_step c - 1)))
      (g_calls (HasteGruGradOp_Compute counting_backward roomy tiny_backward (process_start 1 0))) \<and>
    (case g_outcome (HasteGruGradOp_Compute counting_backward roomy tiny_backward
            (process_start 1 0)) of
       Inl e \<Rightarrow> True
     | Inr out \<Rightarrow>
         map bc_step (g_calls (HasteGruGradOp_Compute counting_backward roomy tiny_backward
           (process_start 1 0))) =
           rev [0..dim_size (g_input tiny_backward) 0 - 1]) \<and>
    legal_backward roomy tiny_backward (process_start 1 0) \<and>
    (\<exists>out. g_outcome (HasteGruGradOp_Compute counting_backward roomy tiny_backward
       (process_start 1 0)) = Inr out)) \<and>
   map (\<lambda>c. (fc_step c, fa_h (fc_args c)))
     (f_calls (HasteGruOp_Compute counting_forward \<lparr>training = True, zoneout_prob = 1 / 2\<rparr>
        roomy tiny_forward (process_start 1 0))) = [(0, [0]), (1, [1])] \<and>
   map (\<lambda>c. (bc_step c, ba_h (bc_args c)))
     (g_calls (HasteGruGradOp_Compute counting_backward roomy tiny_backward (process_start 1 0))) =
     [(1, [41]), (0, [0])]"
proof -
  have f: "map (\<lambda>c. (fc_step c, fa_h (fc_args c)))
     (f_calls (HasteGruOp_Compute counting_forward \<lparr>training = True, zoneout_prob = 1 / 2\<rparr>
        roomy tiny_forward (process_start 1 0))) = [(0, [0]), (1, [1])]"
    by (simp add: run_forward counting_forward_def)
  have g: "map (\<lambda>c. (bc_step c, ba_h (bc_args c)))
     (g_calls (HasteGruGradOp_Compute counting_backward roomy tiny_backward (process_start 1 0))) =
     [(1, [41]), (0, [0])]"
    by (simp add: run_backward counting_backward_def)
  show ?thesis
    using f g legal_tiny_backward
      initial_hidden_state_zero [where iterate = counting_forward
        and op = "\<lparr>training = True, zoneout_prob = 1 / 2\<rparr>" and alloc = roomy
        and inp = tiny_forward and proc = "process_start 1 0" and giterate = counting_backward
        and galloc = roomy and ginp = tiny_backward and gproc = "process_start 1 0"]
    by blast
qed

lemma backward_calls_mask:
  fixes iterate :: "'a::zero BackwardIterate"
  shows "list_all (\<lambda>c. ba_zoneout_mask (bc_args c) =
                     (if NumElements (g_zoneout_mask inp) \<noteq> 0
                      then Some (slice_data (g_zoneout_mask inp) (bc_step c)) else None))
           (g_calls (HasteGruGradOp_Compute iterate alloc inp proc))"
  using HasteGruGradOp_Compute_cases [of iterate alloc inp proc]
proof (elim disjE exE conjE)
  fix e p
  assume "HasteGruGradOp_Compute iterate alloc inp proc = grad_rejected e p"
  then show ?thesis by simp
next
  fix b bh proc' r st
  assume b: "HasteGruGradOp_buffers alloc inp = Inr b"
    and run: "HasteGruGradOp_loop iterate
        \<lparr>bp_batch_size = dim_size (g_input inp) 2, bp_input_size = dim_size (g_input inp) 1,
         bp_hidden_size = dim_size (g_recurrent_kernel inp) 1, bp_blas_handle = bh\<rparr>
        inp (NumElements (g_zoneout_mask inp) \<noteq> 0) (bb_zero_vector b)
        (dim_size (g_input inp) 0 - 1) (bb_state b) = (r, st)"
    and c: "HasteGruGradOp_Compute iterate alloc inp proc =
        \<lparr>g_outcome =
           (case r of
              None \<Rightarrow> Inr \<lparr>out_dx = bs_dx st, out_dW = bs_dW st, out_dR = bs_dR st,
                            out_dbx = bs_dbx st, out_dbr = bs_dbr st\<rparr>
            | Some e \<Rightarrow> Inl e),
         g_calls = bs_calls st, g_process = proc'\<rparr>"
  have "list_all (\<lambda>c. ba_zoneout_mask (bc_args c) =
                     (if NumElements (g_zoneout_mask inp) \<noteq> 0
                      then Some (slice_data (g_zoneout_mask inp) (bc_step c)) else None))
          (bs_calls st)"
    using backward_run_calls(1) [OF b run] by (rule list.pred_mono_strong) simp
  then show ?thesis by (simp add: c)
qed

lemma forward_calls_mask:
  fixes iterate :: "'a::zero ForwardIterate"
  shows "list_all (\<lambda>c. fa_zoneout_mask (fc_args c) =
                     (if zoneout_prob op \<noteq> 0 \<and> NumElements (f_zoneout_mask inp) \<noteq> 0
                      then Some (slice_data (f_zoneout_mask inp) (fc_step c)) else None))
           (f_calls (HasteGruOp_Compute iterate op alloc inp proc))"
  using HasteGruOp_Compute_cases [of iterate op alloc inp proc]
proof (elim disjE exE conjE)
  fix e p
  assume "HasteGruOp_Compute iterate op alloc inp proc = rejected e p"
  then show ?thesis by simp
next
  let ?hz = "zoneout_prob op \<noteq> 0 \<and> NumElements (f_zoneout_mask inp) \<noteq> 0"
  let ?Q = "\<lambda>c::'a ForwardCall. fa_zoneout_mask (fc_args c) =
              (if ?hz then Some (slice_data (f_zoneout_mask inp) (fc_step c)) else None)"
  fix b bh proc' r st
  assume b: "HasteGruOp_buffers op alloc inp = Inr b"
    and run: "HasteGruOp_loop iterate
          \<lparr>fp_training = training op, fp_batch_size = dim_size (f_input inp) 1,
           fp_input_size = dim_size (f_input inp) 2,
           fp_hidden_size = dim_size (f_recurrent_kernel inp) 0, fp_blas_handle = bh\<rparr>
          op inp ?hz (dim_size (f_input inp) 0) 0 b = (r, st)"
    and c: "HasteGruOp_Compute iterate op alloc inp proc =
          \<lparr>f_outcome = (case r of None \<Rightarrow> Inr \<lparr>out_h = fs_output st, out_v = fs_v_out st\<rparr>
                         | Some e \<Rightarrow> Inl e),
           f_calls = fs_calls st, f_process = proc'\<rparr>"
  have "\<exists>j. 0 \<le> j \<and> list_all ?Q (fs_calls st) \<and>
           (case r of
              None \<Rightarrow> j = max 0 (dim_size (f_input inp) 0)
            | Some e \<Rightarrow> j < dim_size (f_input inp) 0 \<and>
                HasteGruOp_iteration iterate
                 \<lparr>fp_training = training op, fp_batch_size = dim_size (f_input inp) 1,
                  fp_input_size = dim_size (f_input inp) 2,
                  fp_hidden_size = dim_size (f_recurrent_kernel inp) 0, fp_blas_handle = bh\<rparr>
                 op inp ?hz j st = Inl e)"
  proof (rule HasteGruOp_loop_rule [OF run, where P = "\<lambda>j s. list_all ?Q (fs_calls s)"])
    show "list_all ?Q (fs_calls b)"
      using HasteGruOp_buffers_Inr(1) [OF b] by simp
  next
    fix j s s'
    assume "list_all ?Q (fs_calls s)"
      and "HasteGruOp_iteration iterate
            \<lparr>fp_training = training op, fp_batch_size = dim_size (f_input inp) 1,
             fp_input_size = dim_size (f_input inp) 2,
             fp_hidden_size = dim_size (f_recurrent_kernel inp) 0, fp_blas_handle = bh\<rparr>
            op inp ?hz j s = Inr s'"
    then show "list_all ?Q (fs_calls s')"
      using HasteGruOp_iteration_Inr(6) by fastforce
  qed
  then have "list_all ?Q (fs_calls st)" by blast
  then show ?thesis unfolding c by simp
qed

lemma zoneout_gates_agree:
  fixes iterate :: "'a::zero ForwardIterate" and giterate :: "'a BackwardIterate"
  assumes "zoneout_prob op \<noteq> 0 \<or> NumElements m = 0"
    and "f_zoneout_mask inp = m" and "g_zoneout_mask ginp = m"
  shows "list_all (\<lambda>c. fa_zoneout_mask (fc_args c) =
                     (if NumElements m \<noteq> 0 then Some (slice_data m (fc_step c)) else None))
           (f_calls (HasteGruOp_Compute iterate op alloc inp proc)) \<and>
         list_all (\<lambda>c. ba_zoneout_mask (bc_args c) =
                     (if NumElements m \<noteq> 0 then Some (slice_data m (bc_step c)) else None))
           (g_calls (HasteGruGradOp_Compute giterate galloc ginp gproc))"
proof -
  have e: "(zoneout_prob op \<noteq> 0 \<and> NumElements (f_zoneout_mask inp) \<noteq> 0) =
           (NumElements (f_zoneout_mask inp) \<noteq> 0)"
    using assms(1,2) by auto
  note forward_calls_mask [of op inp iterate alloc proc, unfolded e, unfolded assms(2)]
  moreover note backward_calls_mask [of ginp giterate galloc gproc, unfolded assms(3)]
  ultimately show ?thesis by (intro conjI)
qed

text \<open>
  Claim C1, where the code departs from it. With zoneout probability 0 and a mask that
  has elements, the forward op passes a null mask to every \<open>Iterate\<close> call (it applies
  no blend), while the backward op, given the same mask tensor, passes the mask slice of
  the step to every \<open>Iterate\<close> call (it routes gradient through the frozen path). The
  lemma \<open>zoneout_gates_agree\<close> shows that the two ops agree in every other case.
\<close>

theorem zoneout_gates_disagree:
  fixes iterate :: "'a::zero ForwardIterate" and giterate :: "'a BackwardIterate"
  assumes "zoneout_prob op = 0" and "NumElements m \<noteq> 0"
    and "f_zoneout_mask inp = m" and "g_zoneout_mask ginp = m"
  shows "list_all (\<lambda>c. fa_zoneout_mask (fc_args c) = None)
           (f_calls (HasteGruOp_Compute iterate op alloc inp proc)) \<and>
         list_all (\<lambda>c. ba_zoneout_mask (bc_args c) = Some (slice_data m (bc_step c)))
           (g_calls (HasteGruGradOp_Compute giterate galloc ginp gproc))"
proof -
  have e: "(zoneout_prob op \<noteq> 0 \<and> NumElements (f_zoneout_mask inp) \<noteq> 0) = False"
    using assms(1) by simp
  have e': "(NumElements (g_zoneout_mask ginp) \<noteq> 0) = True"
    using assms(2,4) by simp
  note forward_calls_mask [of op inp iterate alloc proc, unfolded e if_False]
  moreover note backward_calls_mask [of ginp giterate galloc gproc, unfolded e' if_True,
      unfolded assms(4)]
  ultimately show ?thesis by (intro conjI)
qed

theorem zoneout_gates_disagree_witness:
  "zoneout_prob \<lparr>training = True, zoneout_prob = 0\<rparr> = 0 \<and>
   NumElements (f_zoneout_mask tiny_forward) \<noteq> 0 \<and>
   g_zoneout_mask tiny_backward = f_zoneout_mask tiny_forward \<and>
   list_all (\<lambda>c. fa_zoneout_mask (fc_args c) = None)
     (f_calls (HasteGruOp_Compute idle_forward \<lparr>training = True, zoneout_prob = 0\<rparr> roomy
        tiny_forward (process_start 1 0))) \<and>
   list_all (\<lambda>c. ba_zoneout_mask (bc_args c) =
               Some (slice_data (f_zoneout_mask tiny_forward) (bc_step c)))
     (g_calls (HasteGruGradOp_Compute idle_backward roomy tiny_backward (process_start 1 0))) \<and>
   map (\<lambda>c. (fc_step c, fa_zoneout_mask (fc_args c)))
     (f_calls (HasteGruOp_Compute idle_forward \<lparr>training = True, zoneout_prob = 0\<rparr> roomy
        tiny_forward (process_start 1 0))) = [(0, None), (1, None)] \<and>
   map (\<lambda>c. (bc_step c, ba_zoneout_mask (bc_args c)))
     (g_calls (HasteGruGradOp_Compute idle_backward roomy tiny_backward (process_start 1 0))) =
     [(1, Some [0]), (0, Some [1])]"
proof -
  have h1: "zoneout_prob \<lparr>training = True, zoneout_prob = 0\<rparr> = 0" by simp
  have h2: "NumElements (f_zoneout_mask tiny_forward) \<noteq> 0"
    by (simp add: NumElements_def tiny_forward_def)
  have h3: "g_zoneout_mask tiny_backward = f_zoneout_mask tiny_forward"
    by (simp add: tiny_forward_def tiny_backward_def)
  have f: "map (\<lambda>c. (fc_step c, fa_zoneout_mask (fc_args c)))
     (f_calls (HasteGruOp_Compute idle_forward \<lparr>training = True, zoneout_prob = 0\<rparr> roomy
        tiny_forward (process_start 1 0))) = [(0, None), (1, None)]"
    by (simp add: run_forward)
  have g: "map (\<lambda>c. (bc_step c, ba_zoneout_mask (bc_args c)))
     (g_calls (HasteGruGradOp_Compute idle_backward roomy tiny_backward (process_start 1 0))) =
     [(1, Some [0]), (0, Some [1])]"
    by (simp add: run_backward)
  show ?thesis
    using h1 h2 h3 f g
      zoneout_gates_disagree [OF h1 h2 refl h3, where iterate = idle_forward and alloc = roomy
        and proc = "process_start 1 0" and giterate = idle_backward and galloc = roomy
        and gproc = "process_start 1 0"]
    by blast
qed

text \<open>
  Claim C3, as amended. A forward call whose input feature size differs from the first
  dimension of the kernel is rejected with \<open>InvalidArgument\<close> before any buffer is
  allocated, before the cuBLAS handle is looked up and before any \<open>Iterate\<close> call: the
  run has no call and leaves the process as it was.
\<close>

theorem input_size_mismatch_rejected:
  fixes iterate :: "'a::zero ForwardIterate"
  assumes "3 \<le> dims (f_input inp)" and "1 \<le> dims (f_kernel inp)"
    and "1 \<le> dims (f_recurrent_kernel inp)"
    and "dim_size (f_input inp) 2 \<noteq> dim_size (f_kernel inp) 0"
  shows "HasteGruOp_Compute iterate op alloc inp proc =
         \<lparr>f_outcome = Inl (InvalidArgument (dim_size (f_input inp) 2)
                              (dim_size (f_kernel inp) 0)),
          f_calls = [], f_process = proc\<rparr>"
proof -
  have "HasteGruOp_buffers op alloc inp =
        Inl (InvalidArgument (dim_size (f_input inp) 2) (dim_size (f_kernel inp) 0))"
    using assms by (simp add: HasteGruOp_buffers_def Let_def)
  then show ?thesis
    by (simp add: HasteGruOp_Compute_def Let_def rejected_def)
qed

theorem input_size_mismatch_rejected_witness:
  "3 \<le> dims (f_input mismatched_forward) \<and> 1 \<le> dims (f_kernel mismatched_forward) \<and>
   1 \<le> dims (f_recurrent_kernel mismatched_forward) \<and>
   dim_size (f_input mismatched_forward) 2 \<noteq> dim_size (f_kernel mismatched_forward) 0 \<and>
   HasteGruOp_Compute idle_forward \<lparr>training = True, zoneout_prob = 0\<rparr> roomy
     mismatched_forward (process_start 1 0) =
     \<lparr>f_outcome = Inl (InvalidArgument 1 2), f_calls = [], f_process = process_start 1 0\<rparr>"
proof -
  have h: "3 \<le> dims (f_input mismatched_forward)" "1 \<le> dims (f_kernel mismatched_forward)"
    "1 \<le> dims (f_recurrent_kernel mismatched_forward)"
    "dim_size (f_input mismatched_forward) 2 \<noteq> dim_size (f_kernel mismatched_forward) 0"
    by (simp_all add: mismatched_forward_def tiny_forward_def dims_def dim_size_def)
  have d: "dim_size (f_input mismatched_forward) 2 = 1"
    "dim_size (f_kernel mismatched_forward) 0 = 2"
    by (simp_all add: mismatched_forward_def tiny_forward_def dim_size_def)
  show ?thesis
    using h input_size_mismatch_rejected [OF h, of idle_forward
        "\<lparr>training = True, zoneout_prob = 0\<rparr>" roomy "process_start 1 0"]
    unfolding d by blast
qed

theorem unchecked_mismatch_counterexample:
  "dim_size (f_kernel unchecked_forward) 1 \<noteq> 3 * dim_size (f_recurrent_kernel unchecked_forward) 0 \<and>
   f_outcome (HasteGruOp_Compute idle_forward \<lparr>training = False, zoneout_prob = 0\<rparr> roomy
      unchecked_forward (process_start 1 0)) =
     Inr \<lparr>out_h = \<lparr>shape = [2, 1, 1], flat = [0, 0]\<rparr>,
          out_v = \<lparr>shape = [2, 1, 0], flat = []\<rparr>\<rparr> \<and>
   map fc_step (f_calls (HasteGruOp_Compute idle_forward \<lparr>training = False, zoneout_prob = 0\<rparr>
      roomy unchecked_forward (process_start 1 0))) = [0, 1] \<and>
   dim_size (g_kernel mismatched_backward) 1 \<noteq> dim_size (g_input mismatched_backward) 1 \<and>
   (case g_outcome (HasteGruGradOp_Compute idle_backward roomy mismatched_backward
           (process_start 1 0)) of
      Inl e \<Rightarrow> False | Inr out \<Rightarrow> True) \<and>
   map bc_step (g_calls (HasteGruGradOp_Compute idle_backward roomy mismatched_backward
      (process_start 1 0))) = [1, 0]"
  by (simp add: run_forward run_backward unchecked_forward_def mismatched_backward_def)

section \<open>Gradient accumulators\<close>

lemma carried_snoc:
  "carried (cs @ [c]) =
     (carried cs \<and> (case cs of [] \<Rightarrow> True
                     | d # ds \<Rightarrow> accumulators (bc_args c) = accumulated (last cs)))"
  by (induction cs rule: carried.induct) simp_all

lemma backward_run_accumulators:
  fixes iterate :: "'a::zero BackwardIterate"
  assumes b: "HasteGruGradOp_buffers alloc inp = Inr b"
    and run: "HasteGruGradOp_loop iterate backward inp hz (bb_zero_vector b)
                (dim_size (g_input inp) 0 - 1) (bb_state b) = (r, st)"
  defines "C \<equiv> dim_size (g_input inp) 1"
    and "N \<equiv> dim_size (g_input inp) 2"
    and "H \<equiv> dim_size (g_recurrent_kernel inp) 1"
  defines "Z \<equiv> [replicate (nat (C * (H * 3))) 0, replicate (nat (H * (H * 3))) 0,
                replicate (nat (H * 3)) 0, replicate (nat (H * 3)) 0,
                replicate (nat (N * H)) (0::'a)]"
  shows "carried (bs_calls st)"
    and "[flat (bs_dW st), flat (bs_dR st), flat (bs_dbx st), flat (bs_dbr st),
          flat (bs_dh st)] = (if bs_calls st = [] then Z else accumulated (last (bs_calls st)))"
    and "case bs_calls st of [] \<Rightarrow> True | c # cs \<Rightarrow> accumulators (bc_args c) = Z"
    and "shape (bs_dW st) = [C, H * 3]" and "shape (bs_dR st) = [H, H * 3]"
    and "shape (bs_dbx st) = [H * 3]" and "shape (bs_dbr st) = [H * 3]"
proof -
  let ?F = "\<lambda>s::'a BackwardState.
      [flat (bs_dW s), flat (bs_dR s), flat (bs_dbx s), flat (bs_dbr s), flat (bs_dh s)]"
  let ?P = "\<lambda>(j::int) s.
      carried (bs_calls s) \<and>
      ?F s = (if bs_calls s = [] then Z else accumulated (last (bs_calls s))) \<and>
      (case bs_calls s of [] \<Rightarrow> True | c # cs \<Rightarrow> accumulators (bc_args c) = Z) \<and>
      shape (bs_dW s) = [C, H * 3] \<and> shape (bs_dR s) = [H, H * 3] \<and>
      shape (bs_dbx s) = [H * 3] \<and> shape (bs_dbr s) = [H * 3]"
  note f = HasteGruGradOp_buffers_Inr [OF b, folded C_def N_def H_def]
  have "\<exists>j. j \<le> dim_size (g_input inp) 0 - 1 \<and> ?P j st \<and>
           (case r of
              None \<Rightarrow> j = min (dim_size (g_input inp) 0 - 1) (- 1)
            | Some e \<Rightarrow> 0 \<le> j \<and>
                HasteGruGradOp_iteration iterate backward inp hz (bb_zero_vector b) j st = Inl e)"
  proof (rule HasteGruGradOp_loop_rule [OF run, where P = ?P])
    show "?P (dim_size (g_input inp) 0 - 1) (bb_state b)"
      using f by (simp add: Z_def)
  next
    fix j :: int and s s'
    assume p: "?P j s"
      and i: "HasteGruGradOp_iteration iterate backward inp hz (bb_zero_vector b) j s = Inr s'"
    from HasteGruGradOp_iteration_call [OF i]
    obtain c where "bs_calls s' = bs_calls s @ [c] \<and> bc_step c = j \<and>
           bc_writes c = iterate backward (bc_args c) \<and>
           ba_h (bc_args c) =
             (if j \<noteq> 0 then slice_data (g_h_vector inp) (j - 1)
              else flat (bb_zero_vector b)) \<and>
           ba_zoneout_mask (bc_args c) =
             (if hz then Some (slice_data (g_zoneout_mask inp) j) else None) \<and>
           accumulators (bc_args c) = ?F s \<and>
           ?F s' = accumulated c \<and>
           ba_dx (bc_args c) = slice_data (bs_dx s) j \<and>
           bs_dx s' = write_slice (bs_dx s) j (bw_dx (bc_writes c))" ..
    then have c: "bs_calls s' = bs_calls s @ [c]" "accumulators (bc_args c) = ?F s"
      "?F s' = accumulated c"
      by simp_all
    have 1: "carried (bs_calls s')"
      using p c(1,2) by (simp add: carried_snoc split: list.splits)
    have 2: "?F s' = (if bs_calls s' = [] then Z else accumulated (last (bs_calls s')))"
      using c(1,3) by simp
    have 3: "case bs_calls s' of [] \<Rightarrow> True | d # ds \<Rightarrow> accumulators (bc_args d) = Z"
      using p c(1,2) by (cases "bs_calls s") simp_all
    show "?P (j - 1) s'"
      using 1 2 3 p HasteGruGradOp_iteration_shapes(1-4) [OF i] by simp
  qed
  then obtain j where j: "?P j st" by blast
  from j show "carried (bs_calls st)" by simp
  from j show "?F st = (if bs_calls st = [] then Z else accumulated (last (bs_calls st)))"
    by simp
  from j show "case bs_calls st of [] \<Rightarrow> True | c # cs \<Rightarrow> accumulators (bc_args c) = Z"
    by simp
  from j show "shape (bs_dW st) = [C, H * 3]" and "shape (bs_dR st) = [H, H * 3]"
    and "shape (bs_dbx st) = [H * 3]" and "shape (bs_dbr st) = [H * 3]"
    by simp_all
qed

lemma backward_run_dx:
  fixes iterate :: "'a::zero BackwardIterate"
  assumes b: "HasteGruGradOp_buffers alloc inp = Inr b"
    and run: "HasteGruGradOp_loop iterate backward inp hz (bb_zero_vector b)
                (dim_size (g_input inp) 0 - 1) (bb_state b) = (r, st)"
  defines "dx0 \<equiv> bs_dx (bb_state b)"
  shows "list_all (\<lambda>c. ba_dx (bc_args c) = slice_data dx0 (bc_step c) \<and>
                        slice_data (bs_dx st) (bc_step c) =
                          overwrite (ba_dx (bc_args c)) (bw_dx (bc_writes c)))
           (bs_calls st)"
    and "shape (bs_dx st) = shape dx0"
    and "length (flat (bs_dx st)) = length (flat dx0)"
proof -
  let ?Q = "\<lambda>(s::'a BackwardState) c.
      ba_dx (bc_args c) = slice_data dx0 (bc_step c) \<and>
      slice_data (bs_dx s) (bc_step c) = overwrite (ba_dx (bc_args c)) (bw_dx (bc_writes c))"
  let ?P = "\<lambda>(j::int) s.
      shape (bs_dx s) = shape dx0 \<and> length (flat (bs_dx s)) = length (flat dx0) \<and>
      (\<forall>k. 0 \<le> k \<and> k \<le> j \<longrightarrow> slice_data (bs_dx s) k = slice_data dx0 k) \<and>
      (\<forall>c \<in> set (bs_calls s). j < bc_step c \<and> ?Q s c)"
  note f = HasteGruGradOp_buffers_Inr [OF b]
  have "\<exists>j. j \<le> dim_size (g_input inp) 0 - 1 \<and> ?P j st \<and>
           (case r of
              None \<Rightarrow> j = min (dim_size (g_input inp) 0 - 1) (- 1)
            | Some e \<Rightarrow> 0 \<le> j \<and>
                HasteGruGradOp_iteration iterate backward inp hz (bb_zero_vector b) j st = Inl e)"
  proof (rule HasteGruGradOp_loop_rule [OF run, where P = ?P])
    show "?P (dim_size (g_input inp) 0 - 1) (bb_state b)"
      using f(1) by (simp add: dx0_def)
  next
    fix j :: int and s s'
    assume j: "0 \<le> j" and p: "?P j s"
      and i: "HasteGruGradOp_iteration iterate backward inp hz (bb_zero_vector b) j s = Inr s'"
    from HasteGruGradOp_iteration_call [OF i]
    obtain c where "bs_calls s' = bs_calls s @ [c] \<and> bc_step c = j \<and>
           bc_writes c = iterate backward (bc_args c) \<and>
           ba_h (bc_args c) =
             (if j \<noteq> 0 then slice_data (g_h_vector inp) (j - 1)
              else flat (bb_zero_vector b)) \<and>
           ba_zoneout_mask (bc_args c) =
             (if hz then Some (slice_data (g_zoneout_mask inp) j) else None) \<and>
           accumulators (bc_args c) =
             [flat (bs_dW s), flat (bs_dR s), flat (bs_dbx s), flat (bs_dbr s), flat (bs_dh s)] \<and>
           [flat (bs_dW s'), flat (bs_dR s'), flat (bs_dbx s'), flat (bs_dbr s'),
            flat (bs_dh s')] = accumulated c \<and>
           ba_dx (bc_args c) = slice_data (bs_dx s) j \<and>
           bs_dx s' = write_slice (bs_dx s) j (bw_dx (bc_writes c))" ..
    then have c: "bs_calls s' = bs_calls s @ [c]" "bc_step c = j"
      "ba_dx (bc_args c) = slice_data (bs_dx s) j"
      "bs_dx s' = write_slice (bs_dx s) j (bw_dx (bc_writes c))"
      by simp_all
    note rng = HasteGruGradOp_iteration_dx(2) [OF i]
    have other: "slice_data (bs_dx s') k = slice_data (bs_dx s) k" if "0 \<le> k" "k \<noteq> j" for k
      unfolding c(4) using j that rng by (intro slice_data_write_slice_other) simp_all
    have same: "slice_data (bs_dx s') j = overwrite (slice_data (bs_dx s) j) (bw_dx (bc_writes c))"
      unfolding c(4) using j rng by (intro slice_data_write_slice_same) simp_all
    have untouched: "slice_data (bs_dx s) j = slice_data dx0 j"
      using p j by simp
    have 1: "\<forall>k. 0 \<le> k \<and> k \<le> j - 1 \<longrightarrow> slice_data (bs_dx s') k = slice_data dx0 k"
      using p other by simp
    have old: "j - 1 < bc_step d \<and> ?Q s' d" if "d \<in> set (bs_calls s)" for d
    proof -
      from p that have d: "j < bc_step d" "?Q s d" by simp_all
      have "slice_data (bs_dx s') (bc_step d) = slice_data (bs_dx s) (bc_step d)"
        using d(1) j by (intro other) simp_all
      with d show ?thesis by simp
    qed
    have new: "j - 1 < bc_step c \<and> ?Q s' c"
      using c(2,3) same untouched by simp
    have 2: "\<forall>d \<in> set (bs_calls s'). j - 1 < bc_step d \<and> ?Q s' d"
      unfolding c(1) using old new by auto
    show "?P (j - 1) s'"
      using 1 2 p HasteGruGradOp_iteration_shapes(5,6) [OF i] by simp
  qed
  then obtain j where j: "?P j st" by blast
  from j show "list_all (?Q st) (bs_calls st)"
    by (simp add: list_all_iff)
  from j show "shape (bs_dx st) = shape dx0" and "length (flat (bs_dx st)) = length (flat dx0)"
    by simp_all
qed

text \<open>
  Claim C5. In every backward call the first \<open>Iterate\<close> call receives all-zero \<open>dW\<close>,
  \<open>dR\<close>, \<open>dbx\<close>, \<open>dbr\<close> and \<open>dh\<close>; each later call receives these five buffers exactly
  as the call before left them (the op never writes or resets them between calls), and
  the returned \<open>dW\<close>, \<open>dR\<close>, \<open>dbx\<close>, \<open>dbr\<close> are what the last call left (all zero when
  there was no call). The \<open>dx\<close> slice handed to the call of step \<open>t\<close> is slice \<open>t\<close> of the
  freshly allocated, never initialised buffer, untouched by the other calls, and slice
  \<open>t\<close> of the returned \<open>dx\<close> is what that one call wrote.
\<close>

theorem gradient_accumulators_carried:
  fixes iterate :: "'a::zero BackwardIterate"
  shows "let T = dim_size (g_input inp) 0;
             C = dim_size (g_input inp) 1;
             N = dim_size (g_input inp) 2;
             H = dim_size (g_recurrent_kernel inp) 1;
             run = HasteGruGradOp_Compute iterate alloc inp proc;
             zeros = [replicate (nat (C * (H * 3))) 0, replicate (nat (H * (H * 3))) 0,
                      replicate (nat (H * 3)) 0, replicate (nat (H * 3)) 0,
                      replicate (nat (N * H)) 0];
             fresh_dx = \<lparr>shape = [T, N, C],
                         flat = map (uninitialized alloc) [0..<nat (prod_list [T, N, C])]\<rparr>
         in (case g_calls run of
               [] \<Rightarrow> True
             | c # cs \<Rightarrow> accumulators (bc_args c) = zeros) \<and>
            carried (g_calls run) \<and>
            list_all (\<lambda>c. ba_dx (bc_args c) = slice_data fresh_dx (bc_step c)) (g_calls run) \<and>
            (case g_outcome run of
               Inl e \<Rightarrow> True
             | Inr out \<Rightarrow>
                 [flat (out_dW out), flat (out_dR out), flat (out_dbx out), flat (out_dbr out)] =
                   take 4 (if g_calls run = [] then zeros
                           else accumulated (last (g_calls run))) \<and>
                 list_all (\<lambda>c. slice_data (out_dx out) (bc_step c) =
                                overwrite (ba_dx (bc_args c)) (bw_dx (bc_writes c)))
                   (g_calls run))"
  using HasteGruGradOp_Compute_cases [of iterate alloc inp proc]
proof (elim disjE exE conjE)
  fix e p
  assume "HasteGruGradOp_Compute iterate alloc inp proc = grad_rejected e p"
  then show ?thesis by (simp add: Let_def)
next
  fix b bh proc' r st
  assume b: "HasteGruGradOp_buffers alloc inp = Inr b"
    and run: "HasteGruGradOp_loop iterate
        \<lparr>bp_batch_size = dim_size (g_input inp) 2, bp_input_size = dim_size (g_input inp) 1,
         bp_hidden_size = dim_size (g_recurrent_kernel inp) 1, bp_blas_handle = bh\<rparr>
        inp (NumElements (g_zoneout_mask inp) \<noteq> 0) (bb_zero_vector b)
        (dim_size (g_input inp) 0 - 1) (bb_state b) = (r, st)"
    and c: "HasteGruGradOp_Compute iterate alloc inp proc =
        \<lparr>g_outcome =
           (case r of
              None \<Rightarrow> Inr \<lparr>out_dx = bs_dx st, out_dW = bs_dW st, out_dR = bs_dR st,
                            out_dbx = bs_dbx st, out_dbr = bs_dbr st\<rparr>
            | Some e \<Rightarrow> Inl e),
         g_calls = bs_calls st, g_process = proc'\<rparr>"
  note f = HasteGruGradOp_buffers_Inr [OF b]
  note a = backward_run_accumulators [OF b run]
  note d = backward_run_dx [OF b run]
  have fresh: "bs_dx (bb_state b) =
      \<lparr>shape = [dim_size (g_input inp) 0, dim_size (g_input inp) 2, dim_size (g_input inp) 1],
       flat = map (uninitialized alloc)
         [0..<nat (prod_list [dim_size (g_input inp) 0, dim_size (g_input inp) 2,
                              dim_size (g_input inp) 1])]\<rparr>"
    using f(2) by (simp add: allocate_def split: if_splits)
  have 1: "list_all (\<lambda>c. ba_dx (bc_args c) = slice_data (bs_dx (bb_state b)) (bc_step c))
             (bs_calls st)"
    using d(1) by (rule list.pred_mono_strong) simp
  have 2: "list_all (\<lambda>c. slice_data (bs_dx st) (bc_step c) =
                          overwrite (ba_dx (bc_args c)) (bw_dx (bc_writes c))) (bs_calls st)"
    using d(1) by (rule list.pred_mono_strong) simp
  have 3: "[flat (bs_dW st), flat (bs_dR st), flat (bs_dbx st), flat (bs_dbr st)] =
           take 4 [flat (bs_dW st), flat (bs_dR st), flat (bs_dbx st), flat (bs_dbr st),
                   flat (bs_dh st)]"
    by simp
  show ?thesis
    unfolding Let_def c fresh [symmetric]
    using a(1,3) 1 2 3 [unfolded a(2)]
    by (cases r) (simp_all del: take_Cons_numeral)
qed

theorem gradient_accumulators_carried_witness:
  "(let T = dim_size (g_input tiny_backward) 0;
        C = dim_size (g_input tiny_backward) 1;
        N = dim_size (g_input tiny_backward) 2;
        H = dim_size (g_recurrent_kernel tiny_backward) 1;
        run = HasteGruGradOp_Compute counting_backward roomy tiny_backward (process_start 1 0);
        zeros = [replicate (nat (C * (H * 3))) 0, replicate (nat (H * (H * 3))) 0,
                 replicate (nat (H * 3)) 0, replicate (nat (H * 3)) 0,
                 replicate (nat (N * H)) 0];
        fresh_dx = \<lparr>shape = [T, N, C],
                    flat = map (uninitialized roomy) [0..<nat (prod_list [T, N, C])]\<rparr>
    in (case g_calls run of
          [] \<Rightarrow> True
        | c # cs \<Rightarrow> accumulators (bc_args c) = zeros) \<and>
       carried (g_calls run) \<and>
       list_all (\<lambda>c. ba_dx (bc_args c) = slice_data fresh_dx (bc_step c)) (g_calls run) \<and>
       (case g_outcome run of
          Inl e \<Rightarrow> True
        | Inr out \<Rightarrow>
            [flat (out_dW out), flat (out_dR out), flat (out_dbx out), flat (out_dbr out)] =
              take 4 (if g_calls run = [] then zeros
                      else accumulated (last (g_calls run))) \<and>
            list_all (\<lambda>c. slice_data (out_dx out) (bc_step c) =
                           overwrite (ba_dx (bc_args c)) (bw_dx (bc_writes c)))
              (g_calls run))) \<and>
   map (\<lambda>c. (bc_step c, ba_dW (bc_args c), ba_dh (bc_args c), ba_dx (bc_args c)))
     (g_calls (HasteGruGradOp_Compute counting_backward roomy tiny_backward (process_start 1 0))) =
     [(1, [0, 0, 0], [0], [101]), (0, [1, 1, 1], [1], [100])] \<and>
   (case g_outcome (HasteGruGradOp_Compute counting_backward roomy tiny_backward
           (process_start 1 0)) of
      Inl e \<Rightarrow> False
    | Inr out \<Rightarrow> flat (out_dW out) = [2, 2, 2] \<and> flat (out_dx out) = [9, 9])"
proof -
  have g: "map (\<lambda>c. (bc_step c, ba_dW (bc_args c), ba_dh (bc_args c), ba_dx (bc_args c)))
     (g_calls (HasteGruGradOp_Compute counting_backward roomy tiny_backward (process_start 1 0))) =
     [(1, [0, 0, 0], [0], [101]), (0, [1, 1, 1], [1], [100])]"
    by (simp add: run_backward counting_backward_def upt_rec)
  have o: "case g_outcome (HasteGruGradOp_Compute counting_backward roomy tiny_backward
           (process_start 1 0)) of
      Inl e \<Rightarrow> False
    | Inr out \<Rightarrow> flat (out_dW out) = [2, 2, 2] \<and> flat (out_dx out) = [9, 9]"
    by (simp add: run_backward counting_backward_def upt_rec)
  show ?thesis
    using g o
      gradient_accumulators_carried [where iterate = counting_backward and alloc = roomy
        and inp = tiny_backward and proc = "process_start 1 0"]
    by blast
qed

section \<open>Sequences of length zero\<close>

lemma tensor_eqI: "shape t = s \<Longrightarrow> flat t = xs \<Longrightarrow> t = \<lparr>shape = s, flat = xs\<rparr>"
  by (cases t) simp

text \<open>
  Claim C8. A sequence of length zero is legal. A legal forward call with \<open>T = 0\<close> is
  accepted, makes no \<open>Iterate\<close> call and returns \<open>h\<close> of shape \<open>[0, N, H]\<close> and \<open>v\<close> of
  shape \<open>[0, N, 4H]\<close> (or \<open>[0, N, 0]\<close>), both without elements. A legal backward call with
  \<open>T = 0\<close> is accepted, makes no \<open>Iterate\<close> call and returns all-zero \<open>dW\<close>, \<open>dR\<close>, \<open>dbx\<close>,
  \<open>dbr\<close> of their full shapes and a \<open>dx\<close> of shape \<open>[0, N, C]\<close> without elements.
\<close>

theorem zero_length_sequence:
  fixes iterate :: "'a::zero ForwardIterate" and giterate :: "'a BackwardIterate"
  shows "(legal_forward op alloc inp proc \<and> dim_size (f_input inp) 0 = 0 \<longrightarrow>
            (let N = dim_size (f_input inp) 1;
                 H = dim_size (f_recurrent_kernel inp) 0;
                 run = HasteGruOp_Compute iterate op alloc inp proc
             in f_outcome run =
                  Inr \<lparr>out_h = \<lparr>shape = [0, N, H], flat = []\<rparr>,
                       out_v = \<lparr>shape = [0, N, if training op then H * 4 else 0],
                                flat = []\<rparr>\<rparr> \<and>
                f_calls run = [])) \<and>
         (legal_backward galloc ginp gproc \<and> dim_size (g_input ginp) 0 = 0 \<longrightarrow>
            (let C = dim_size (g_input ginp) 1;
                 N = dim_size (g_input ginp) 2;
                 H = dim_size (g_recurrent_kernel ginp) 1;
                 run = HasteGruGradOp_Compute giterate galloc ginp gproc
             in g_outcome run =
                  Inr \<lparr>out_dx = \<lparr>shape = [0, N, C], flat = []\<rparr>,
                       out_dW = \<lparr>shape = [C, H * 3], flat = replicate (nat (C * (H * 3))) 0\<rparr>,
                       out_dR = \<lparr>shape = [H, H * 3], flat = replicate (nat (H * (H * 3))) 0\<rparr>,
                       out_dbx = \<lparr>shape = [H * 3], flat = replicate (nat (H * 3)) 0\<rparr>,
                       out_dbr = \<lparr>shape = [H * 3], flat = replicate (nat (H * 3)) 0\<rparr>\<rparr> \<and>
                g_calls run = []))"
proof (intro conjI impI)
  assume "legal_forward op alloc inp proc \<and> dim_size (f_input inp) 0 = 0"
  then have legal: "legal_forward op alloc inp proc" and T: "dim_size (f_input inp) 0 = 0"
    by simp_all
  obtain b bh proc' st where
    b: "HasteGruOp_buffers op alloc inp = Inr b" and
    run: "HasteGruOp_loop iterate
          \<lparr>fp_training = training op, fp_batch_size = dim_size (f_input inp) 1,
           fp_input_size = dim_size (f_input inp) 2,
           fp_hidden_size = dim_size (f_recurrent_kernel inp) 0, fp_blas_handle = bh\<rparr>
          op inp (zoneout_prob op \<noteq> 0 \<and> NumElements (f_zoneout_mask inp) \<noteq> 0)
          (dim_size (f_input inp) 0) 0 b = (None, st)" and
    c: "HasteGruOp_Compute iterate op alloc inp proc =
          \<lparr>f_outcome = Inr \<lparr>out_h = fs_output st, out_v = fs_v_out st\<rparr>,
           f_calls = fs_calls st, f_process = proc'\<rparr>"
    using legal_forward_completes [OF legal, of iterate] by blast
  have st: "st = b"
    using run unfolding T by (simp add: HasteGruOp_loop.simps)
  note f = HasteGruOp_buffers_Inr [OF b, unfolded T]
  have h: "fs_output b = \<lparr>shape = [0, dim_size (f_input inp) 1,
                                    dim_size (f_recurrent_kernel inp) 0], flat = []\<rparr>"
    using f(3,4) by (intro tensor_eqI) simp_all
  have v: "fs_v_out b = \<lparr>shape = [0, dim_size (f_input inp) 1,
              if training op then dim_size (f_recurrent_kernel inp) 0 * 4 else 0], flat = []\<rparr>"
    using f(5,6) by (intro tensor_eqI) simp_all
  show "let N = dim_size (f_input inp) 1;
            H = dim_size (f_recurrent_kernel inp) 0;
            run = HasteGruOp_Compute iterate op alloc inp proc
        in f_outcome run =
             Inr \<lparr>out_h = \<lparr>shape = [0, N, H], flat = []\<rparr>,
                  out_v = \<lparr>shape = [0, N, if training op then H * 4 else 0], flat = []\<rparr>\<rparr> \<and>
           f_calls run = []"
    unfolding Let_def c st using h v f(1) by simp
next
  assume "legal_backward galloc ginp gproc \<and> dim_size (g_input ginp) 0 = 0"
  then have legal: "legal_backward galloc ginp gproc" and T: "dim_size (g_input ginp) 0 = 0"
    by simp_all
  obtain b where b: "HasteGruGradOp_buffers galloc ginp = Inr b"
    using legal_backward_buffers [OF legal] by blast
  from legal have ready: "handles_ready gproc"
    unfolding legal_backward_def Let_def by simp
  obtain bh proc' where g: "GetCublasHandle gproc = (Some bh, proc')"
    using GetCublasHandle_ready [OF ready] by simp
  note f = HasteGruGradOp_buffers_Inr [OF b, unfolded T]
  have dx: "bs_dx (bb_state b) =
      \<lparr>shape = [0, dim_size (g_input ginp) 2, dim_size (g_input ginp) 1], flat = []\<rparr>"
    using f(3,4) by (intro tensor_eqI) simp_all
  have dW: "bs_dW (bb_state b) =
      \<lparr>shape = [dim_size (g_input ginp) 1, dim_size (g_recurrent_kernel ginp) 1 * 3],
       flat = replicate (nat (dim_size (g_input ginp) 1 *
                              (dim_size (g_recurrent_kernel ginp) 1 * 3))) 0\<rparr>"
    using f(5,6) by (intro tensor_eqI)
  have dR: "bs_dR (bb_state b) =
      \<lparr>shape = [dim_size (g_recurrent_kernel ginp) 1, dim_size (g_recurrent_kernel ginp) 1 * 3],
       flat = replicate (nat (dim_size (g_recurrent_kernel ginp) 1 *
                              (dim_size (g_recurrent_kernel ginp) 1 * 3))) 0\<rparr>"
    using f(7,8) by (intro tensor_eqI)
  have dbx: "bs_dbx (bb_state b) =
      \<lparr>shape = [dim_size (g_recurrent_kernel ginp) 1 * 3],
       flat = replicate (nat (dim_size (g_recurrent_kernel ginp) 1 * 3)) 0\<rparr>"
    using f(9,10) by (intro tensor_eqI)
  have dbr: "bs_dbr (bb_state b) =
      \<lparr>shape = [dim_size (g_recurrent_kernel ginp) 1 * 3],
       flat = replicate (nat (dim_size (g_recurrent_kernel ginp) 1 * 3)) 0\<rparr>"
    using f(11,12) by (intro tensor_eqI)
  have c: "HasteGruGradOp_Compute giterate galloc ginp gproc =
        \<lparr>g_outcome = Inr \<lparr>out_dx = bs_dx (bb_state b), out_dW = bs_dW (bb_state b),
                          out_dR = bs_dR (bb_state b), out_dbx = bs_dbx (bb_state b),
                          out_dbr = bs_dbr (bb_state b)\<rparr>,
         g_calls = bs_calls (bb_state b), g_process = proc'\<rparr>"
    unfolding HasteGruGradOp_Compute_def Let_def T
    using b g by (simp add: HasteGruGradOp_loop.simps)
  show "let C = dim_size (g_input ginp) 1;
            N = dim_size (g_input ginp) 2;
            H = dim_size (g_recurrent_kernel ginp) 1;
            run = HasteGruGradOp_Compute giterate galloc ginp gproc
        in g_outcome run =
             Inr \<lparr>out_dx = \<lparr>shape = [0, N, C], flat = []\<rparr>,
                  out_dW = \<lparr>shape = [C, H * 3], flat = replicate (nat (C * (H * 3))) 0\<rparr>,
                  out_dR = \<lparr>shape = [H, H * 3], flat = replicate (nat (H * (H * 3))) 0\<rparr>,
                  out_dbx = \<lparr>shape = [H * 3], flat = replicate (nat (H * 3)) 0\<rparr>,
                  out_dbr = \<lparr>shape = [H * 3], flat = replicate (nat (H * 3)) 0\<rparr>\<rparr> \<and>
           g_calls run = []"
    unfolding Let_def c using dx dW dR dbx dbr f(1) by simp
qed

theorem zero_length_sequence_witness:
  "legal_forward \<lparr>training = True, zoneout_prob = 1 / 2\<rparr> roomy empty_forward
     (process_start 1 0) \<and>
   dim_size (f_input empty_forward) 0 = 0 \<and>
   legal_backward roomy empty_backward (process_start 1 0) \<and>
   dim_size (g_input empty_backward) 0 = 0 \<and>
   (let N = dim_size (f_input empty_forward) 1;
        H = dim_size (f_recurrent_kernel empty_forward) 0;
        run = HasteGruOp_Compute idle_forward \<lparr>training = True, zoneout_prob = 1 / 2\<rparr> roomy
                empty_forward (process_start 1 0)
    in f_outcome run =
         Inr \<lparr>out_h = \<lparr>shape = [0, N, H], flat = []\<rparr>,
              out_v = \<lparr>shape = [0, N, if training \<lparr>training = True, zoneout_prob = 1 / 2\<rparr>
                                       then H * 4 else 0],
                       flat = []\<rparr>\<rparr> \<and>
       f_calls run = []) \<and>
   (let C = dim_size (g_input empty_backward) 1;
        N = dim_size (g_input empty_backward) 2;
        H = dim_size (g_recurrent_kernel empty_backward) 1;
        run = HasteGruGradOp_Compute idle_backward roomy empty_backward (process_start 1 0)
    in g_outcome run =
         Inr \<lparr>out_dx = \<lparr>shape = [0, N, C], flat = []\<rparr>,
              out_dW = \<lparr>shape = [C, H * 3], flat = replicate (nat (C * (H * 3))) 0\<rparr>,
              out_dR = \<lparr>shape = [H, H * 3], flat = replicate (nat (H * (H * 3))) 0\<rparr>,
              out_dbx = \<lparr>shape = [H * 3], flat = replicate (nat (H * 3)) 0\<rparr>,
              out_dbr = \<lparr>shape = [H * 3], flat = replicate (nat (H * 3)) 0\<rparr>\<rparr> \<and>
       g_calls run = []) \<and>
   (case g_outcome (HasteGruGradOp_Compute idle_backward roomy empty_backward
           (process_start 1 0)) of
      Inl e \<Rightarrow> False
    | Inr out \<Rightarrow> shape (out_dW out) = [1, 3] \<and> length (flat (out_dW out)) = 3 \<and>
                 shape (out_dx out) = [0, 1, 1])"
proof -
  have h1: "legal_forward \<lparr>training = True, zoneout_prob = 1 / 2\<rparr> roomy empty_forward
     (process_start 1 0)"
    by (simp add: legal_forward_def empty_forward_def tiny_forward_def roomy_def dim_size_def
        well_formed_def representable_def allocatable_def NumElements_def handles_ready_def
        process_start_def)
  have h2: "dim_size (f_input empty_forward) 0 = 0"
    by (simp add: empty_forward_def tiny_forward_def dim_size_def)
  have h3: "legal_backward roomy empty_backward (process_start 1 0)"
    by (simp add: legal_backward_def empty_backward_def tiny_backward_def roomy_def dim_size_def
        well_formed_def representable_def allocatable_def NumElements_def handles_ready_def
        process_start_def)
  have h4: "dim_size (g_input empty_backward) 0 = 0"
    by (simp add: empty_backward_def tiny_backward_def dim_size_def)
  have o: "case g_outcome (HasteGruGradOp_Compute idle_backward roomy empty_backward
           (process_start 1 0)) of
      Inl e \<Rightarrow> False
    | Inr out \<Rightarrow> shape (out_dW out) = [1, 3] \<and> length (flat (out_dW out)) = 3 \<and>
                 shape (out_dx out) = [0, 1, 1]"
    by (simp add: run_backward empty_backward_def)
  show ?thesis
    using h1 h2 h3 h4 o
      zero_length_sequence [where iterate = idle_forward
        and op = "\<lparr>training = True, zoneout_prob = 1 / 2\<rparr>" and alloc = roomy
        and inp = empty_forward and proc = "process_start 1 0" and giterate = idle_backward
        and galloc = roomy and ginp = empty_backward and gproc = "process_start 1 0"]
    by blast
qed

end
